theory Spec2Isabelle
  imports Complex_Main
begin

section \<open>Tensors as lists\<close>

text \<open>
  The descriptor \<^verbatim>\<open>DescrptSeAtten\<close> (file \<^verbatim>\<open>deepmd/descriptor/se_atten.py\<close>) builds its
  result out of tensor operations.  A rank-1 tensor is a list, a rank-2 tensor a list of
  rows, a rank-3 tensor a list of matrices.  Integer tensors hold \<^verbatim>\<open>int32\<close> values, kept as
  \<^typ>\<open>int\<close> with the wrap-around written out by \<open>i32\<close>; floating tensors are idealised as
  \<^typ>\<open>real\<close>.  Every raise of the Python code and every failing tensor operation is a value
  of \<open>error\<close>.
\<close>

datatype error =
    AssertionError string
  | RuntimeError string
  | ValueError
  | IndexError
  | ShapeError
  | LookupError

definition i32 :: "int \<Rightarrow> int" where
  "i32 x = (x + 2 ^ 31) mod 2 ^ 32 - 2 ^ 31"

definition rows_of :: "nat \<Rightarrow> nat \<Rightarrow> 'a list \<Rightarrow> 'a list list" where
  "rows_of r c xs = map (\<lambda>i. take c (drop (i * c) xs)) [0..<r]"

text \<open>
  \<^verbatim>\<open>tf.reshape(x, [-1, c])\<close> on the flat data of \<open>x\<close>.  When \<open>c\<close> is \<open>0\<close> the operation
  infers the missing dimension from the dimensions that are not \<open>0\<close>: an empty rank-1 tensor
  becomes one empty row, and a tensor that has elements cannot be reshaped.
\<close>

definition reshape_m1 :: "nat \<Rightarrow> 'a list \<Rightarrow> error + 'a list list" where
  "reshape_m1 c xs =
     (if c = 0 then (if xs = [] then Inr [[]] else Inl ShapeError)
      else if length xs mod c \<noteq> 0 then Inl ShapeError
      else Inr (rows_of (length xs div c) c xs))"

text \<open>\<^verbatim>\<open>tf.nn.embedding_lookup(params, ids)\<close>: every id has to be a row number of \<open>params\<close>.\<close>

definition embedding_lookup :: "'a list \<Rightarrow> int list \<Rightarrow> error + 'a list" where
  "embedding_lookup params ids =
     (if list_all (\<lambda>i. 0 \<le> i \<and> i < int (length params)) ids
      then Inr (map (\<lambda>i. params ! nat i) ids)
      else Inl LookupError)"

text \<open>Addition of two \<^verbatim>\<open>int32\<close> matrices of equal width, broadcasting over the first axis.\<close>

definition add_rows :: "int list \<Rightarrow> int list \<Rightarrow> int list" where
  "add_rows xs ys = map2 (\<lambda>x y. i32 (x + y)) xs ys"

definition add_bcast :: "int list list \<Rightarrow> int list list \<Rightarrow> error + int list list" where
  "add_bcast A B =
     (if length A = length B then Inr (map2 add_rows A B)
      else if length A = 1 then Inr (map (add_rows (hd A)) B)
      else if length B = 1 then Inr (map (\<lambda>a. add_rows a (hd B)) A)
      else Inl ShapeError)"

section \<open>The type-exclusion mask\<close>

text \<open>
  \<^verbatim>\<open>type_mask = np.array([[1 if (tt_i, tt_j) not in exclude_types else 0
                          for tt_i in range(ntypes + 1)] for tt_j in range(ntypes)])\<close>
\<close>

definition type_mask :: "(int \<times> int) list \<Rightarrow> int \<Rightarrow> real list list" where
  "type_mask exclude_types ntypes =
     map (\<lambda>tt_j. map (\<lambda>tt_i. if (tt_i, tt_j) \<notin> set exclude_types then 1 else 0) [0..ntypes])
       [0..ntypes - 1]"

text \<open>
  \<^verbatim>\<open>ndescrpt\<close> is the attribute \<^verbatim>\<open>self.ndescrpt\<close>, a NumPy integer: its floor division
  \<^verbatim>\<open>ndescrpt // sel[0]\<close> by \<open>0\<close> gives \<open>0\<close> (with a warning) and does not raise.
\<close>

definition build_type_exclude_mask ::
  "(int \<times> int) list \<Rightarrow> int \<Rightarrow> nat list \<Rightarrow> nat \<Rightarrow> int list \<Rightarrow> nat \<Rightarrow> int list
     \<Rightarrow> error + real list list" where
  "build_type_exclude_mask exclude_types ntypes sel ndescrpt atype shape0 nei_type_vec =
     (let type_mask_flat = concat (type_mask exclude_types ntypes);
          idx_i = map (\<lambda>a. replicate ndescrpt (i32 (a * (ntypes + 1)))) atype
      in case sel of
           [] \<Rightarrow> Inl IndexError
         | sel0 # _ \<Rightarrow>
             if length nei_type_vec \<noteq> shape0 * sel0 then Inl ShapeError
             else
               let k = (if sel0 = 0 then 0 else ndescrpt div sel0);
                   idx_j3 = map (map (replicate k)) (rows_of shape0 sel0 nei_type_vec)
               in if shape0 * sel0 * k \<noteq> shape0 * ndescrpt then Inl ShapeError
                  else
                    (case add_bcast idx_i (map concat idx_j3) of
                       Inl e \<Rightarrow> Inl e
                     | Inr idx \<Rightarrow>
                         (case embedding_lookup type_mask_flat (concat idx) of
                            Inl e \<Rightarrow> Inl e
                          | Inr m \<Rightarrow> reshape_m1 ndescrpt m)))"


section \<open>Matrices\<close>

text \<open>
  The widths of the operands are static shapes in the source; the products below take them
  as arguments where they cannot be read off a (possibly empty) operand.
\<close>

definition dot :: "real list \<Rightarrow> real list \<Rightarrow> real" where
  "dot xs ys = sum_list (map2 (*) xs ys)"

definition col :: "nat \<Rightarrow> real list list \<Rightarrow> real list" where
  "col j A = map (\<lambda>r. r ! j) A"

text \<open>\<^verbatim>\<open>tf.matmul(A, B, transpose_b=True)\<close>\<close>

definition matmul_tb :: "real list list \<Rightarrow> real list list \<Rightarrow> real list list" where
  "matmul_tb A B = map (\<lambda>a. map (dot a) B) A"

text \<open>\<^verbatim>\<open>tf.matmul(A, B)\<close>, \<open>B\<close> of width \<open>m\<close>\<close>

definition matmul :: "nat \<Rightarrow> real list list \<Rightarrow> real list list \<Rightarrow> real list list" where
  "matmul m A B = map (\<lambda>a. map (\<lambda>j. dot a (col j B)) [0..<m]) A"

text \<open>\<^verbatim>\<open>tf.matmul(A, B, transpose_a=True)\<close>, \<open>A\<close> of width \<open>n\<close> and \<open>B\<close> of width \<open>m\<close>\<close>

definition matmul_ta :: "nat \<Rightarrow> nat \<Rightarrow> real list list \<Rightarrow> real list list \<Rightarrow> real list list" where
  "matmul_ta n m A B = map (\<lambda>i. map (\<lambda>j. dot (col i A) (col j B)) [0..<m]) [0..<n]"

text \<open>\<^verbatim>\<open>tf.reshape(x, [-1, n, w])\<close> of a matrix \<open>x\<close> of width \<open>w\<close>: groups of \<open>n\<close> rows.\<close>

definition group_rows :: "nat \<Rightarrow> 'a list \<Rightarrow> error + 'a list list" where
  "group_rows n rows =
     (if n = 0 \<or> length rows mod n \<noteq> 0 then Inl ShapeError
      else Inr (rows_of (length rows div n) n rows))"

text \<open>\<^verbatim>\<open>tf.nn.l2_normalize(x, -1)\<close> and \<^verbatim>\<open>tf.nn.softmax(x, axis=-1)\<close> on one row.\<close>

definition l2_normalize :: "real list \<Rightarrow> real list" where
  "l2_normalize x = map (\<lambda>v. v / sqrt (max (sum_list (map (\<lambda>u. u * u) x)) (1 / 10 ^ 12))) x"

definition softmax :: "real list \<Rightarrow> real list" where
  "softmax x = map (\<lambda>v. exp v / sum_list (map exp x)) x"


section \<open>The descriptor object\<close>

text \<open>
  The fields of \<^verbatim>\<open>self\<close> that the graph construction reads.  \<open>sel_a\<close>, \<open>nnei\<close>,
  \<open>ndescrpt\<close>, \<open>compress\<close> and \<open>original_sel\<close> are set by the base class
  \<^verbatim>\<open>DescrptSeA\<close>, the others by the constructor of \<^verbatim>\<open>DescrptSeAtten\<close>.
\<close>

record config =
  ntypes :: int
  sel_a :: "nat list"
  sel_all_a :: "nat list"
  nnei :: nat
  ndescrpt :: nat
  filter_neuron :: "nat list"
  n_axis_neuron :: nat
  type_one_side :: bool
  exclude_types :: "(int \<times> int) list"
  original_sel :: "nat list option"
  compress :: bool
  att_n :: nat
  attn_layer :: nat
  attn_dotr :: bool
  attn_mask :: bool
  davg :: "real list list option"
  dstd :: "real list list option"

text \<open>
  The learned parameters.  \<^verbatim>\<open>embedding_net\<close> and \<^verbatim>\<open>one_layer\<close> come from
  \<^verbatim>\<open>deepmd.utils.network\<close> and \<^verbatim>\<open>LayerNormalization\<close> from Keras; each acts on the last
  axis, so it is a function on one row, selected by the name (suffix) of its variables and, for
  the attention layers, by the number of the layer.  The random seeds of the source only choose
  the initial values of these parameters.
\<close>

record nets =
  embedding_net :: "string \<Rightarrow> real list \<Rightarrow> real list"
  one_layer :: "nat \<Rightarrow> string \<Rightarrow> real list \<Rightarrow> real list"
  layer_normalization :: "nat \<Rightarrow> real list \<Rightarrow> real list"
  embedding_compose_s :: "real list"
  embedding_compose_n :: "real list"

text \<open>
  What \<^verbatim>\<open>build\<close> stores on \<^verbatim>\<open>self\<close> from the environment-matrix operator and what the
  attention reads back: the flat neighbour types, the validity mask (one row per atom) and
  \<^verbatim>\<open>negative_mask\<close>.
\<close>

record env =
  nei_type_vec :: "int list"
  nmask :: "real list list"
  negative_mask :: "real list list"

section \<open>Attention\<close>

text \<open>
  The attention weights of one atom inside \<^verbatim>\<open>_scaled_dot_attn\<close>, up to the product with
  \<open>V\<close>: \<open>nm\<close> and \<open>neg\<close> are the atom's rows of \<^verbatim>\<open>self.nmask\<close> and
  \<^verbatim>\<open>self.negative_mask\<close>.
\<close>

definition ones_minus_eye :: "nat \<Rightarrow> real list list" where
  "ones_minus_eye nei = map (\<lambda>i. map (\<lambda>j. 1 - (if i = j then 1 else 0)) [0..<nei]) [0..<nei]"

definition attn_scores :: "real list \<Rightarrow> real list \<Rightarrow> real list list \<Rightarrow> real list list \<Rightarrow> real
    \<Rightarrow> real list list" where
  "attn_scores nm neg Q K temperature =
     (let attn = matmul_tb (map (map (\<lambda>q. q / temperature)) Q) K;
          attn = map (\<lambda>row. map2 (*) row nm) attn;
          attn = map (\<lambda>row. map2 (+) row neg) attn
      in attn)"

definition attn_weight_saved :: "real list \<Rightarrow> real list \<Rightarrow> real list list \<Rightarrow> real list list \<Rightarrow> real
    \<Rightarrow> real list list" where
  "attn_weight_saved nm neg Q K temperature =
     (let attn = attn_scores nm neg Q K temperature;
          attn = map softmax attn;
          attn = map2 (\<lambda>row m. map (\<lambda>x. x * m) row) attn nm
      in attn)"

definition attn_weight_gated :: "real list \<Rightarrow> real list \<Rightarrow> real list list \<Rightarrow> real list list \<Rightarrow> real
    \<Rightarrow> real list list \<Rightarrow> bool \<Rightarrow> real list list" where
  "attn_weight_gated nm neg Q K temperature input_r dotr =
     (let attn = attn_weight_saved nm neg Q K temperature
      in if dotr then map2 (map2 (*)) attn (matmul_tb input_r input_r) else attn)"

definition scaled_dot_attn_atom :: "nat \<Rightarrow> real list \<Rightarrow> real list \<Rightarrow> real list list \<Rightarrow> real list list
    \<Rightarrow> real list list \<Rightarrow> real \<Rightarrow> real list list \<Rightarrow> bool \<Rightarrow> bool \<Rightarrow> real list list" where
  "scaled_dot_attn_atom width nm neg Q K V temperature input_r dotr do_mask =
     (let attn = attn_weight_gated nm neg Q K temperature input_r dotr;
          attn = (if do_mask then map2 (map2 (*)) attn (ones_minus_eye (length nm)) else attn)
      in matmul width attn V)"

text \<open>
  \<^verbatim>\<open>_scaled_dot_attn\<close> on the batch: one matrix per atom in \<open>Q\<close>, \<open>K\<close>, \<open>V\<close> and
  \<open>input_r\<close>, one row per atom in the two masks.  Operands that do not have the same
  number of atoms, or whose neighbour axis is not as long as the masks', are a
  \<open>ShapeError\<close>.
\<close>

definition scaled_dot_attn :: "nat \<Rightarrow> env \<Rightarrow> real list list list \<Rightarrow> real list list list
    \<Rightarrow> real list list list \<Rightarrow> real \<Rightarrow> real list list list \<Rightarrow> bool \<Rightarrow> bool
    \<Rightarrow> error + real list list list" where
  "scaled_dot_attn width e Q K V temperature input_r dotr do_mask =
     (let n = length Q in
      if length K = n \<and> length V = n \<and> length (nmask e) = n \<and> length (negative_mask e) = n
         \<and> (dotr \<longrightarrow> length input_r = n)
         \<and> list_all (\<lambda>a. length (Q ! a) = length (nmask e ! a)
                        \<and> length (K ! a) = length (nmask e ! a)
                        \<and> length (V ! a) = length (nmask e ! a)
                        \<and> length (negative_mask e ! a) = length (nmask e ! a)
                        \<and> (dotr \<longrightarrow> length (input_r ! a) = length (nmask e ! a))) [0..<n]
      then Inr (map (\<lambda>a. scaled_dot_attn_atom width (nmask e ! a) (negative_mask e ! a)
                           (Q ! a) (K ! a) (V ! a) temperature (input_r ! a) dotr do_mask) [0..<n])
      else Inl ShapeError)"

text \<open>One pass of the loop body of \<^verbatim>\<open>_attention_layers\<close>, and the loop.\<close>

definition attention_layer :: "config \<Rightarrow> nets \<Rightarrow> env \<Rightarrow> nat \<Rightarrow> real list list list \<Rightarrow> bool \<Rightarrow> bool
    \<Rightarrow> nat \<Rightarrow> real list list \<Rightarrow> error + real list list" where
  "attention_layer c p e nei input_r dotr do_mask i input_xyz =
     (let sd_k = sqrt 1;
          Q_c = map (one_layer p i ''c_query'') input_xyz;
          K_c = map (one_layer p i ''c_key'') input_xyz;
          V_c = map (one_layer p i ''c_value'') input_xyz
      in case group_rows nei Q_c of Inl err \<Rightarrow> Inl err | Inr Q3 \<Rightarrow>
         (case group_rows nei K_c of Inl err \<Rightarrow> Inl err | Inr K3 \<Rightarrow>
         (case group_rows nei V_c of Inl err \<Rightarrow> Inl err | Inr V3 \<Rightarrow>
         (case scaled_dot_attn (att_n c) e (map (map l2_normalize) Q3) (map (map l2_normalize) K3)
                 (map (map l2_normalize) V3) sd_k input_r dotr do_mask of
            Inl err \<Rightarrow> Inl err
          | Inr input_att \<Rightarrow>
              let out = map (one_layer p i ''c_out'') (concat input_att);
                  input_xyz = map2 (map2 (+)) input_xyz out
              in Inr (map (layer_normalization p i) input_xyz)))))"

fun attention_loop :: "config \<Rightarrow> nets \<Rightarrow> env \<Rightarrow> nat \<Rightarrow> real list list list \<Rightarrow> bool \<Rightarrow> bool
    \<Rightarrow> nat list \<Rightarrow> real list list \<Rightarrow> error + real list list" where
  "attention_loop c p e nei input_r dotr do_mask [] input_xyz = Inr input_xyz"
| "attention_loop c p e nei input_r dotr do_mask (i # rest) input_xyz =
     (case attention_layer c p e nei input_r dotr do_mask i input_xyz of
        Inl err \<Rightarrow> Inl err
      | Inr input_xyz' \<Rightarrow> attention_loop c p e nei input_r dotr do_mask rest input_xyz')"

definition attention_layers :: "config \<Rightarrow> nets \<Rightarrow> env \<Rightarrow> real list list \<Rightarrow> nat \<Rightarrow> nat
    \<Rightarrow> real list list list \<Rightarrow> bool \<Rightarrow> bool \<Rightarrow> error + real list list" where
  "attention_layers c p e input_xyz layer_num nei input_r dotr do_mask =
     attention_loop c p e nei input_r dotr do_mask [0..<layer_num] input_xyz"


section \<open>Embedding and contraction: \<^verbatim>\<open>_filter_lower\<close>\<close>

text \<open>\<^verbatim>\<open>tf.slice(x, [0, start], [-1, size])\<close>\<close>

definition slice_cols :: "nat \<Rightarrow> nat \<Rightarrow> 'a list list \<Rightarrow> error + 'a list list" where
  "slice_cols start len A =
     (if list_all (\<lambda>row. start + len \<le> length row) A
      then Inr (map (\<lambda>row. take len (drop start row)) A)
      else Inl ShapeError)"

text \<open>Elementwise combination of two matrices, broadcasting over the first axis.\<close>

definition ew_rows :: "(real \<Rightarrow> real \<Rightarrow> real) \<Rightarrow> real list list \<Rightarrow> real list list
    \<Rightarrow> error + real list list" where
  "ew_rows f A B =
     (if length A = length B then Inr (map2 (map2 f) A B)
      else if length A = 1 then Inr (map (map2 f (hd A)) B)
      else if length B = 1 then Inr (map (\<lambda>a. map2 f a (hd B)) A)
      else Inl ShapeError)"

definition add_vec :: "int list \<Rightarrow> int list \<Rightarrow> error + int list" where
  "add_vec xs ys =
     (if length xs = length ys then Inr (add_rows xs ys)
      else if length xs = 1 then Inr (map (\<lambda>y. i32 (hd xs + y)) ys)
      else if length ys = 1 then Inr (map (\<lambda>x. i32 (x + hd ys)) xs)
      else Inl ShapeError)"

text \<open>
  The table of concatenated type embeddings: \<^verbatim>\<open>type_embedding_nei\<close> tiles the table along
  a new first axis, \<^verbatim>\<open>type_embedding_center\<close> along a new second axis, and the two are
  concatenated on the last axis and flattened to \<open>T * T\<close> rows.
\<close>

definition two_side_type_embedding :: "real list list \<Rightarrow> real list list" where
  "two_side_type_embedding type_embedding =
     (let T = length type_embedding;
          type_embedding_nei = replicate T type_embedding;
          type_embedding_center = map (replicate T) type_embedding
      in concat (map2 (map2 (@)) type_embedding_nei type_embedding_center))"

text \<open>
  \<^verbatim>\<open>tmpres1 = self.nei_type_vec * type_embedding_shape[0]\<close>,
  \<^verbatim>\<open>tmpres2 = tf.tile(atype, [self.nnei])\<close>, \<^verbatim>\<open>index_of_two_side = tmpres1 + tmpres2\<close>
\<close>

definition index_of_two_side :: "int list \<Rightarrow> nat \<Rightarrow> nat \<Rightarrow> int list \<Rightarrow> error + int list" where
  "index_of_two_side nei_types T n atype =
     (let tmpres1 = map (\<lambda>t. i32 (t * int T)) nei_types;
          tmpres2 = concat (replicate n atype)
      in add_vec tmpres1 tmpres2)"

text \<open>
  The value of \<^verbatim>\<open>xyz_scatter\<close> after the \<^verbatim>\<open>if self.type_one_side: ... else: ...\<close> of
  \<^verbatim>\<open>_filter_lower\<close>; \<open>xyz_scatter0\<close> is the column of radial scalars.
\<close>

definition embed :: "config \<Rightarrow> nets \<Rightarrow> env \<Rightarrow> string \<Rightarrow> real list list \<Rightarrow> real list list \<Rightarrow> int list
    \<Rightarrow> error + real list list" where
  "embed c p e suffix xyz_scatter0 type_embedding atype =
     (let xyz_scatter = map (embedding_net p suffix) xyz_scatter0 in
      if type_one_side c then
        (let embedding_of_embedding =
               map (embedding_net p (suffix @ ''_ebd_of_ebd'')) type_embedding
         in case embedding_lookup embedding_of_embedding (nei_type_vec e) of
              Inl err \<Rightarrow> Inl err
            | Inr nei_embed \<Rightarrow> ew_rows (+) xyz_scatter nei_embed)
      else
        (let embedding_of_two_side_type_embedding =
               map (embedding_net p (suffix @ ''_two_side_ebd''))
                 (two_side_type_embedding type_embedding)
         in case index_of_two_side (nei_type_vec e) (length type_embedding) (nnei c) atype of
              Inl err \<Rightarrow> Inl err
            | Inr idx \<Rightarrow>
                (case embedding_lookup embedding_of_two_side_type_embedding idx of
                   Inl err \<Rightarrow> Inl err
                 | Inr two_embd \<Rightarrow>
                     (case ew_rows (*) xyz_scatter two_embd of
                        Inl err \<Rightarrow> Inl err
                      | Inr t1 \<Rightarrow>
                          (case ew_rows (+) t1 (map (map2 (*) (embedding_compose_s p)) xyz_scatter) of
                             Inl err \<Rightarrow> Inl err
                           | Inr t2 \<Rightarrow>
                               ew_rows (+) t2 (map (map2 (*) (embedding_compose_n p)) two_embd))))))"

text \<open>
  \<^verbatim>\<open>input_r\<close>: the three coordinate channels of every neighbour slot, normalised.
\<close>

definition input_r_of :: "nat \<Rightarrow> real list list \<Rightarrow> real list list list" where
  "input_r_of n inputs_i =
     map (\<lambda>row. map (\<lambda>slot. l2_normalize (take 3 (drop 1 slot))) (rows_of n 4 row)) inputs_i"

text \<open>
  \<^verbatim>\<open>xyz_scatter_att\<close>: the embedding after the attention layers, one \<open>n \<times> W\<close> matrix per
  atom.
\<close>

definition xyz_scatter_att :: "config \<Rightarrow> nets \<Rightarrow> env \<Rightarrow> string \<Rightarrow> nat \<Rightarrow> real list list
    \<Rightarrow> real list list \<Rightarrow> int list \<Rightarrow> error + real list list list" where
  "xyz_scatter_att c p e suffix n inputs_i type_embedding atype =
     (let inputs_reshape = rows_of (length inputs_i * n) 4 (concat inputs_i);
          xyz_scatter0 = map (take 1) inputs_reshape
      in case embed c p e suffix xyz_scatter0 type_embedding atype of
           Inl err \<Rightarrow> Inl err
         | Inr xyz_scatter \<Rightarrow>
             (case attention_layers c p e xyz_scatter (attn_layer c) n (input_r_of n inputs_i)
                     (attn_dotr c) (attn_mask c) of
                Inl err \<Rightarrow> Inl err
              | Inr att \<Rightarrow> group_rows n att))"

definition filter_lower :: "config \<Rightarrow> nets \<Rightarrow> env \<Rightarrow> string \<Rightarrow> nat \<Rightarrow> nat \<Rightarrow> real list list
    \<Rightarrow> real list list option \<Rightarrow> int list option \<Rightarrow> bool \<Rightarrow> error + real list list list" where
  "filter_lower c p e suffix start_index incrs_index inputs type_embedding atype is_exclude =
     (let outputs_size = 1 # filter_neuron c in
      case slice_cols (start_index * 4) (incrs_index * 4) inputs of
        Inl err \<Rightarrow> Inl err
      | Inr inputs_i \<Rightarrow>
          (case atype of
             None \<Rightarrow> Inl (AssertionError ''atype must exist!!'')
           | Some atype \<Rightarrow>
               (case type_embedding of
                  None \<Rightarrow> Inl ValueError
                | Some type_embedding \<Rightarrow>
                    if compress c then
                      Inl (RuntimeError
                        ''compression of attention descriptor is not supported at the moment'')
                    else if is_exclude then Inl (RuntimeError ''this should not be touched'')
                    else
                      (case xyz_scatter_att c p e suffix incrs_index inputs_i type_embedding atype of
                         Inl err \<Rightarrow> Inl err
                       | Inr att \<Rightarrow>
                           if length att = length inputs_i
                           then Inr (map2 (\<lambda>row E.
                                   matmul_ta 4 (last outputs_size) (rows_of incrs_index 4 row) E)
                                 inputs_i att)
                           else Inl ShapeError))))"

section \<open>Descriptor assembly: \<^verbatim>\<open>_filter\<close>\<close>

text \<open>
  \<^verbatim>\<open>_filter\<close> is only called by \<^verbatim>\<open>_pass_filter\<close>, with inputs of static width
  \<^verbatim>\<open>self.ndescrpt\<close>, which is what \<^verbatim>\<open>shape[1]\<close> reads.  Its first statement computes
  \<^verbatim>\<open>nframes\<close>, which nothing uses.  The decorator \<^verbatim>\<open>cast_precision\<close> converts between
  floating-point precisions and is the identity on reals.
\<close>

text \<open>\<^verbatim>\<open>tf.transpose(q, perm=[0, 2, 1])\<close> on one matrix of width \<open>w\<close>\<close>

definition transpose_w :: "nat \<Rightarrow> real list list \<Rightarrow> real list list" where
  "transpose_w w A = map (\<lambda>j. col j A) [0..<w]"

definition filter_atten :: "config \<Rightarrow> nets \<Rightarrow> env \<Rightarrow> string \<Rightarrow> real list list \<Rightarrow> real list list option
    \<Rightarrow> int list option \<Rightarrow> error + (real list list \<times> real list list list)" where
  "filter_atten c p e suffix inputs type_embedding atype =
     (let outputs_size = 1 # filter_neuron c;
          outputs_size_2 = n_axis_neuron c
      in if sel_a c = [] then Inl IndexError
         else
           (case filter_lower c p e suffix 0 (sum_list (sel_a c)) inputs type_embedding atype False of
              Inl err \<Rightarrow> Inl err
            | Inr xyz_scatter_1 \<Rightarrow>
                let nnei = (case original_sel c of
                              None \<Rightarrow> real (ndescrpt c) / 4
                            | Some os \<Rightarrow> real (sum_list os));
                    xyz_scatter_1 = map (map (map (\<lambda>x. x / nnei))) xyz_scatter_1
                in if last outputs_size < outputs_size_2 then Inl ShapeError
                   else
                     let xyz_scatter_2 = map (map (take outputs_size_2)) xyz_scatter_1;
                         qmat = map (\<lambda>G. take 3 (drop 1 G)) xyz_scatter_1;
                         qmat = map (transpose_w (last outputs_size)) qmat;
                         result = map2 (matmul_ta (last outputs_size) outputs_size_2)
                                    xyz_scatter_1 xyz_scatter_2;
                         result = map concat result
                     in Inr (result, qmat)))"


section \<open>\<^verbatim>\<open>_pass_filter\<close> and \<^verbatim>\<open>build\<close>: the values\<close>

text \<open>\<^verbatim>\<open>tf.reshape(x, [a, b, d])\<close> on the flat data of \<open>x\<close>\<close>

definition reshape3 :: "nat \<Rightarrow> nat \<Rightarrow> nat \<Rightarrow> 'a list \<Rightarrow> error + 'a list list list" where
  "reshape3 a b d xs =
     (if length xs = a * b * d then Inr (map (rows_of b d) (rows_of a (b * d) xs))
      else Inl ShapeError)"

text \<open>
  Modelled from the spec: \<^verbatim>\<open>get_dim_out\<close> and \<^verbatim>\<open>get_dim_rot_mat_1\<close> belong to the base
  class \<^verbatim>\<open>DescrptSeA\<close>, which is not part of the sources at hand; the descriptor has length
  \<open>axis_neuron \<sqdot> W\<close> and the rotation matrix \<open>3 \<sqdot> W\<close> entries, \<open>W\<close> the last
  width of the embedding net.
\<close>

definition get_dim_out :: "config \<Rightarrow> error + nat" where
  "get_dim_out c =
     (if filter_neuron c = [] then Inl IndexError
      else Inr (last (filter_neuron c) * n_axis_neuron c))"

definition get_dim_rot_mat_1 :: "config \<Rightarrow> error + nat" where
  "get_dim_rot_mat_1 c =
     (if filter_neuron c = [] then Inl IndexError else Inr (last (filter_neuron c)))"

text \<open>
  The values of \<open>pass_filter\<close> and \<open>build\<close> are those of a system that has atoms and
  neighbour slots, \<open>0 < natoms[0] * ndescrpt\<close>.  Without neighbour slots the program divides
  the contraction by the neighbour count \<open>0\<close>, for which the reals have no counterpart; this
  case is outside the model, which ends it with a \<open>ShapeError\<close>.
\<close>

definition pass_filter :: "config \<Rightarrow> nets \<Rightarrow> env \<Rightarrow> string \<Rightarrow> real list list \<Rightarrow> int list \<Rightarrow> nat list
    \<Rightarrow> (string \<rightharpoonup> real list list) option
    \<Rightarrow> error + (real list list list \<times> real list list list)" where
  "pass_filter c p e suffix inputs atype natoms input_dict =
     (case (case input_dict of None \<Rightarrow> None | Some d \<Rightarrow> d ''type_embedding'') of
        None \<Rightarrow> Inl (AssertionError ''se_atten desctiptor must use type_embedding'')
      | Some type_embedding \<Rightarrow>
          (case natoms of
             [] \<Rightarrow> Inl IndexError
           | natoms0 # _ \<Rightarrow>
               let flat = concat inputs; k = natoms0 * ndescrpt c in
               if k = 0 \<or> length flat mod k \<noteq> 0 then Inl ShapeError
               else
                 let nframes = length flat div k;
                     inputs_i = rows_of (nframes * natoms0) (ndescrpt c) flat
                 in case (if exclude_types c \<noteq> [] then
                            (case build_type_exclude_mask (exclude_types c) (ntypes c) (sel_a c)
                                    (ndescrpt c) atype (length inputs_i) (nei_type_vec e) of
                               Inl err \<Rightarrow> Inl err
                             | Inr m \<Rightarrow> ew_rows (*) inputs_i m)
                          else Inr inputs_i) of
                      Inl err \<Rightarrow> Inl err
                    | Inr inputs_i \<Rightarrow>
                        (case filter_atten c p e suffix inputs_i (Some type_embedding) (Some atype) of
                           Inl err \<Rightarrow> Inl err
                         | Inr (layer, qmat) \<Rightarrow>
                             (case get_dim_out c of Inl err \<Rightarrow> Inl err | Inr dim_out \<Rightarrow>
                             (case reshape3 nframes natoms0 dim_out (concat layer) of
                                Inl err \<Rightarrow> Inl err
                              | Inr layer \<Rightarrow>
                                  (case get_dim_rot_mat_1 c of Inl err \<Rightarrow> Inl err | Inr dim_rot \<Rightarrow>
                                  (case reshape3 nframes natoms0 (dim_rot * 3)
                                          (concat (map concat qmat)) of
                                     Inl err \<Rightarrow> Inl err
                                   | Inr qmat \<Rightarrow> Inr (layer, qmat))))))))"

text \<open>
  The environment-matrix operator \<^verbatim>\<open>op_module.prod_env_mat_a_mix\<close> is an external kernel; it
  is a parameter of \<open>build\<close>.  Of its six results the model keeps the three that the
  descriptor reads: the features, the neighbour types and the validity flags.
\<close>

record env_mat =
  em_descrpt :: "real list list"
  em_nei_type_vec :: "int list list"
  em_nmask :: "bool list list"

type_synonym env_mat_op =
  "real list list \<Rightarrow> int list list \<Rightarrow> nat list \<Rightarrow> real list list \<Rightarrow> int list
     \<Rightarrow> real list list \<Rightarrow> real list list \<Rightarrow> env_mat"

text \<open>\<^verbatim>\<open>tf.clip_by_value(t, lo, hi)\<close> is \<^verbatim>\<open>maximum(minimum(t, hi), lo)\<close>.\<close>

definition clip_by_value :: "int \<Rightarrow> int \<Rightarrow> int \<Rightarrow> int" where
  "clip_by_value t lo hi = max (min t hi) lo"

text \<open>The attributes of \<^verbatim>\<open>self\<close> that hold tensors once \<^verbatim>\<open>build\<close> has returned.\<close>

record built =
  descrpt :: "real list list"
  env_of :: env
  descrpt_reshape :: "real list list"
  atype_nloc :: "int list"
  dout :: "real list list list"
  qmat :: "real list list list"

text \<open>
  The part of \<^verbatim>\<open>build\<close> between the call of the operator and the call of
  \<^verbatim>\<open>_pass_filter\<close> that turns the atom types into \<^verbatim>\<open>self.atype_nloc\<close>.
\<close>

definition atype_nloc_of :: "config \<Rightarrow> nat \<Rightarrow> int list list \<Rightarrow> error + int list" where
  "atype_nloc_of c natoms0 atype =
     (let atype = map (map (\<lambda>t. clip_by_value t 0 (ntypes c - 1))) atype
      in case slice_cols 0 natoms0 atype of
           Inl err \<Rightarrow> Inl err
         | Inr sl \<Rightarrow> Inr (concat sl))"

definition build :: "config \<Rightarrow> nets \<Rightarrow> env_mat_op \<Rightarrow> real list \<Rightarrow> int list \<Rightarrow> nat list \<Rightarrow> real list
    \<Rightarrow> int list \<Rightarrow> (string \<rightharpoonup> real list list) option \<Rightarrow> string \<Rightarrow> error + built" where
  "build c p env_op coord0 atype0 natoms box0 mesh input_dict suffix =
     (let davg = (case davg c of
                    None \<Rightarrow> replicate (nat (ntypes c)) (replicate (ndescrpt c) 0)
                  | Some d \<Rightarrow> d);
          dstd = (case dstd c of
                    None \<Rightarrow> replicate (nat (ntypes c)) (replicate (ndescrpt c) 1)
                  | Some d \<Rightarrow> d)
      in case natoms of
           natoms0 # natoms1 # _ \<Rightarrow>
             (case reshape_m1 (natoms1 * 3) coord0 of Inl err \<Rightarrow> Inl err | Inr coord \<Rightarrow>
             (case reshape_m1 9 box0 of Inl err \<Rightarrow> Inl err | Inr box \<Rightarrow>
             (case reshape_m1 natoms1 atype0 of Inl err \<Rightarrow> Inl err | Inr atype \<Rightarrow>
             (case sel_all_a c of [] \<Rightarrow> Inl IndexError | sel0 # _ \<Rightarrow>
                let em = env_op coord atype natoms box mesh davg dstd;
                    nei_types = concat (em_nei_type_vec em)
                in case reshape_m1 sel0 (map of_bool (concat (em_nmask em))) of
                     Inl err \<Rightarrow> Inl err
                   | Inr nm \<Rightarrow>
                       let neg = map (map (\<lambda>m. - 8589934592 * (1 - m))) nm;
                           e = \<lparr>nei_type_vec = nei_types, nmask = nm, negative_mask = neg\<rparr>
                       in case reshape_m1 (ndescrpt c) (concat (em_descrpt em)) of
                            Inl err \<Rightarrow> Inl err
                          | Inr dr \<Rightarrow>
                              (case atype_nloc_of c natoms0 atype of
                                 Inl err \<Rightarrow> Inl err
                               | Inr an \<Rightarrow>
                                   (case pass_filter c p e suffix dr an natoms input_dict of
                                      Inl err \<Rightarrow> Inl err
                                    | Inr (d, q) \<Rightarrow>
                                        Inr \<lparr>descrpt = em_descrpt em, env_of = e,
                                             descrpt_reshape = dr, atype_nloc = an,
                                             dout = d, qmat = q\<rparr>))))))
         | _ \<Rightarrow> Inl IndexError)"


section \<open>\<^verbatim>\<open>build\<close>: the construction of the graph\<close>

text \<open>
  \<^verbatim>\<open>build\<close> does not compute values; it adds nodes to the TensorFlow graph and stores their
  handles on \<^verbatim>\<open>self\<close>, and the Python checks (\<^verbatim>\<open>assert\<close>, \<^verbatim>\<open>raise\<close>, indexing of the Python
  lists) run while it does so.  The trace below lists, in the order of the source, the named
  constants and variables, the calls of the operator and of the networks, the summaries and the
  assignments to attributes of \<^verbatim>\<open>self\<close>; the anonymous reshape, slice and arithmetic nodes
  between them are left out.  A raise ends the trace and leaves what was created before it.

  Constants and variables carry their name with the variable scope they are created in.
  \<open>EmbeddingNet scope name_suffix\<close> is a call of \<^verbatim>\<open>embedding_net\<close> inside the variable scope
  \<open>scope\<close>; \<open>OneLayer i suffix name\<close> and \<open>LayerNorm i suffix\<close> are the calls of
  \<^verbatim>\<open>one_layer\<close> and of the layer normalisation inside the scope
  \<^verbatim>\<open>attention_layer_{i}{suffix}\<close>.
\<close>

datatype event =
    Const string
  | Var string
  | OpCall string
  | Summary string
  | Assign string
  | AssignAt string nat
  | EmbeddingNet string string
  | OneLayer nat string string
  | LayerNorm nat string

type_synonym trace = "event list \<times> error option"

definition emit :: "event list \<Rightarrow> trace" where
  "emit es = (es, None)"

definition guard :: "bool \<Rightarrow> error \<Rightarrow> trace" where
  "guard ok err = (if ok then ([], None) else ([], Some err))"

definition and_then :: "trace \<Rightarrow> trace \<Rightarrow> trace" where
  "and_then a b = (case snd a of Some err \<Rightarrow> a | None \<Rightarrow> (fst a @ fst b, snd b))"

definition run :: "trace list \<Rightarrow> trace" where
  "run ts = foldr and_then ts ([], None)"

definition attention_layer_graph :: "config \<Rightarrow> string \<Rightarrow> nat \<Rightarrow> event list" where
  "attention_layer_graph c suffix i =
     [OneLayer i suffix ''c_query'', OneLayer i suffix ''c_key'', OneLayer i suffix ''c_value'',
      AssignAt ''attn_weight'' i]
     @ (if attn_dotr c then [AssignAt ''angular_weight'' i, AssignAt ''attn_weight_final'' i]
        else [])
     @ [OneLayer i suffix ''c_out'', LayerNorm i suffix]"

definition filter_lower_graph :: "config \<Rightarrow> string \<Rightarrow> string \<Rightarrow> bool \<Rightarrow> bool \<Rightarrow> bool
    \<Rightarrow> trace" where
  "filter_lower_graph c name suffix has_atype has_type_embedding is_exclude =
     run [
       guard has_atype (AssertionError ''atype must exist!!''),
       guard has_type_embedding ValueError,
       guard (\<not> compress c)
         (RuntimeError ''compression of attention descriptor is not supported at the moment''),
       guard (\<not> is_exclude) (RuntimeError ''this should not be touched''),
       emit [EmbeddingNet name suffix],
       emit (if type_one_side c then [EmbeddingNet name (suffix @ ''_ebd_of_ebd'')]
             else [EmbeddingNet name (suffix @ ''_two_side_ebd''),
                   Var (name @ ''/embedding_compose_s''), Var (name @ ''/embedding_compose_n'')]),
       emit (concat (map (attention_layer_graph c suffix) [0..<attn_layer c]))]"

definition filter_graph :: "config \<Rightarrow> string \<Rightarrow> string \<Rightarrow> trace" where
  "filter_graph c name suffix =
     run [
       guard (sel_a c \<noteq> []) IndexError,
       filter_lower_graph c name suffix True True False,
       emit (case original_sel c of None \<Rightarrow> [] | Some os \<Rightarrow> [Var ''nnei''])]"

definition pass_filter_graph :: "config \<Rightarrow> string \<Rightarrow> (string \<rightharpoonup> real list list) option \<Rightarrow> trace" where
  "pass_filter_graph c suffix input_dict =
     run [
       guard ((case input_dict of None \<Rightarrow> None | Some d \<Rightarrow> d ''type_embedding'') \<noteq> None)
         (AssertionError ''se_atten desctiptor must use type_embedding''),
       (if exclude_types c \<noteq> [] then
          run [guard (sel_a c \<noteq> []) IndexError,
               emit [OpCall ''build_type_exclude_mask'']]
        else emit []),
       filter_graph c (''filter_type_all'' @ suffix) suffix,
       guard (filter_neuron c \<noteq> []) IndexError]"

definition build_graph :: "config \<Rightarrow> string \<Rightarrow> (string \<rightharpoonup> real list list) option \<Rightarrow> trace" where
  "build_graph c suffix input_dict =
     run [
       emit (map (\<lambda>n. Const (''descrpt_attr'' @ suffix @ ''/'' @ n))
               [''rcut'', ''ntypes'', ''ndescrpt'', ''sel'', ''original_sel'']),
       emit [Var (''descrpt_attr'' @ suffix @ ''/t_avg''), Assign ''t_avg'',
             Var (''descrpt_attr'' @ suffix @ ''/t_std''), Assign ''t_std''],
       emit [Assign ''attn_weight'', Assign ''angular_weight'', Assign ''attn_weight_final''],
       emit [OpCall ''prod_env_mat_a_mix'', Assign ''descrpt'', Assign ''descrpt_deriv'',
             Assign ''rij'', Assign ''nlist'', Assign ''nei_type_vec'', Assign ''nmask''],
       emit [Assign ''nei_type_vec''],
       guard (sel_all_a c \<noteq> []) IndexError,
       emit [Assign ''nmask'', Assign ''negative_mask''],
       emit [Summary ''descrpt'', Summary ''rij'', Summary ''nlist''],
       emit [Assign ''descrpt_reshape'', Assign ''atype_nloc'', OpCall ''_identity_tensors''],
       pass_filter_graph c suffix input_dict,
       emit [Assign ''dout'', Assign ''qmat'', Summary ''embedding_net_output'']]"


section \<open>A small system\<close>

text \<open>
  Two atoms of types \<open>0\<close> and \<open>1\<close> in one frame, two neighbour slots each
  (\<open>sel = 2\<close>, all four slots valid), two atom types, the embedding of width \<open>W = 2\<close>,
  one axis neuron, the pairwise (two-sided) type embedding, no attention layer.  The
  environment-matrix operator is the constant function returning the features below; the
  embedding nets are linear.
\<close>

definition ex_config :: config where
  "ex_config = \<lparr>ntypes = 2, sel_a = [2], sel_all_a = [2], nnei = 2, ndescrpt = 8,
     filter_neuron = [2], n_axis_neuron = 1, type_one_side = False, exclude_types = [],
     original_sel = None, compress = False, att_n = 2, attn_layer = 0, attn_dotr = True,
     attn_mask = False, davg = None, dstd = None\<rparr>"

definition ex_nets :: nets where
  "ex_nets = \<lparr>embedding_net = (\<lambda>suffix row. [dot [1, 2] row, 1]),
     one_layer = (\<lambda>i name row. take 2 row),
     layer_normalization = (\<lambda>i row. row),
     embedding_compose_s = [1, 0],
     embedding_compose_n = [0, 1]\<rparr>"

definition ex_type_embedding :: "real list list" where
  "ex_type_embedding = [[0], [1]]"

definition ex_input_dict :: "(string \<rightharpoonup> real list list) option" where
  "ex_input_dict = Some [''type_embedding'' \<mapsto> ex_type_embedding]"

text \<open>
  Atom \<open>0\<close> has a neighbour of type \<open>0\<close> with features \<open>(1, 1, 0, 0)\<close> and a neighbour
  of type \<open>1\<close> with features \<open>(2, 0, 1, 0)\<close>; \<open>ex_env_mat_swapped\<close> lists the same two
  neighbours of atom \<open>0\<close> in the other order.
\<close>

definition ex_env_mat :: env_mat where
  "ex_env_mat = \<lparr>em_descrpt = [[1, 1, 0, 0, 2, 0, 1, 0, 1, 1, 0, 0, 1, 1, 0, 0]],
     em_nei_type_vec = [[0, 1, 0, 0]],
     em_nmask = [[True, True, True, True]]\<rparr>"

definition ex_env_mat_swapped :: env_mat where
  "ex_env_mat_swapped = \<lparr>em_descrpt = [[2, 0, 1, 0, 1, 1, 0, 0, 1, 1, 0, 0, 1, 1, 0, 0]],
     em_nei_type_vec = [[1, 0, 0, 0]],
     em_nmask = [[True, True, True, True]]\<rparr>"

definition ex_coord :: "real list" where
  "ex_coord = [0, 0, 0, 1, 0, 0]"

definition ex_box :: "real list" where
  "ex_box = [9, 0, 0, 0, 9, 0, 0, 0, 9]"

definition ex_natoms :: "nat list" where
  "ex_natoms = [2, 2, 1, 1]"

definition ex_op :: env_mat_op where
  "ex_op coord atype natoms box mesh avg std = ex_env_mat"

definition ex_op_swapped :: env_mat_op where
  "ex_op_swapped coord atype natoms box mesh avg std = ex_env_mat_swapped"

definition ex_env :: env where
  "ex_env = \<lparr>nei_type_vec = [0, 1, 0, 0], nmask = [[1, 1], [1, 1]],
     negative_mask = [[0, 0], [0, 0]]\<rparr>"

definition ex_env_swapped :: env where
  "ex_env_swapped = \<lparr>nei_type_vec = [1, 0, 0, 0], nmask = [[1, 1], [1, 1]],
     negative_mask = [[0, 0], [0, 0]]\<rparr>"

definition ex_inputs :: "real list list" where
  "ex_inputs = [[1, 1, 0, 0, 2, 0, 1, 0], [1, 1, 0, 0, 1, 1, 0, 0]]"

definition ex_inputs_swapped :: "real list list" where
  "ex_inputs_swapped = [[2, 0, 1, 0, 1, 1, 0, 0], [1, 1, 0, 0, 1, 1, 0, 0]]"

text \<open>
  The same system with one attention layer and the gate enabled.  The query and key
  projections are zero, so that every score is \<open>0\<close> and the softmax gives each of the two
  slots the weight \<open>1/2\<close>; the value projection is the unit vector \<open>(1, 0)\<close>, the output
  projection and the layer normalisation are the identity.  The two neighbours of atom \<open>0\<close>
  lie in orthogonal directions, those of atom \<open>1\<close> in the same direction.
\<close>

definition ex_config_att :: config where
  "ex_config_att = ex_config\<lparr>attn_layer := 1\<rparr>"

definition ex_nets_att :: nets where
  "ex_nets_att = ex_nets\<lparr>one_layer := (\<lambda>i name row.
     if name = ''c_out'' then take 2 row else if name = ''c_value'' then [1, 0] else [0, 0])\<rparr>"

text \<open>
  An operator that reports the types it is given: the two neighbour slots of each of the
  two atoms hold the other atom, with the type that the caller supplied for it.
\<close>

definition ex_op_echo :: env_mat_op where
  "ex_op_echo coord atype natoms box mesh avg std =
     ex_env_mat\<lparr>em_nei_type_vec := map (\<lambda>row. [row ! 1, row ! 1, row ! 0, row ! 0]) atype\<rparr>"

section \<open>The mixing rule in the words of the specification\<close>

text \<open>
  \<open>out = base \<odot> pair + s \<sqdot> base + n \<sqdot> pair\<close> on one neighbour slot, with the two learned
  scale vectors of the parameters; used to compare \<open>embed\<close> with.
\<close>

definition spec_mix :: "nets \<Rightarrow> real list \<Rightarrow> real list \<Rightarrow> real list" where
  "spec_mix p base pair =
     map (\<lambda>w. base ! w * pair ! w + embedding_compose_s p ! w * base ! w
                + embedding_compose_n p ! w * pair ! w) [0..<length base]"

text \<open>The same system with the one-sided type embedding.\<close>

definition ex_config_one_side :: config where
  "ex_config_one_side = ex_config\<lparr>type_one_side := True\<rparr>"

section \<open>Lists as tensors: indexing lemmas\<close>


lemma i32_id: "- (2 ^ 31) \<le> x \<Longrightarrow> x < 2 ^ 31 \<Longrightarrow> i32 x = x"
  by (simp add: i32_def)

lemma length_rows_of [simp]: "length (rows_of r c xs) = r"
  by (simp add: rows_of_def)

lemma nth_rows_of: "i < r \<Longrightarrow> rows_of r c xs ! i = take c (drop (i * c) xs)"
  by (simp add: rows_of_def)

lemma length_concat_uniform:
  "\<forall>xs\<in>set xss. length xs = c \<Longrightarrow> length (concat xss) = length xss * c"
  by (induction xss) simp_all

lemma drop_concat_uniform:
  "\<forall>xs\<in>set xss. length xs = c \<Longrightarrow> drop (i * c) (concat xss) = concat (drop i xss)"
proof (induction xss arbitrary: i)
  case Nil
  then show ?case by simp
next
  case (Cons a xss)
  then show ?case by (cases i) simp_all
qed

lemma concat_uniform_nth:
  "\<forall>xs\<in>set xss. length xs = c \<Longrightarrow> i < length xss \<Longrightarrow> j < c
     \<Longrightarrow> concat xss ! (i * c + j) = xss ! i ! j"
proof (induction xss arbitrary: i)
  case Nil
  then show ?case by simp
next
  case (Cons a xss)
  then show ?case by (cases i) (simp_all add: nth_append)
qed

lemma rows_of_concat:
  assumes "\<forall>xs\<in>set xss. length xs = c"
  shows "rows_of (length xss) c (concat xss) = xss"
proof (rule nth_equalityI)
  show "length (rows_of (length xss) c (concat xss)) = length xss" by simp
next
  fix i assume "i < length (rows_of (length xss) c (concat xss))"
  then have i: "i < length xss" by simp
  then obtain x rest where d: "drop i xss = x # rest"
    by (metis Cons_nth_drop_Suc)
  then have "x \<in> set xss" by (metis in_set_dropD list.set_intros(1))
  then have lx: "length x = c" using assms by simp
  have "x = xss ! i" using d i by (metis Cons_nth_drop_Suc list.inject)
  then show "rows_of (length xss) c (concat xss) ! i = xss ! i"
    using i d lx by (simp add: nth_rows_of drop_concat_uniform [OF assms])
qed

lemma reshape_m1_concat:
  assumes "\<forall>xs\<in>set xss. length xs = c" "0 < c"
  shows "reshape_m1 c (concat xss) = Inr xss"
  using assms rows_of_concat [OF assms(1)]
  by (simp add: reshape_m1_def length_concat_uniform [OF assms(1)])

lemma concat_replicate_nth:
  "j < length row \<Longrightarrow> c < k \<Longrightarrow> concat (map (replicate k) row) ! (k * j + c) = row ! j"
proof -
  assume a: "j < length row" "c < k"
  have "concat (map (replicate k) row) ! (j * k + c) = map (replicate k) row ! j ! c"
    by (rule concat_uniform_nth) (use a in auto)
  then show ?thesis using a by (simp add: mult.commute)
qed

lemma length_concat_replicate [simp]:
  "length (concat (map (replicate k) row)) = length row * k"
  by (induction row) simp_all

lemma length_type_mask_row:
  "xs \<in> set (type_mask excl nt) \<Longrightarrow> length xs = nat (nt + 1)"
  by (auto simp: type_mask_def)

lemma length_type_mask: "length (type_mask excl nt) = nat nt"
  by (simp add: type_mask_def)

lemma length_type_mask_flat:
  "length (concat (type_mask excl nt)) = nat nt * nat (nt + 1)"
  using length_concat_uniform [of "type_mask excl nt" "nat (nt + 1)"]
  by (simp add: length_type_mask_row length_type_mask)

lemma type_mask_flat_nth:
  assumes "0 \<le> a" "a < nt" "0 \<le> b" "b \<le> nt"
  shows "concat (type_mask excl nt) ! nat (a * (nt + 1) + b)
           = (if (b, a) \<in> set excl then 0 else 1)"
proof -
  have e: "nat (a * (nt + 1) + b) = nat a * nat (nt + 1) + nat b"
    using assms by (simp add: nat_add_distrib nat_mult_distrib)
  have "concat (type_mask excl nt) ! (nat a * nat (nt + 1) + nat b)
          = type_mask excl nt ! nat a ! nat b"
    by (rule concat_uniform_nth) (use assms in \<open>auto simp: length_type_mask_row length_type_mask\<close>)
  also have "\<dots> = (if (b, a) \<in> set excl then 0 else 1)"
    using assms by (simp add: type_mask_def)
  finally show ?thesis using e by simp
qed


lemma embedding_lookup_ok:
  "list_all (\<lambda>i. 0 \<le> i \<and> i < int (length params)) ids
     \<Longrightarrow> embedding_lookup params ids = Inr (map (\<lambda>i. params ! nat i) ids)"
  by (simp add: embedding_lookup_def)

lemma exclude_idx_bounds:
  assumes "0 \<le> (a::int)" "a < nt" "0 \<le> b" "b \<le> nt"
  shows "0 \<le> a * (nt + 1) + b" "a * (nt + 1) + b < nt * (nt + 1)"
proof -
  have "0 \<le> a * (nt + 1)" by (rule mult_nonneg_nonneg) (use assms in simp_all)
  then show "0 \<le> a * (nt + 1) + b" using assms by simp
  have "a + 1 \<le> nt" using assms by simp
  then have "(a + 1) * (nt + 1) \<le> nt * (nt + 1)"
    using assms by (intro mult_right_mono) simp_all
  then show "a * (nt + 1) + b < nt * (nt + 1)"
    using assms by (simp add: algebra_simps)
qed

lemma exclude_mask_gather:
  assumes sel: "sel = sel0 # rest" and sel0: "0 < sel0"
    and nd: "ndes = 4 * sel0"
    and la: "length atype = shape0"
    and ln: "length neis = shape0 * sel0"
    and ra: "\<forall>a\<in>set atype. 0 \<le> a \<and> a < nt"
    and rn: "\<forall>b\<in>set neis. 0 \<le> b \<and> b \<le> nt"
    and small: "nt * (nt + 1) < 2 ^ 31"
  shows "\<exists>m. build_type_exclude_mask excl nt sel ndes atype shape0 neis
              = Inr m
          \<and> length m = shape0
          \<and> (\<forall>i<shape0. length (m ! i) = ndes
               \<and> (\<forall>k<sel0. \<forall>c<4.
                     m ! i ! (4 * k + c)
                       = concat (type_mask excl nt)
                           ! nat (atype ! i * (nt + 1) + neis ! (i * sel0 + k))
                   \<and> m ! i ! (4 * k + c)
                       = (if (neis ! (i * sel0 + k), atype ! i) \<in> set excl
                          then 0 else 1)))"
proof -
  define tm where "tm = concat (type_mask excl nt)"
  define idx_i where "idx_i = map (\<lambda>a. replicate ndes (i32 (a * (nt + 1)))) atype"
  define idx_j where
    "idx_j = map concat (map (map (replicate (ndes div sel0))) (rows_of shape0 sel0 neis))"
  define idx where "idx = map2 add_rows idx_i idx_j"
  have k4: "ndes div sel0 = 4" using nd sel0 by simp
  have len_idx: "length idx = shape0" by (simp add: idx_def idx_i_def idx_j_def la)
  have nei_row: "rows_of shape0 sel0 neis ! i ! k = neis ! (i * sel0 + k)"
    and nei_row_len: "length (rows_of shape0 sel0 neis ! i) = sel0"
    if "i < shape0" "k < sel0" for i k
  proof -
    have "i * sel0 + sel0 \<le> shape0 * sel0"
      using that by (metis Suc_leI mult_Suc mult_le_mono1 add.commute)
    then show "length (rows_of shape0 sel0 neis ! i) = sel0"
      using that ln by (simp add: nth_rows_of)
    show "rows_of shape0 sel0 neis ! i ! k = neis ! (i * sel0 + k)"
      using that ln by (simp add: nth_rows_of)
  qed
  have nei_in: "neis ! (i * sel0 + k) \<in> set neis" if "i < shape0" "k < sel0" for i k
  proof -
    have "i * sel0 + sel0 \<le> shape0 * sel0"
      using that by (metis Suc_leI mult_Suc mult_le_mono1 add.commute)
    then have "i * sel0 + k < length neis" using that ln by simp
    then show ?thesis by simp
  qed
  have row_len: "length (idx ! i) = ndes" if "i < shape0" for i
    using that sel0 nei_row_len [of i 0]
    by (simp add: idx_def idx_i_def idx_j_def la add_rows_def k4 nd)
  have elem: "idx ! i ! (4 * k + c) = atype ! i * (nt + 1) + neis ! (i * sel0 + k)"
    if "i < shape0" "k < sel0" "c < 4" for i k c
  proof -
    have a: "0 \<le> atype ! i \<and> atype ! i < nt" using ra that la by simp
    have b: "0 \<le> neis ! (i * sel0 + k) \<and> neis ! (i * sel0 + k) \<le> nt"
      using rn nei_in [OF that(1,2)] by blast
    have p: "4 * k + c < ndes" using that nd by simp
    have "0 \<le> atype ! i * (nt + 1) + 0" "atype ! i * (nt + 1) + 0 < nt * (nt + 1)"
      by (rule exclude_idx_bounds; use a in simp)+
    then have ba: "0 \<le> atype ! i * (nt + 1)" "atype ! i * (nt + 1) < 2 ^ 31"
      using small by linarith+
    have bb: "0 \<le> atype ! i * (nt + 1) + neis ! (i * sel0 + k)"
      "atype ! i * (nt + 1) + neis ! (i * sel0 + k) < 2 ^ 31"
      using exclude_idx_bounds [of "atype ! i" nt "neis ! (i * sel0 + k)"] a b small
      by simp_all
    have j: "idx_j ! i ! (4 * k + c) = neis ! (i * sel0 + k)"
      using that nei_row [OF that(1,2)] nei_row_len [OF that(1,2)]
      by (simp add: idx_j_def k4 concat_replicate_nth)
    have lj: "length (idx_j ! i) = ndes"
      using that nei_row_len [OF that(1,2)] by (simp add: idx_j_def k4 nd)
    have "idx ! i ! (4 * k + c) = i32 (i32 (atype ! i * (nt + 1)) + idx_j ! i ! (4 * k + c))"
      using that p lj by (simp add: idx_def idx_i_def idx_j_def la add_rows_def)
    then show ?thesis using j ba bb by (simp add: i32_id)
  qed
  have pos: "\<exists>k c. p = 4 * k + c \<and> k < sel0 \<and> c < 4" if "p < ndes" for p
    using that nd by (intro exI [of _ "p div 4"] exI [of _ "p mod 4"]) auto
  have in_range: "0 \<le> x \<and> x < int (length tm)" if "x \<in> set (concat idx)" for x
  proof -
    from that obtain row where row: "row \<in> set idx" "x \<in> set row" by auto
    then obtain i where i: "i < shape0" "row = idx ! i"
      using len_idx by (metis in_set_conv_nth)
    then obtain p where p: "p < ndes" "x = idx ! i ! p"
      using row row_len [OF i(1)] by (metis in_set_conv_nth)
    then obtain k c where kc: "p = 4 * k + c" "k < sel0" "c < 4" using pos by blast
    have a: "0 \<le> atype ! i \<and> atype ! i < nt" using ra i la by simp
    have b: "0 \<le> neis ! (i * sel0 + k) \<and> neis ! (i * sel0 + k) \<le> nt"
      using rn nei_in [OF i(1) kc(2)] by blast
    have nt: "0 \<le> nt" using a by simp
    have "length tm = nat (nt * (nt + 1))"
      using nt by (simp add: tm_def length_type_mask_flat nat_mult_distrib)
    then show ?thesis
      using exclude_idx_bounds [of "atype ! i" nt "neis ! (i * sel0 + k)"] a b nt
        elem [OF i(1) kc(2,3)] p kc by simp
  qed
  have lookup: "embedding_lookup tm (concat idx) = Inr (map (\<lambda>i. tm ! nat i) (concat idx))"
    by (rule embedding_lookup_ok) (use in_range in \<open>simp add: list_all_iff\<close>)
  define m where "m = map (map (\<lambda>i. tm ! nat i)) idx"
  have mlen: "\<forall>xs\<in>set m. length xs = ndes"
    using row_len len_idx by (auto simp: m_def in_set_conv_nth)
  have "reshape_m1 ndes (map (\<lambda>i. tm ! nat i) (concat idx)) = Inr m"
    using reshape_m1_concat [OF mlen] nd sel0 by (simp add: m_def map_concat)
  moreover have "add_bcast idx_i idx_j = Inr idx"
    by (simp add: add_bcast_def idx_def idx_i_def idx_j_def la)
  moreover have "shape0 * sel0 * (ndes div sel0) = shape0 * ndes"
    using nd sel0 by simp
  ultimately have res:
    "build_type_exclude_mask excl nt sel ndes atype shape0 neis = Inr m"
    using sel0 ln lookup
    unfolding build_type_exclude_mask_def Let_def sel tm_def idx_i_def idx_j_def
    by simp
  have "m ! i ! (4 * k + c) = tm ! nat (atype ! i * (nt + 1) + neis ! (i * sel0 + k))"
    if "i < shape0" "k < sel0" "c < 4" for i k c
    using that elem [OF that] row_len [OF that(1)] len_idx nd by (simp add: m_def)
  moreover have "tm ! nat (atype ! i * (nt + 1) + neis ! (i * sel0 + k))
       = (if (neis ! (i * sel0 + k), atype ! i) \<in> set excl then 0 else 1)"
    if "i < shape0" "k < sel0" for i k
    unfolding tm_def
    by (rule type_mask_flat_nth) (use ra rn nei_in [OF that] that la in auto)
  moreover have "length (m ! i) = ndes" if "i < shape0" for i
    using that row_len len_idx by (simp add: m_def)
  moreover have "length m = shape0" by (simp add: m_def len_idx)
  ultimately show ?thesis using res tm_def by auto
qed


lemma replicate_numeral: "replicate (numeral k) x = x # replicate (pred_numeral k) x"
  by (simp add: numeral_eq_Suc)

section \<open>Exclusion mask\<close>

text \<open>
  Claim C1, as the code has it.  For a well-shaped call (\<open>ndescrpt = 4 * sel[0]\<close>, one centre
  type per atom, \<open>sel[0]\<close> neighbour types per atom, centre types in \<open>0..ntypes-1\<close>,
  neighbour types in \<open>0..ntypes\<close>, the table small enough for \<^verbatim>\<open>int32\<close>)
  \<open>build_type_exclude_mask\<close> returns a mask with one row per atom and four equal entries
  per neighbour slot.  The entry of a slot with centre type \<open>a\<close> and neighbour type \<open>b\<close>
  is read from the flat table of \<open>nt\<close> rows of \<open>nt + 1\<close> entries at
  \<open>idx = a * (nt + 1) + b\<close>, and it is \<open>0\<close> exactly when the pair \<open>(b, a)\<close>,
  neighbour type first, is in the exclusion set, and \<open>1\<close> otherwise.  For a symmetric
  exclusion set this is the same as \<open>(a, b)\<close> being in the set.
\<close>

theorem build_type_exclude_mask_entries:
  assumes "sel = sel0 # rest" and "0 < sel0"
    and "ndes = 4 * sel0"
    and "length atype = shape0"
    and "length neis = shape0 * sel0"
    and "\<forall>a\<in>set atype. 0 \<le> a \<and> a < nt"
    and "\<forall>b\<in>set neis. 0 \<le> b \<and> b \<le> nt"
    and "nt * (nt + 1) < 2 ^ 31"
  shows "\<exists>m. build_type_exclude_mask excl nt sel ndes atype shape0 neis
              = Inr m
          \<and> length m = shape0
          \<and> length (concat (type_mask excl nt)) = nat nt * nat (nt + 1)
          \<and> (\<forall>i<shape0. length (m ! i) = ndes
               \<and> (\<forall>k<sel0. \<forall>c<4.
                     m ! i ! (4 * k + c)
                       = concat (type_mask excl nt)
                           ! nat (atype ! i * (nt + 1) + neis ! (i * sel0 + k))
                   \<and> m ! i ! (4 * k + c)
                       = (if (neis ! (i * sel0 + k), atype ! i) \<in> set excl
                          then 0 else 1)
                   \<and> ((\<forall>x y. (x, y) \<in> set excl \<longrightarrow> (y, x) \<in> set excl)
                        \<longrightarrow> m ! i ! (4 * k + c)
                              = (if (atype ! i, neis ! (i * sel0 + k)) \<in> set excl
                                 then 0 else 1))))"
proof -
  from exclude_mask_gather [OF assms, of excl]
  obtain m where m: "build_type_exclude_mask excl nt sel ndes atype shape0
        neis = Inr m" "length m = shape0"
    and e: "\<And>i k c. i < shape0 \<Longrightarrow> k < sel0 \<Longrightarrow> c < 4 \<Longrightarrow>
        m ! i ! (4 * k + c)
          = concat (type_mask excl nt)
              ! nat (atype ! i * (nt + 1) + neis ! (i * sel0 + k))
        \<and> m ! i ! (4 * k + c)
          = (if (neis ! (i * sel0 + k), atype ! i) \<in> set excl then 0 else 1)"
    and l: "\<And>i. i < shape0 \<Longrightarrow> length (m ! i) = ndes"
    by blast
  have s: "(\<forall>x y. (x, y) \<in> set excl \<longrightarrow> (y, x) \<in> set excl)
        \<longrightarrow> m ! i ! (4 * k + c)
            = (if (atype ! i, neis ! (i * sel0 + k)) \<in> set excl then 0 else 1)"
    if "i < shape0" "k < sel0" "c < 4" for i k c
  proof
    assume "\<forall>x y. (x, y) \<in> set excl \<longrightarrow> (y, x) \<in> set excl"
    then have "((neis ! (i * sel0 + k), atype ! i) \<in> set excl)
        = ((atype ! i, neis ! (i * sel0 + k)) \<in> set excl)"
      by blast
    then show "m ! i ! (4 * k + c)
        = (if (atype ! i, neis ! (i * sel0 + k)) \<in> set excl then 0 else 1)"
      using e [OF that] by simp
  qed
  show ?thesis
    using m e l s length_type_mask_flat [of excl nt] by blast
qed

theorem build_type_exclude_mask_entries_witness:
  "\<exists>m. build_type_exclude_mask [(0, 1), (1, 0)] 2 [2] 8 [0, 1] 2 [1, 0, 2, 0] = Inr m
     \<and> length m = 2
     \<and> (\<forall>i<2. length (m ! i) = 8
          \<and> (\<forall>k<2. \<forall>c<4.
                m ! i ! (4 * k + c)
                  = (if ([1, 0, 2, 0 :: int] ! (i * 2 + k), [0, 1 :: int] ! i)
                          \<in> set [(0, 1), (1, 0)]
                     then 0 else 1)))"
proof -
  have h1: "[2] = (2 :: nat) # []" and h2: "0 < (2 :: nat)" and h3: "(8 :: nat) = 4 * 2"
    and h4: "length [0, 1 :: int] = 2" and h5: "length [1, 0, 2, 0 :: int] = 2 * 2"
    and h6: "\<forall>a\<in>set [0, 1 :: int]. 0 \<le> a \<and> a < 2"
    and h7: "\<forall>b\<in>set [1, 0, 2, 0 :: int]. 0 \<le> b \<and> b \<le> 2"
    and h8: "(2 :: int) * (2 + 1) < 2 ^ 31"
    by simp_all
  from build_type_exclude_mask_entries [OF h1 h2 h3 h4 h5 h6 h7 h8, of "[(0, 1), (1, 0)]"]
  show ?thesis by blast
qed

text \<open>
  With the one-sided exclusion set \<open>{(0, 1)}\<close> the slot with centre type \<open>0\<close> and
  neighbour type \<open>1\<close> keeps the mask \<open>1\<close>, and the slot with centre type \<open>1\<close> and
  neighbour type \<open>0\<close> gets \<open>0\<close>.
\<close>

theorem build_type_exclude_mask_pair_order_counterexample:
  "(0, 1) \<in> set [(0, 1 :: int)]
   \<and> build_type_exclude_mask [(0, 1)] 2 [1] 4 [0] 1 [1] = Inr [[1, 1, 1, 1]]
   \<and> (1, 0) \<notin> set [(0, 1 :: int)]
   \<and> build_type_exclude_mask [(0, 1)] 2 [1] 4 [1] 1 [0] = Inr [[0, 0, 0, 0]]"
  by (simp add: build_type_exclude_mask_def type_mask_def add_bcast_def add_rows_def i32_def
      rows_of_def embedding_lookup_def reshape_m1_def upto.simps replicate_numeral)

text \<open>
  Without neighbour slots (\<^verbatim>\<open>sel = [0]\<close>, hence \<^verbatim>\<open>ndescrpt = 0\<close>) the mask is the one
  empty row.
\<close>

lemma build_type_exclude_mask_no_slots:
  "build_type_exclude_mask [(0, 1)] 2 [0] 0 [0] 1 [] = Inr [[]]"
  by (simp add: build_type_exclude_mask_def type_mask_def add_bcast_def add_rows_def
      rows_of_def embedding_lookup_def reshape_m1_def)

section \<open>The small system evaluated\<close>

lemma ex_two_side:
  "two_side_type_embedding ex_type_embedding = [[0, 0], [1, 0], [0, 1], [1, 1]]"
  by (simp add: two_side_type_embedding_def ex_type_embedding_def Let_def replicate_numeral)

lemma ex_index:
  "index_of_two_side (nei_type_vec ex_env) (length ex_type_embedding) (nnei ex_config) [0, 1]
     = Inr [0, 3, 0, 1]"
  by (simp add: index_of_two_side_def add_vec_def add_rows_def i32_def Let_def replicate_numeral
      ex_env_def ex_type_embedding_def ex_config_def)

lemma ex_index_swapped:
  "index_of_two_side (nei_type_vec ex_env_swapped) (length ex_type_embedding) (nnei ex_config)
       [0, 1]
     = Inr [2, 1, 0, 1]"
  by (simp add: index_of_two_side_def add_vec_def add_rows_def i32_def Let_def replicate_numeral
      ex_env_swapped_def ex_type_embedding_def ex_config_def)

lemma ex_embed:
  "embed ex_config ex_nets ex_env [] [[1], [2], [1], [1]] ex_type_embedding [0, 1]
     = Inr [[1, 2], [8, 2], [1, 2], [2, 2]]"
  unfolding embed_def ex_two_side ex_index
  by (simp add: ex_config_def ex_nets_def embedding_lookup_def ew_rows_def dot_def)

lemma ex_embed_swapped:
  "embed ex_config ex_nets ex_env_swapped [] [[2], [1], [1], [1]] ex_type_embedding [0, 1]
     = Inr [[6, 2], [2, 2], [1, 2], [2, 2]]"
  unfolding embed_def ex_two_side ex_index_swapped
  by (simp add: ex_config_def ex_nets_def embedding_lookup_def ew_rows_def dot_def)

lemma ex_xyz_scatter_att:
  "xyz_scatter_att ex_config ex_nets ex_env [] 2 ex_inputs ex_type_embedding [0, 1]
     = Inr [[[1, 2], [8, 2]], [[1, 2], [2, 2]]]"
proof -
  have r: "map (take 1) (rows_of (length ex_inputs * 2) 4 (concat ex_inputs))
      = [[1], [2], [1], [1 :: real]]"
    by (simp add: rows_of_def upt_rec ex_inputs_def)
  have l: "attn_layer ex_config = 0" by (simp add: ex_config_def)
  show ?thesis
    unfolding xyz_scatter_att_def Let_def r ex_embed
    by (simp add: attention_layers_def l group_rows_def rows_of_def upt_rec)
qed

lemma ex_xyz_scatter_att_swapped:
  "xyz_scatter_att ex_config ex_nets ex_env_swapped [] 2 ex_inputs_swapped ex_type_embedding [0, 1]
     = Inr [[[6, 2], [2, 2]], [[1, 2], [2, 2]]]"
proof -
  have r: "map (take 1) (rows_of (length ex_inputs_swapped * 2) 4 (concat ex_inputs_swapped))
      = [[2], [1], [1], [1 :: real]]"
    by (simp add: rows_of_def upt_rec ex_inputs_swapped_def)
  have l: "attn_layer ex_config = 0" by (simp add: ex_config_def)
  show ?thesis
    unfolding xyz_scatter_att_def Let_def r ex_embed_swapped
    by (simp add: attention_layers_def l group_rows_def rows_of_def upt_rec)
qed

lemma ex_filter_lower:
  "filter_lower ex_config ex_nets ex_env [] 0 2 ex_inputs (Some ex_type_embedding) (Some [0, 1])
       False
     = Inr [[[17, 6], [1, 2], [8, 2], [0, 0]], [[3, 4], [3, 4], [0, 0], [0, 0]]]"
proof -
  have s: "slice_cols (0 * 4) (2 * 4) ex_inputs = Inr ex_inputs"
    by (simp add: slice_cols_def ex_inputs_def)
  have c: "compress ex_config = False" "filter_neuron ex_config = [2]"
    by (simp_all add: ex_config_def)
  show ?thesis
    unfolding filter_lower_def Let_def s
    by (simp add: ex_xyz_scatter_att c) (simp add: ex_inputs_def matmul_ta_def rows_of_def col_def dot_def upt_rec)
qed

lemma ex_filter_lower_swapped:
  "filter_lower ex_config ex_nets ex_env_swapped [] 0 2 ex_inputs_swapped
       (Some ex_type_embedding) (Some [0, 1]) False
     = Inr [[[14, 6], [2, 2], [6, 2], [0, 0]], [[3, 4], [3, 4], [0, 0], [0, 0]]]"
proof -
  have s: "slice_cols (0 * 4) (2 * 4) ex_inputs_swapped = Inr ex_inputs_swapped"
    by (simp add: slice_cols_def ex_inputs_swapped_def)
  have c: "compress ex_config = False" "filter_neuron ex_config = [2]"
    by (simp_all add: ex_config_def)
  show ?thesis
    unfolding filter_lower_def Let_def s
    by (simp add: ex_xyz_scatter_att_swapped c) (simp add: ex_inputs_swapped_def matmul_ta_def rows_of_def col_def dot_def upt_rec)
qed

lemma ex_filter_atten:
  "filter_atten ex_config ex_nets ex_env [] ex_inputs (Some ex_type_embedding) (Some [0, 1])
     = Inr ([[177 / 2, 30], [9 / 2, 6]],
            [[[1 / 2, 4, 0], [1, 1, 0]], [[3 / 2, 0, 0], [2, 0, 0]]])"
proof -
  have c: "sel_a ex_config = [2]" "filter_neuron ex_config = [2]" "original_sel ex_config = None"
    "n_axis_neuron ex_config = 1" "ndescrpt ex_config = 8"
    by (simp_all add: ex_config_def)
  have f: "filter_lower ex_config ex_nets ex_env [] 0 (sum_list (sel_a ex_config)) ex_inputs
        (Some ex_type_embedding) (Some [0, 1]) False
      = Inr [[[17, 6], [1, 2], [8, 2], [0, 0]], [[3, 4], [3, 4], [0, 0], [0, 0]]]"
    using ex_filter_lower by (simp add: c)
  show ?thesis
    unfolding filter_atten_def Let_def f
    by (simp add: c matmul_ta_def transpose_w_def col_def dot_def upt_rec)
qed

lemma ex_filter_atten_swapped:
  "filter_atten ex_config ex_nets ex_env_swapped [] ex_inputs_swapped (Some ex_type_embedding)
       (Some [0, 1])
     = Inr ([[59, 25], [9 / 2, 6]],
            [[[1, 3, 0], [1, 1, 0]], [[3 / 2, 0, 0], [2, 0, 0]]])"
proof -
  have c: "sel_a ex_config = [2]" "filter_neuron ex_config = [2]" "original_sel ex_config = None"
    "n_axis_neuron ex_config = 1" "ndescrpt ex_config = 8"
    by (simp_all add: ex_config_def)
  have f: "filter_lower ex_config ex_nets ex_env_swapped [] 0 (sum_list (sel_a ex_config))
        ex_inputs_swapped (Some ex_type_embedding) (Some [0, 1]) False
      = Inr [[[14, 6], [2, 2], [6, 2], [0, 0]], [[3, 4], [3, 4], [0, 0], [0, 0]]]"
    using ex_filter_lower_swapped by (simp add: c)
  show ?thesis
    unfolding filter_atten_def Let_def f
    by (simp add: c matmul_ta_def transpose_w_def col_def dot_def upt_rec)
qed

lemma ex_pass_filter:
  "pass_filter ex_config ex_nets ex_env [] ex_inputs [0, 1] ex_natoms ex_input_dict
     = Inr ([[[177 / 2, 30], [9 / 2, 6]]],
            [[[1 / 2, 4, 0, 1, 1, 0], [3 / 2, 0, 0, 2, 0, 0]]])"
proof -
  have c: "exclude_types ex_config = []" "ndescrpt ex_config = 8"
    by (simp_all add: ex_config_def)
  have i: "rows_of 2 8 (concat ex_inputs) = ex_inputs"
    by (simp add: ex_inputs_def rows_of_def upt_rec)
  have l: "length (concat ex_inputs) = 16" by (simp add: ex_inputs_def)
  have d: "get_dim_out ex_config = Inr 2" "get_dim_rot_mat_1 ex_config = Inr 2"
    by (simp_all add: get_dim_out_def get_dim_rot_mat_1_def ex_config_def)
  show ?thesis
    unfolding pass_filter_def ex_natoms_def ex_input_dict_def Let_def c
    by (simp add: l i ex_filter_atten d) (simp add: l d reshape3_def rows_of_def upt_rec)
qed

lemma ex_pass_filter_swapped:
  "pass_filter ex_config ex_nets ex_env_swapped [] ex_inputs_swapped [0, 1] ex_natoms ex_input_dict
     = Inr ([[[59, 25], [9 / 2, 6]]],
            [[[1, 3, 0, 1, 1, 0], [3 / 2, 0, 0, 2, 0, 0]]])"
proof -
  have c: "exclude_types ex_config = []" "ndescrpt ex_config = 8"
    by (simp_all add: ex_config_def)
  have i: "rows_of 2 8 (concat ex_inputs_swapped) = ex_inputs_swapped"
    by (simp add: ex_inputs_swapped_def rows_of_def upt_rec)
  have l: "length (concat ex_inputs_swapped) = 16" by (simp add: ex_inputs_swapped_def)
  have d: "get_dim_out ex_config = Inr 2" "get_dim_rot_mat_1 ex_config = Inr 2"
    by (simp_all add: get_dim_out_def get_dim_rot_mat_1_def ex_config_def)
  show ?thesis
    unfolding pass_filter_def ex_natoms_def ex_input_dict_def Let_def c
    by (simp add: l i ex_filter_atten_swapped d) (simp add: l d reshape3_def rows_of_def upt_rec)
qed

lemma ex_atype_nloc:
  "atype_nloc_of ex_config 2 [[0, 1]] = Inr [0, 1]"
  "atype_nloc_of ex_config 2 [[- 1, 5]] = Inr [0, 1]"
  by (simp_all add: atype_nloc_of_def slice_cols_def clip_by_value_def ex_config_def)

lemma build_InrI:
  assumes "natoms = natoms0 # natoms1 # rest"
    and "reshape_m1 (natoms1 * 3) coord0 = Inr coord"
    and "reshape_m1 9 box0 = Inr box"
    and "reshape_m1 natoms1 atype0 = Inr atype"
    and "sel_all_a c = sel0 # srest"
    and "env_op coord atype natoms box mesh
           (case davg c of None \<Rightarrow> replicate (nat (ntypes c)) (replicate (ndescrpt c) 0)
            | Some d \<Rightarrow> d)
           (case dstd c of None \<Rightarrow> replicate (nat (ntypes c)) (replicate (ndescrpt c) 1)
            | Some d \<Rightarrow> d) = em"
    and "reshape_m1 sel0 (map of_bool (concat (em_nmask em))) = Inr nm"
    and "\<lparr>nei_type_vec = concat (em_nei_type_vec em), nmask = nm,
          negative_mask = map (map (\<lambda>m. - 8589934592 * (1 - m))) nm\<rparr> = e"
    and "reshape_m1 (ndescrpt c) (concat (em_descrpt em)) = Inr dr"
    and "atype_nloc_of c natoms0 atype = Inr an"
    and "pass_filter c p e suffix dr an natoms input_dict = Inr (d, q)"
  shows "build c p env_op coord0 atype0 natoms box0 mesh input_dict suffix
     = Inr \<lparr>descrpt = em_descrpt em, env_of = e, descrpt_reshape = dr, atype_nloc = an,
            dout = d, qmat = q\<rparr>"
proof -
  have n: "(case natoms of natoms0 # natoms1 # x \<Rightarrow> f natoms0 natoms1 | _ \<Rightarrow> g)
      = f natoms0 natoms1" for f :: "nat \<Rightarrow> nat \<Rightarrow> error + built" and g
    by (simp add: assms(1))
  show ?thesis
    unfolding build_def Let_def n assms(2,3,4,5,6,7,8,9,10,11) sum.case list.case prod.case
    by (rule refl)
qed

lemma ex_build_gen:
  assumes "atype_nloc_of ex_config 2 [[t0, t1]] = Inr [0, 1]"
  shows "build ex_config ex_nets ex_op ex_coord [t0, t1] ex_natoms ex_box [] ex_input_dict []
     = Inr \<lparr>descrpt = em_descrpt ex_env_mat, env_of = ex_env, descrpt_reshape = ex_inputs,
            atype_nloc = [0, 1],
            dout = [[[177 / 2, 30], [9 / 2, 6]]],
            qmat = [[[1 / 2, 4, 0, 1, 1, 0], [3 / 2, 0, 0, 2, 0, 0]]]\<rparr>"
proof (rule build_InrI [where rest = "[1, 1]" and srest = "[]"])
  show "ex_natoms = 2 # 2 # [1, 1]" by (simp add: ex_natoms_def)
  show "reshape_m1 (2 * 3) ex_coord = Inr [[0, 0, 0, 1, 0, 0]]"
    by (simp add: reshape_m1_def rows_of_def ex_coord_def)
  show "reshape_m1 9 ex_box = Inr [[9, 0, 0, 0, 9, 0, 0, 0, 9]]"
    by (simp add: reshape_m1_def rows_of_def ex_box_def)
  show "reshape_m1 2 [t0, t1] = Inr [[t0, t1]]"
    by (simp add: reshape_m1_def rows_of_def)
  show "sel_all_a ex_config = [2]" by (simp add: ex_config_def)
  show "ex_op [[0, 0, 0, 1, 0, 0]] [[t0, t1]] ex_natoms [[9, 0, 0, 0, 9, 0, 0, 0, 9]] []
      (case davg ex_config of
         None \<Rightarrow> replicate (nat (ntypes ex_config)) (replicate (ndescrpt ex_config) 0)
       | Some d \<Rightarrow> d)
      (case dstd ex_config of
         None \<Rightarrow> replicate (nat (ntypes ex_config)) (replicate (ndescrpt ex_config) 1)
       | Some d \<Rightarrow> d) = ex_env_mat"
    by (simp add: ex_op_def)
  show "reshape_m1 2 (map of_bool (concat (em_nmask ex_env_mat))) = Inr [[1, 1], [1, 1 :: real]]"
    by (simp add: reshape_m1_def rows_of_def ex_env_mat_def upt_rec)
  show "\<lparr>nei_type_vec = concat (em_nei_type_vec ex_env_mat), nmask = [[1, 1], [1, 1]],
      negative_mask = map (map (\<lambda>m. - 8589934592 * (1 - m))) [[1, 1], [1, 1 :: real]]\<rparr> = ex_env"
    by (simp add: ex_env_def ex_env_mat_def)
  show "reshape_m1 (ndescrpt ex_config) (concat (em_descrpt ex_env_mat)) = Inr ex_inputs"
    by (simp add: reshape_m1_def rows_of_def ex_env_mat_def ex_config_def ex_inputs_def upt_rec)
  show "atype_nloc_of ex_config 2 [[t0, t1]] = Inr [0, 1]" by (rule assms)
  show "pass_filter ex_config ex_nets ex_env [] ex_inputs [0, 1] ex_natoms ex_input_dict
      = Inr ([[[177 / 2, 30], [9 / 2, 6]]], [[[1 / 2, 4, 0, 1, 1, 0], [3 / 2, 0, 0, 2, 0, 0]]])"
    by (rule ex_pass_filter)
qed

lemma ex_build_swapped:
  "build ex_config ex_nets ex_op_swapped ex_coord [0, 1] ex_natoms ex_box [] ex_input_dict []
     = Inr \<lparr>descrpt = em_descrpt ex_env_mat_swapped, env_of = ex_env_swapped,
            descrpt_reshape = ex_inputs_swapped, atype_nloc = [0, 1],
            dout = [[[59, 25], [9 / 2, 6]]],
            qmat = [[[1, 3, 0, 1, 1, 0], [3 / 2, 0, 0, 2, 0, 0]]]\<rparr>"
proof (rule build_InrI [where rest = "[1, 1]" and srest = "[]"])
  show "ex_natoms = 2 # 2 # [1, 1]" by (simp add: ex_natoms_def)
  show "reshape_m1 (2 * 3) ex_coord = Inr [[0, 0, 0, 1, 0, 0]]"
    by (simp add: reshape_m1_def rows_of_def ex_coord_def)
  show "reshape_m1 9 ex_box = Inr [[9, 0, 0, 0, 9, 0, 0, 0, 9]]"
    by (simp add: reshape_m1_def rows_of_def ex_box_def)
  show "reshape_m1 2 [0, 1 :: int] = Inr [[0, 1]]"
    by (simp add: reshape_m1_def rows_of_def)
  show "sel_all_a ex_config = [2]" by (simp add: ex_config_def)
  show "ex_op_swapped [[0, 0, 0, 1, 0, 0]] [[0, 1]] ex_natoms [[9, 0, 0, 0, 9, 0, 0, 0, 9]] []
      (case davg ex_config of
         None \<Rightarrow> replicate (nat (ntypes ex_config)) (replicate (ndescrpt ex_config) 0)
       | Some d \<Rightarrow> d)
      (case dstd ex_config of
         None \<Rightarrow> replicate (nat (ntypes ex_config)) (replicate (ndescrpt ex_config) 1)
       | Some d \<Rightarrow> d) = ex_env_mat_swapped"
    by (simp add: ex_op_swapped_def)
  show "reshape_m1 2 (map of_bool (concat (em_nmask ex_env_mat_swapped)))
      = Inr [[1, 1], [1, 1 :: real]]"
    by (simp add: reshape_m1_def rows_of_def ex_env_mat_swapped_def upt_rec)
  show "\<lparr>nei_type_vec = concat (em_nei_type_vec ex_env_mat_swapped), nmask = [[1, 1], [1, 1]],
      negative_mask = map (map (\<lambda>m. - 8589934592 * (1 - m))) [[1, 1], [1, 1 :: real]]\<rparr>
      = ex_env_swapped"
    by (simp add: ex_env_swapped_def ex_env_mat_swapped_def)
  show "reshape_m1 (ndescrpt ex_config) (concat (em_descrpt ex_env_mat_swapped))
      = Inr ex_inputs_swapped"
    by (simp add: reshape_m1_def rows_of_def ex_env_mat_swapped_def ex_config_def
        ex_inputs_swapped_def upt_rec)
  show "atype_nloc_of ex_config 2 [[0, 1]] = Inr [0, 1]" by (rule ex_atype_nloc(1))
  show "pass_filter ex_config ex_nets ex_env_swapped [] ex_inputs_swapped [0, 1] ex_natoms
        ex_input_dict
      = Inr ([[[59, 25], [9 / 2, 6]]], [[[1, 3, 0, 1, 1, 0], [3 / 2, 0, 0, 2, 0, 0]]])"
    by (rule ex_pass_filter_swapped)
qed

section \<open>Clipping of the centre types in \<^verbatim>\<open>build\<close>\<close>

lemma clip_by_value_range:
  "lo \<le> hi \<Longrightarrow> lo \<le> clip_by_value t lo hi \<and> clip_by_value t lo hi \<le> hi"
  by (simp add: clip_by_value_def)

lemma atype_nloc_of_Inr:
  assumes "atype_nloc_of c natoms0 atype = Inr an"
  shows "an = concat (map (\<lambda>row. map (\<lambda>t. clip_by_value t 0 (ntypes c - 1)) (take natoms0 row)) atype)"
  using assms
  by (auto simp: atype_nloc_of_def slice_cols_def Let_def take_map comp_def split: if_splits)

lemma atype_nloc_of_total:
  assumes "\<forall>row\<in>set atype. natoms0 \<le> length row"
  shows "\<exists>an. atype_nloc_of c natoms0 atype = Inr an"
  using assms by (simp add: atype_nloc_of_def slice_cols_def Let_def list_all_iff)

lemma length_two_side_type_embedding:
  "length (two_side_type_embedding te) = length te * length te"
proof -
  have "\<forall>xs\<in>set (map2 (map2 (@)) (replicate (length te) te) (map (replicate (length te)) te)).
          length xs = length te"
    by (auto simp: set_zip)
  from length_concat_uniform [OF this] show ?thesis
    by (simp add: two_side_type_embedding_def Let_def)
qed

lemma two_side_idx_bounds:
  assumes "0 \<le> (t :: int)" "t < T" "0 \<le> b" "b < T"
  shows "0 \<le> b * T + t" "b * T + t < T * T"
proof -
  have "0 \<le> b * T" by (rule mult_nonneg_nonneg) (use assms in simp_all)
  then show "0 \<le> b * T + t" using assms by simp
  have "b + 1 \<le> T" using assms by simp
  then have "(b + 1) * T \<le> T * T"
    using assms by (intro mult_right_mono) simp_all
  then show "b * T + t < T * T" using assms by (simp add: algebra_simps)
qed

section \<open>Descriptor assembly\<close>

lemma dot_sum:
  "length xs = length ys \<Longrightarrow> dot xs ys = (\<Sum>k<length xs. xs ! k * ys ! k)"
  by (auto simp: dot_def sum_list_sum_nth atLeast0LessThan intro!: sum.cong)

lemma length_matmul_ta [simp]: "length (matmul_ta n m A B) = n"
  by (simp add: matmul_ta_def)

lemma length_matmul_ta_row [simp]: "i < n \<Longrightarrow> length (matmul_ta n m A B ! i) = m"
  by (simp add: matmul_ta_def)

lemma matmul_ta_nth:
  assumes "i < n" "j < m" "length A = length B"
  shows "matmul_ta n m A B ! i ! j = (\<Sum>k<length A. A ! k ! i * B ! k ! j)"
  using assms by (auto simp: matmul_ta_def col_def dot_sum intro!: sum.cong)

lemma rows_of_nth_nth:
  assumes "k < n" "c < w" "n * w \<le> length xs"
  shows "rows_of n w xs ! k ! c = xs ! (k * w + c)"
proof -
  have "k * w + w \<le> n * w"
    using assms(1) by (metis Suc_leI mult_Suc mult_le_mono1 add.commute)
  then show ?thesis using assms by (simp add: nth_rows_of)
qed

lemma length_rows_of_row:
  assumes "k < n" "n * w \<le> length xs"
  shows "length (rows_of n w xs ! k) = w"
proof -
  have "k * w + w \<le> n * w"
    using assms(1) by (metis Suc_leI mult_Suc mult_le_mono1 add.commute)
  then show ?thesis using assms by (simp add: nth_rows_of)
qed

text \<open>
  The value of \<open>filter_lower\<close> and of \<open>filter_atten\<close> in terms of the attended embedding
  \<open>E\<close>, for a call as \<^verbatim>\<open>_pass_filter\<close> makes it.
\<close>

lemma filter_lower_value:
  assumes "slice_cols 0 (n * 4) inputs = Inr inputs_i"
    and "\<not> compress c"
    and "xyz_scatter_att c p e suffix n inputs_i te atype = Inr E"
    and "length E = length inputs"
  shows "filter_lower c p e suffix 0 n inputs (Some te) (Some atype) False
           = Inr (map2 (\<lambda>row M. matmul_ta 4 (last (1 # filter_neuron c)) (rows_of n 4 row) M)
                    inputs_i E)"
proof -
  have "length inputs_i = length inputs"
    using assms(1) by (auto simp: slice_cols_def split: if_splits)
  then show ?thesis
    using assms by (simp add: filter_lower_def Let_def)
qed

lemma slice_cols_id:
  "\<forall>row\<in>set A. length row = w \<Longrightarrow> slice_cols 0 w A = Inr A"
  by (simp add: slice_cols_def list_all_iff map_idI)

lemma filter_atten_value:
  assumes "sel_a c \<noteq> []"
    and "\<forall>row\<in>set inputs. length row = sum_list (sel_a c) * 4"
    and "\<not> compress c"
    and "xyz_scatter_att c p e suffix (sum_list (sel_a c)) inputs te atype = Inr E"
    and "length E = length inputs"
    and "n_axis_neuron c \<le> last (1 # filter_neuron c)"
    and "Gs = map (map (map (\<lambda>x. x /
                 (case original_sel c of None \<Rightarrow> real (ndescrpt c) / 4
                  | Some os \<Rightarrow> real (sum_list os)))))
               (map2 (\<lambda>row M. matmul_ta 4 (last (1 # filter_neuron c))
                        (rows_of (sum_list (sel_a c)) 4 row) M) inputs E)"
  shows "filter_atten c p e suffix inputs (Some te) (Some atype)
     = Inr (map (\<lambda>G. concat (matmul_ta (last (1 # filter_neuron c)) (n_axis_neuron c) G
                               (map (take (n_axis_neuron c)) G))) Gs,
            map (\<lambda>G. transpose_w (last (1 # filter_neuron c)) (take 3 (drop 1 G))) Gs)"
proof -
  have fl: "filter_lower c p e suffix 0 (sum_list (sel_a c)) inputs (Some te) (Some atype) False
      = Inr (map2 (\<lambda>row M. matmul_ta 4 (last (1 # filter_neuron c))
                     (rows_of (sum_list (sel_a c)) 4 row) M) inputs E)"
    by (rule filter_lower_value [OF slice_cols_id [OF assms(2)] assms(3) assms(4) assms(5)])
  have m2: "map2 f xs (map g xs) = map (\<lambda>x. f x (g x)) xs" for f :: "'a \<Rightarrow> 'b \<Rightarrow> 'c" and g xs
    by (induction xs) simp_all
  have "\<not> last (1 # filter_neuron c) < n_axis_neuron c" using assms(6) by simp
  then show ?thesis
    unfolding filter_atten_def Let_def fl sum.case assms(7) [symmetric]
    using assms(1) by (simp add: m2 del: last.simps)
qed

lemma scaled_G_entry:
  assumes "Gs = map (map (map (\<lambda>x. x / d)))
               (map2 (\<lambda>row M. matmul_ta 4 W (rows_of n 4 row) M) inputs E)"
    and "length E = length inputs" and "a < length inputs"
    and "length (inputs ! a) = n * 4" and "length (E ! a) = n"
  shows "length (Gs ! a) = 4"
    and "ch < 4 \<Longrightarrow> length (Gs ! a ! ch) = W"
    and "ch < 4 \<Longrightarrow> w < W \<Longrightarrow>
           Gs ! a ! ch ! w = (\<Sum>k<n. inputs ! a ! (4 * k + ch) * E ! a ! k ! w) / d"
proof -
  have g: "Gs ! a = map (map (\<lambda>x. x / d)) (matmul_ta 4 W (rows_of n 4 (inputs ! a)) (E ! a))"
    using assms(2,3) by (simp add: assms(1))
  show "length (Gs ! a) = 4" by (simp add: g)
  show "length (Gs ! a ! ch) = W" if "ch < 4" using that by (simp add: g)
  show "Gs ! a ! ch ! w = (\<Sum>k<n. inputs ! a ! (4 * k + ch) * E ! a ! k ! w) / d"
    if "ch < 4" "w < W"
  proof -
    have "matmul_ta 4 W (rows_of n 4 (inputs ! a)) (E ! a) ! ch ! w
        = (\<Sum>k<length (rows_of n 4 (inputs ! a)). rows_of n 4 (inputs ! a) ! k ! ch * E ! a ! k ! w)"
      by (rule matmul_ta_nth) (use that assms(5) in simp_all)
    also have "\<dots> = (\<Sum>k<n. inputs ! a ! (4 * k + ch) * E ! a ! k ! w)"
    proof (rule sum.cong)
      show "{..<length (rows_of n 4 (inputs ! a))} = {..<n}" by simp
      fix k assume "k \<in> {..<n}"
      then have "rows_of n 4 (inputs ! a) ! k ! ch = inputs ! a ! (k * 4 + ch)"
        using that(1) assms(4) by (intro rows_of_nth_nth) simp_all
      then show "rows_of n 4 (inputs ! a) ! k ! ch * E ! a ! k ! w
          = inputs ! a ! (4 * k + ch) * E ! a ! k ! w"
        by (simp add: mult.commute)
    qed
    finally show ?thesis using that by (simp add: g)
  qed
qed

lemma descriptor_entry:
  assumes "length G = 4" and "\<forall>ch<4. length (G ! ch) = W" and "a2 \<le> W"
  shows "length (concat (matmul_ta W a2 G (map (take a2) G))) = W * a2"
    and "w < W \<Longrightarrow> j < a2 \<Longrightarrow>
           concat (matmul_ta W a2 G (map (take a2) G)) ! (w * a2 + j)
             = (\<Sum>ch<4. G ! ch ! w * G ! ch ! j)"
proof -
  have u: "\<forall>xs\<in>set (matmul_ta W a2 G (map (take a2) G)). length xs = a2"
    by (auto simp: matmul_ta_def)
  show "length (concat (matmul_ta W a2 G (map (take a2) G))) = W * a2"
    using length_concat_uniform [OF u] by simp
  show "concat (matmul_ta W a2 G (map (take a2) G)) ! (w * a2 + j)
      = (\<Sum>ch<4. G ! ch ! w * G ! ch ! j)" if "w < W" "j < a2"
  proof -
    have "concat (matmul_ta W a2 G (map (take a2) G)) ! (w * a2 + j)
        = matmul_ta W a2 G (map (take a2) G) ! w ! j"
      by (rule concat_uniform_nth [OF u]) (use that in simp_all)
    also have "\<dots> = (\<Sum>ch<length G. G ! ch ! w * map (take a2) G ! ch ! j)"
      by (rule matmul_ta_nth) (use that in simp_all)
    also have "\<dots> = (\<Sum>ch<4. G ! ch ! w * G ! ch ! j)"
      using assms(1) that by (intro sum.cong) simp_all
    finally show ?thesis .
  qed
qed

lemma qmat_entry:
  assumes "length G = 4" and "w < W" and "d < 3"
  shows "length (transpose_w W (take 3 (drop 1 G))) = W"
    and "length (transpose_w W (take 3 (drop 1 G)) ! w) = 3"
    and "transpose_w W (take 3 (drop 1 G)) ! w ! d = G ! (d + 1) ! w"
  using assms by (simp_all add: transpose_w_def col_def)

text \<open>The two reshapes at the end of \<^verbatim>\<open>_pass_filter\<close>, and its value.\<close>

lemma reshape3_nth:
  assumes "length xs = a * b * d" "f < a" "i < b"
  shows "map (rows_of b d) (rows_of a (b * d) xs) ! f ! i = rows_of (a * b) d xs ! (f * b + i)"
proof -
  have fb: "f * b + i < a * b"
  proof -
    have "f * b + b \<le> a * b"
      using assms(2) by (metis Suc_leI mult_Suc mult_le_mono1 add.commute)
    then show ?thesis using assms(3) by simp
  qed
  have id: "i * d + d \<le> b * d"
    using assms(3) by (metis Suc_leI mult_Suc mult_le_mono1 add.commute)
  have "map (rows_of b d) (rows_of a (b * d) xs) ! f ! i
      = take d (drop (i * d) (take (b * d) (drop (f * (b * d)) xs)))"
    using assms(2,3) by (simp add: nth_rows_of)
  also have "\<dots> = take d (drop (i * d + f * (b * d)) xs)"
    using id by (simp add: drop_take min_def)
  also have "i * d + f * (b * d) = (f * b + i) * d" by (simp add: algebra_simps)
  finally show ?thesis using fb by (simp add: nth_rows_of)
qed

lemma reshape3_ok:
  assumes "\<forall>r\<in>set rows. length r = d" "length rows = a * b"
  shows "reshape3 a b d (concat rows)
           = Inr (map (rows_of b d) (rows_of a (b * d) (concat rows)))"
    and "f < a \<Longrightarrow> i < b \<Longrightarrow>
           map (rows_of b d) (rows_of a (b * d) (concat rows)) ! f ! i = rows ! (f * b + i)"
    and "length (map (rows_of b d) (rows_of a (b * d) (concat rows))) = a"
    and "f < a \<Longrightarrow> length (map (rows_of b d) (rows_of a (b * d) (concat rows)) ! f) = b"
proof -
  have l: "length (concat rows) = a * b * d"
    using length_concat_uniform [OF assms(1)] assms(2) by simp
  show "reshape3 a b d (concat rows)
           = Inr (map (rows_of b d) (rows_of a (b * d) (concat rows)))"
    using l by (simp add: reshape3_def)
  show "map (rows_of b d) (rows_of a (b * d) (concat rows)) ! f ! i = rows ! (f * b + i)"
    if "f < a" "i < b"
  proof -
    have "map (rows_of b d) (rows_of a (b * d) (concat rows)) ! f ! i
        = rows_of (a * b) d (concat rows) ! (f * b + i)"
      by (rule reshape3_nth [OF l that])
    also have "rows_of (a * b) d (concat rows) = rows"
      using rows_of_concat [OF assms(1)] assms(2) by simp
    finally show ?thesis .
  qed
  show "length (map (rows_of b d) (rows_of a (b * d) (concat rows))) = a" by simp
  show "length (map (rows_of b d) (rows_of a (b * d) (concat rows)) ! f) = b" if "f < a"
    using that by simp
qed

lemma pass_filter_value:
  assumes te: "(case input_dict of None \<Rightarrow> None | Some d \<Rightarrow> d ''type_embedding'') = Some te"
    and nat: "natoms = natoms0 # rest"
    and pos: "0 < natoms0 * ndescrpt c"
    and len: "length (concat inputs) = nframes * (natoms0 * ndescrpt c)"
    and masked: "(if exclude_types c \<noteq> [] then
            (case build_type_exclude_mask (exclude_types c) (ntypes c) (sel_a c) (ndescrpt c)
                    atype (nframes * natoms0) (nei_type_vec e) of
               Inl err \<Rightarrow> Inl err
             | Inr m \<Rightarrow> ew_rows (*) (rows_of (nframes * natoms0) (ndescrpt c) (concat inputs)) m)
          else Inr (rows_of (nframes * natoms0) (ndescrpt c) (concat inputs))) = Inr X"
    and fa: "filter_atten c p e suffix X (Some te) (Some atype) = Inr (layer0, q0)"
    and d1: "get_dim_out c = Inr dim_out"
    and r1: "reshape3 nframes natoms0 dim_out (concat layer0) = Inr layer"
    and d2: "get_dim_rot_mat_1 c = Inr dim_rot"
    and r2: "reshape3 nframes natoms0 (dim_rot * 3) (concat (map concat q0)) = Inr q"
  shows "pass_filter c p e suffix inputs atype natoms input_dict = Inr (layer, q)"
proof -
  have k: "\<not> (natoms0 * ndescrpt c = 0 \<or> length (concat inputs) mod (natoms0 * ndescrpt c) \<noteq> 0)"
    using pos len by simp
  have nf: "length (concat inputs) div (natoms0 * ndescrpt c) = nframes"
    using pos len by simp
  have li: "length (rows_of (nframes * natoms0) (ndescrpt c) (concat inputs)) = nframes * natoms0"
    by simp
  show ?thesis
    unfolding pass_filter_def Let_def te nat option.case list.case if_not_P [OF k] nf li masked
      sum.case fa prod.case d1 r1 d2 r2
    by (rule refl)
qed

text \<open>
  Claim C4.  Let \<open>E\<close> be the attended embedding (\<^verbatim>\<open>xyz_scatter_att\<close>), one \<open>n \<times> W\<close> matrix
  per atom, where \<open>n\<close> is the number of neighbour slots and \<open>W\<close> the last width of the
  embedding net, and let every input row hold \<open>n\<close> slots of 4 features.  Then
  \<open>filter_atten\<close> returns, for each atom \<open>a\<close>, a vector of length \<open>W * axis_neuron\<close>
  whose entry \<open>w * axis_neuron + j\<close> is \<open>\<Sum>ch<4. G ch w * G ch j\<close>, entry \<open>(w, j)\<close> of
  \<open>G\<^sup>T \<sqdot> G2\<close>, where \<open>G ch w = (\<Sum>k<n. R k ch * E k w) / nn\<close> is \<open>R\<^sup>T \<sqdot> E\<close> divided by the
  neighbour count \<open>nn\<close>: the sum of \<^verbatim>\<open>original_sel\<close> when it is set and \<open>n\<close> otherwise.
\<close>

theorem filter_atten_descriptor:
  assumes "sel_a c \<noteq> []" and "n = sum_list (sel_a c)" and "ndescrpt c = 4 * n"
    and "\<forall>row\<in>set inputs. length row = ndescrpt c"
    and "\<not> compress c"
    and "xyz_scatter_att c p e suffix n inputs te atype = Inr E"
    and "length E = length inputs"
    and "\<forall>M\<in>set E. length M = n \<and> (\<forall>r\<in>set M. length r = W)"
    and "W = last (1 # filter_neuron c)" and "n_axis_neuron c \<le> W"
    and "nn = (case original_sel c of None \<Rightarrow> real n | Some os \<Rightarrow> real (sum_list os))"
    and "0 < nn"
  shows "\<exists>result q. filter_atten c p e suffix inputs (Some te) (Some atype) = Inr (result, q)
           \<and> length result = length inputs
           \<and> (\<forall>a<length inputs.
                 length (result ! a) = W * n_axis_neuron c
               \<and> (\<forall>w<W. \<forall>j<n_axis_neuron c.
                     result ! a ! (w * n_axis_neuron c + j)
                       = (\<Sum>ch<4. ((\<Sum>k<n. inputs ! a ! (4 * k + ch) * E ! a ! k ! w) / nn)
                                 * ((\<Sum>k<n. inputs ! a ! (4 * k + ch) * E ! a ! k ! j) / nn))))"
proof -
  define d where "d = (case original_sel c of None \<Rightarrow> real (ndescrpt c) / 4
                       | Some os \<Rightarrow> real (sum_list os))"
  have dn: "d = nn" using assms(3,11) by (simp add: d_def split: option.splits)
  define Gs where "Gs = map (map (map (\<lambda>x. x / d)))
      (map2 (\<lambda>row M. matmul_ta 4 W (rows_of n 4 row) M) inputs E)"
  have rows: "\<forall>row\<in>set inputs. length row = sum_list (sel_a c) * 4"
    using assms(2,3,4) by simp
  have val: "filter_atten c p e suffix inputs (Some te) (Some atype)
      = Inr (map (\<lambda>G. concat (matmul_ta W (n_axis_neuron c) G (map (take (n_axis_neuron c)) G))) Gs,
             map (\<lambda>G. transpose_w W (take 3 (drop 1 G))) Gs)"
    unfolding assms(9)
    by (rule filter_atten_value [OF assms(1) rows assms(5) assms(6) [unfolded assms(2)] assms(7)
          assms(10) [unfolded assms(9)]])
      (simp add: Gs_def d_def assms(2,9))
  have lg: "length Gs = length inputs" by (simp add: Gs_def assms(7))
  have G: "length (Gs ! a) = 4" "\<And>ch. ch < 4 \<Longrightarrow> length (Gs ! a ! ch) = W"
    "\<And>ch w. ch < 4 \<Longrightarrow> w < W \<Longrightarrow>
        Gs ! a ! ch ! w = (\<Sum>k<n. inputs ! a ! (4 * k + ch) * E ! a ! k ! w) / nn"
    if "a < length inputs" for a
  proof -
    have li: "length (inputs ! a) = n * 4" using that assms(3,4) by simp
    have le: "length (E ! a) = n" using that assms(7,8) by simp
    note s = scaled_G_entry [OF Gs_def assms(7) that li le]
    show "length (Gs ! a) = 4" by (rule s(1))
    show "\<And>ch. ch < 4 \<Longrightarrow> length (Gs ! a ! ch) = W" by (rule s(2))
    show "\<And>ch w. ch < 4 \<Longrightarrow> w < W \<Longrightarrow>
        Gs ! a ! ch ! w = (\<Sum>k<n. inputs ! a ! (4 * k + ch) * E ! a ! k ! w) / nn"
      using s(3) dn by simp
  qed
  have entry: "length (concat (matmul_ta W (n_axis_neuron c) (Gs ! a)
                   (map (take (n_axis_neuron c)) (Gs ! a)))) = W * n_axis_neuron c
      \<and> (\<forall>w<W. \<forall>j<n_axis_neuron c.
            concat (matmul_ta W (n_axis_neuron c) (Gs ! a) (map (take (n_axis_neuron c)) (Gs ! a)))
              ! (w * n_axis_neuron c + j)
            = (\<Sum>ch<4. ((\<Sum>k<n. inputs ! a ! (4 * k + ch) * E ! a ! k ! w) / nn)
                      * ((\<Sum>k<n. inputs ! a ! (4 * k + ch) * E ! a ! k ! j) / nn)))"
    if "a < length inputs" for a
  proof -
    have w4: "\<forall>ch<4. length (Gs ! a ! ch) = W" using G(2) [OF that] by simp
    note de = descriptor_entry [OF G(1) [OF that] w4 assms(10)]
    have "concat (matmul_ta W (n_axis_neuron c) (Gs ! a) (map (take (n_axis_neuron c)) (Gs ! a)))
              ! (w * n_axis_neuron c + j)
        = (\<Sum>ch<4. ((\<Sum>k<n. inputs ! a ! (4 * k + ch) * E ! a ! k ! w) / nn)
                  * ((\<Sum>k<n. inputs ! a ! (4 * k + ch) * E ! a ! k ! j) / nn))"
      if wj: "w < W" "j < n_axis_neuron c" for w j
    proof -
      have jW: "j < W" using wj assms(10) by simp
      have "concat (matmul_ta W (n_axis_neuron c) (Gs ! a) (map (take (n_axis_neuron c)) (Gs ! a)))
              ! (w * n_axis_neuron c + j)
          = (\<Sum>ch<4. Gs ! a ! ch ! w * Gs ! a ! ch ! j)"
        by (rule de(2) [OF wj])
      also have "\<dots> = (\<Sum>ch<4. ((\<Sum>k<n. inputs ! a ! (4 * k + ch) * E ! a ! k ! w) / nn)
                  * ((\<Sum>k<n. inputs ! a ! (4 * k + ch) * E ! a ! k ! j) / nn))"
        by (rule sum.cong) (simp_all add: G(3) [OF \<open>a < length inputs\<close>] wj(1) jW)
      finally show ?thesis .
    qed
    then show ?thesis using de(1) by blast
  qed
  show ?thesis
    unfolding val using lg entry by (intro exI conjI) (rule refl, simp, simp)
qed

theorem filter_atten_descriptor_witness:
  "\<exists>result q. filter_atten ex_config ex_nets ex_env [] ex_inputs (Some ex_type_embedding)
                 (Some [0, 1]) = Inr (result, q)
     \<and> length result = length ex_inputs
     \<and> (\<forall>a<length ex_inputs.
           length (result ! a) = 2 * n_axis_neuron ex_config
         \<and> (\<forall>w<2. \<forall>j<n_axis_neuron ex_config.
               result ! a ! (w * n_axis_neuron ex_config + j)
                 = (\<Sum>ch<4. ((\<Sum>k<2. ex_inputs ! a ! (4 * k + ch)
                                     * [[[1, 2], [8, 2]], [[1, 2], [2, 2]]] ! a ! k ! w) / 2)
                           * ((\<Sum>k<2. ex_inputs ! a ! (4 * k + ch)
                                     * [[[1, 2], [8, 2]], [[1, 2], [2, 2]]] ! a ! k ! j) / 2))))"
proof -
  have h: "sel_a ex_config \<noteq> []" "2 = sum_list (sel_a ex_config)" "ndescrpt ex_config = 4 * 2"
    "\<forall>row\<in>set ex_inputs. length row = ndescrpt ex_config"
    "\<not> compress ex_config"
    "length [[[1, 2], [8, 2]], [[1, 2], [2, 2 :: real]]] = length ex_inputs"
    "\<forall>M\<in>set [[[1, 2], [8, 2]], [[1, 2], [2, 2 :: real]]].
        length M = 2 \<and> (\<forall>r\<in>set M. length r = 2)"
    "2 = last (1 # filter_neuron ex_config)" "n_axis_neuron ex_config \<le> 2"
    "(2 :: real) = (case original_sel ex_config of None \<Rightarrow> real 2 | Some os \<Rightarrow> real (sum_list os))"
    "0 < (2 :: real)"
    by (simp_all add: ex_config_def ex_inputs_def)
  show ?thesis
    by (rule filter_atten_descriptor [OF h(1,2,3,4,5) ex_xyz_scatter_att h(6,7,8,9,10,11)])
qed

section \<open>The rotation matrix\<close>

text \<open>
  Claim C7, as the code has it.  Let \<open>X\<close> be the rows that \<^verbatim>\<open>_pass_filter\<close> hands to
  \<^verbatim>\<open>_filter\<close> (the descriptor rows, after the exclusion mask when one is configured), one
  row of \<open>n\<close> slots of 4 features for each of the \<open>nframes * natoms[0]\<close> atoms, and \<open>E\<close>
  the attended embedding of these rows.  The scaled matrix of atom \<open>a\<close> is
  \<open>G ch w = (\<Sum>k<n. X a (4 k + ch) * E a k w) / nn\<close>.  The rotation matrix that \<^verbatim>\<open>_filter\<close>
  returns holds for each atom the three spatial rows (rows 1 to 3, without the radial row 0)
  of \<open>G\<close>, transposed: it has \<open>W\<close> rows of 3 entries, entry \<open>(w, d)\<close> being
  \<open>G (d + 1) w\<close>.  \<^verbatim>\<open>_pass_filter\<close> returns it reshaped to one vector of \<open>3 * W\<close> numbers
  for atom \<open>i\<close> of frame \<open>f\<close>, whose entry \<open>w * 3 + d\<close> is entry \<open>(w, d)\<close> of the matrix of
  atom \<open>f * natoms[0] + i\<close>.
\<close>

theorem pass_filter_qmat:
  assumes te: "(case input_dict of None \<Rightarrow> None | Some d \<Rightarrow> d ''type_embedding'') = Some te"
    and nat: "natoms = natoms0 # rest" and n0: "0 < natoms0"
    and sel: "sel_a c \<noteq> []" and n: "n = sum_list (sel_a c)" and npos: "0 < n"
    and nd: "ndescrpt c = 4 * n"
    and len: "length (concat inputs) = nframes * natoms0 * ndescrpt c"
    and masked: "(if exclude_types c \<noteq> [] then
            (case build_type_exclude_mask (exclude_types c) (ntypes c) (sel_a c) (ndescrpt c)
                    atype (nframes * natoms0) (nei_type_vec e) of
               Inl err \<Rightarrow> Inl err
             | Inr m \<Rightarrow> ew_rows (*) (rows_of (nframes * natoms0) (ndescrpt c) (concat inputs)) m)
          else Inr (rows_of (nframes * natoms0) (ndescrpt c) (concat inputs))) = Inr X"
    and Xl: "length X = nframes * natoms0" and Xr: "\<forall>row\<in>set X. length row = ndescrpt c"
    and nc: "\<not> compress c"
    and E: "xyz_scatter_att c p e suffix n X te atype = Inr E"
    and El: "length E = nframes * natoms0"
    and Er: "\<forall>M\<in>set E. length M = n \<and> (\<forall>r\<in>set M. length r = W)"
    and fn: "filter_neuron c \<noteq> []" and W: "W = last (filter_neuron c)"
    and ax: "n_axis_neuron c \<le> W"
    and nn: "nn = (case original_sel c of None \<Rightarrow> real n | Some os \<Rightarrow> real (sum_list os))"
    and nnpos: "0 < nn"
  shows "\<exists>result q0 layer q.
           filter_atten c p e suffix X (Some te) (Some atype) = Inr (result, q0)
         \<and> pass_filter c p e suffix inputs atype natoms input_dict = Inr (layer, q)
         \<and> length q0 = nframes * natoms0 \<and> length q = nframes
         \<and> (\<forall>f<nframes. length (q ! f) = natoms0
              \<and> (\<forall>i<natoms0.
                    length (q0 ! (f * natoms0 + i)) = W \<and> length (q ! f ! i) = 3 * W
                  \<and> (\<forall>w<W. length (q0 ! (f * natoms0 + i) ! w) = 3
                       \<and> (\<forall>d<3.
                             q0 ! (f * natoms0 + i) ! w ! d
                               = (\<Sum>k<n. X ! (f * natoms0 + i) ! (4 * k + (d + 1))
                                          * E ! (f * natoms0 + i) ! k ! w) / nn
                           \<and> q ! f ! i ! (w * 3 + d) = q0 ! (f * natoms0 + i) ! w ! d))))"
proof -
  define A where "A = nframes * natoms0"
  define a2 where "a2 = n_axis_neuron c"
  have W1: "last (1 # filter_neuron c) = W" using fn W by simp
  define d0 where "d0 = (case original_sel c of None \<Rightarrow> real (ndescrpt c) / 4
                        | Some os \<Rightarrow> real (sum_list os))"
  have dn: "d0 = nn" using nd nn by (simp add: d0_def split: option.splits)
  define Gs where "Gs = map (map (map (\<lambda>x. x / d0)))
      (map2 (\<lambda>row M. matmul_ta 4 W (rows_of n 4 row) M) X E)"
  define layer0 where "layer0 = map (\<lambda>G. concat (matmul_ta W a2 G (map (take a2) G))) Gs"
  define q0 where "q0 = map (\<lambda>G. transpose_w W (take 3 (drop 1 G))) Gs"
  have rows: "\<forall>row\<in>set X. length row = sum_list (sel_a c) * 4"
    using n nd Xr by simp
  have EX: "length E = length X" using El Xl by simp
  have val: "filter_atten c p e suffix X (Some te) (Some atype) = Inr (layer0, q0)"
    unfolding layer0_def q0_def a2_def W1 [symmetric]
    by (rule filter_atten_value [OF sel rows nc E [unfolded n] EX ax [unfolded W1 [symmetric]]])
      (simp add: Gs_def d0_def n fn W)
  have lg: "length Gs = A" by (simp add: Gs_def EX Xl A_def)
  have G: "length (Gs ! a) = 4" "\<And>ch. ch < 4 \<Longrightarrow> length (Gs ! a ! ch) = W"
    "\<And>ch w. ch < 4 \<Longrightarrow> w < W \<Longrightarrow>
        Gs ! a ! ch ! w = (\<Sum>k<n. X ! a ! (4 * k + ch) * E ! a ! k ! w) / nn"
    if "a < A" for a
  proof -
    have aX: "a < length X" using that Xl by (simp add: A_def)
    have li: "length (X ! a) = n * 4" using aX nd Xr by simp
    have le: "length (E ! a) = n" using aX EX Er by simp
    note s = scaled_G_entry [OF Gs_def EX aX li le]
    show "length (Gs ! a) = 4" by (rule s(1))
    show "\<And>ch. ch < 4 \<Longrightarrow> length (Gs ! a ! ch) = W" by (rule s(2))
    show "\<And>ch w. ch < 4 \<Longrightarrow> w < W \<Longrightarrow>
        Gs ! a ! ch ! w = (\<Sum>k<n. X ! a ! (4 * k + ch) * E ! a ! k ! w) / nn"
      using s(3) dn by simp
  qed
  have Gset: "length G = 4 \<and> (\<forall>ch<4. length (G ! ch) = W)" if "G \<in> set Gs" for G
  proof -
    from that obtain a where "a < A" "G = Gs ! a" using lg by (metis in_set_conv_nth)
    then show ?thesis using G(1,2) by simp
  qed
  have l0: "\<forall>r\<in>set layer0. length r = W * a2"
  proof
    fix r assume "r \<in> set layer0"
    then obtain G0 where g: "G0 \<in> set Gs" "r = concat (matmul_ta W a2 G0 (map (take a2) G0))"
      by (auto simp: layer0_def)
    have "length G0 = 4" "\<forall>ch<4. length (G0 ! ch) = W" using Gset [OF g(1)] by simp_all
    from descriptor_entry(1) [OF this ax [folded a2_def]] show "length r = W * a2"
      by (simp add: g(2))
  qed
  have qrow: "\<forall>xs\<in>set (q0 ! a). length xs = 3" "length (q0 ! a) = W"
    "length (concat (q0 ! a)) = W * 3" if "a < A" for a
  proof -
    have e: "q0 ! a = transpose_w W (take 3 (drop 1 (Gs ! a)))"
      using that lg by (simp add: q0_def)
    show u: "\<forall>xs\<in>set (q0 ! a). length xs = 3"
      using G(1) [OF that] by (auto simp: e transpose_w_def col_def)
    show l: "length (q0 ! a) = W" by (simp add: e transpose_w_def)
    show "length (concat (q0 ! a)) = W * 3"
      using length_concat_uniform [OF u] l by simp
  qed
  have lq0: "length q0 = A" by (simp add: q0_def lg)
  have q1: "\<forall>r\<in>set (map concat q0). length r = W * 3"
  proof
    fix r assume "r \<in> set (map concat q0)"
    then obtain a where "a < A" "r = concat (q0 ! a)"
      using lq0 by (auto simp: in_set_conv_nth)
    then show "length r = W * 3" using qrow(3) by simp
  qed
  have d1: "get_dim_out c = Inr (W * a2)"
    using fn W by (simp add: get_dim_out_def a2_def)
  have d2: "get_dim_rot_mat_1 c = Inr W"
    using fn W by (simp add: get_dim_rot_mat_1_def)
  have ll0: "length layer0 = nframes * natoms0" by (simp add: layer0_def lg A_def)
  have lq1: "length (map concat q0) = nframes * natoms0" by (simp add: lq0 A_def)
  note r1 = reshape3_ok [OF l0 ll0]
  note r2 = reshape3_ok [OF q1 lq1]
  define layer where "layer = map (rows_of natoms0 (W * a2))
      (rows_of nframes (natoms0 * (W * a2)) (concat layer0))"
  define q where "q = map (rows_of natoms0 (W * 3))
      (rows_of nframes (natoms0 * (W * 3)) (concat (map concat q0)))"
  have pos: "0 < natoms0 * ndescrpt c" using n0 npos nd by simp
  have len': "length (concat inputs) = nframes * (natoms0 * ndescrpt c)"
    using len by (simp add: mult.assoc)
  have pf: "pass_filter c p e suffix inputs atype natoms input_dict = Inr (layer, q)"
    by (rule pass_filter_value [OF te nat pos len' masked val d1 r1(1) [folded layer_def] d2
          r2(1) [folded q_def]])
  have ent: "length (q ! f) = natoms0
      \<and> (\<forall>i<natoms0.
            length (q0 ! (f * natoms0 + i)) = W \<and> length (q ! f ! i) = 3 * W
          \<and> (\<forall>w<W. length (q0 ! (f * natoms0 + i) ! w) = 3
               \<and> (\<forall>d<3.
                     q0 ! (f * natoms0 + i) ! w ! d
                       = (\<Sum>k<n. X ! (f * natoms0 + i) ! (4 * k + (d + 1))
                                  * E ! (f * natoms0 + i) ! k ! w) / nn
                   \<and> q ! f ! i ! (w * 3 + d) = q0 ! (f * natoms0 + i) ! w ! d)))"
    if f: "f < nframes" for f
  proof -
    have lf: "length (q ! f) = natoms0" using r2(4) [OF f] by (simp add: q_def)
    have "length (q0 ! (f * natoms0 + i)) = W \<and> length (q ! f ! i) = 3 * W
          \<and> (\<forall>w<W. length (q0 ! (f * natoms0 + i) ! w) = 3
               \<and> (\<forall>d<3.
                     q0 ! (f * natoms0 + i) ! w ! d
                       = (\<Sum>k<n. X ! (f * natoms0 + i) ! (4 * k + (d + 1))
                                  * E ! (f * natoms0 + i) ! k ! w) / nn
                   \<and> q ! f ! i ! (w * 3 + d) = q0 ! (f * natoms0 + i) ! w ! d))"
      if i: "i < natoms0" for i
    proof -
      have aA: "f * natoms0 + i < A"
      proof -
        have "f * natoms0 + natoms0 \<le> nframes * natoms0"
          using f by (metis Suc_leI mult_Suc mult_le_mono1 add.commute)
        then show ?thesis using i by (simp add: A_def)
      qed
      have qfi: "q ! f ! i = concat (q0 ! (f * natoms0 + i))"
        using r2(2) [OF f i] aA lq0 by (simp add: q_def)
      have e: "q0 ! (f * natoms0 + i) = transpose_w W (take 3 (drop 1 (Gs ! (f * natoms0 + i))))"
        using aA lg by (simp add: q0_def)
      have "length (q0 ! (f * natoms0 + i) ! w) = 3
          \<and> (\<forall>d<3. q0 ! (f * natoms0 + i) ! w ! d
                       = (\<Sum>k<n. X ! (f * natoms0 + i) ! (4 * k + (d + 1))
                                  * E ! (f * natoms0 + i) ! k ! w) / nn
                   \<and> q ! f ! i ! (w * 3 + d) = q0 ! (f * natoms0 + i) ! w ! d)"
        if w: "w < W" for w
      proof -
        have l3: "length (q0 ! (f * natoms0 + i) ! w) = 3"
          using qrow(1,2) [OF aA] w by simp
        have "q0 ! (f * natoms0 + i) ! w ! d
                       = (\<Sum>k<n. X ! (f * natoms0 + i) ! (4 * k + (d + 1))
                                  * E ! (f * natoms0 + i) ! k ! w) / nn
                   \<and> q ! f ! i ! (w * 3 + d) = q0 ! (f * natoms0 + i) ! w ! d"
          if d: "d < 3" for d
        proof -
          have "q0 ! (f * natoms0 + i) ! w ! d = Gs ! (f * natoms0 + i) ! (d + 1) ! w"
            unfolding e by (rule qmat_entry(3) [OF G(1) [OF aA] w d])
          moreover have "Gs ! (f * natoms0 + i) ! (d + 1) ! w
              = (\<Sum>k<n. X ! (f * natoms0 + i) ! (4 * k + (d + 1))
                         * E ! (f * natoms0 + i) ! k ! w) / nn"
            using G(3) [OF aA, of "d + 1" w] w d by simp
          moreover have "concat (q0 ! (f * natoms0 + i)) ! (w * 3 + d)
              = q0 ! (f * natoms0 + i) ! w ! d"
            by (rule concat_uniform_nth [OF qrow(1) [OF aA]]) (use w d qrow(2) [OF aA] in simp_all)
          ultimately show ?thesis by (simp add: qfi)
        qed
        then show ?thesis using l3 by blast
      qed
      then show ?thesis using qrow(2,3) [OF aA] qfi by (simp add: mult.commute)
    qed
    then show ?thesis using lf by blast
  qed
  have lq: "length q = nframes" by (simp add: q_def)
  show ?thesis
    apply (rule exI [of _ layer0], rule exI [of _ q0], rule exI [of _ layer], rule exI [of _ q])
    using val pf lq0 lq ent by (simp add: A_def)
qed

theorem pass_filter_qmat_witness:
  "\<exists>result q0 layer q.
      filter_atten ex_config ex_nets ex_env [] ex_inputs (Some ex_type_embedding) (Some [0, 1])
        = Inr (result, q0)
    \<and> pass_filter ex_config ex_nets ex_env [] ex_inputs [0, 1] ex_natoms ex_input_dict
        = Inr (layer, q)
    \<and> length q0 = 1 * 2 \<and> length q = 1
    \<and> (\<forall>f<1. length (q ! f) = 2
         \<and> (\<forall>i<2.
               length (q0 ! (f * 2 + i)) = 2 \<and> length (q ! f ! i) = 3 * 2
             \<and> (\<forall>w<2. length (q0 ! (f * 2 + i) ! w) = 3
                  \<and> (\<forall>d<3.
                        q0 ! (f * 2 + i) ! w ! d
                          = (\<Sum>k<2. ex_inputs ! (f * 2 + i) ! (4 * k + (d + 1))
                                     * [[[1, 2], [8, 2]], [[1, 2], [2, 2]]] ! (f * 2 + i) ! k ! w) / 2
                      \<and> q ! f ! i ! (w * 3 + d) = q0 ! (f * 2 + i) ! w ! d))))"
proof -
  have te: "(case ex_input_dict of None \<Rightarrow> None | Some d \<Rightarrow> d ''type_embedding'')
      = Some ex_type_embedding"
    by (simp add: ex_input_dict_def)
  have nat: "ex_natoms = 2 # [2, 1, 1]" by (simp add: ex_natoms_def)
  have h: "0 < (2 :: nat)" "sel_a ex_config \<noteq> []" "2 = sum_list (sel_a ex_config)"
    "ndescrpt ex_config = 4 * 2"
    "length (concat ex_inputs) = 1 * 2 * ndescrpt ex_config"
    by (simp_all add: ex_config_def ex_inputs_def)
  have masked: "(if exclude_types ex_config \<noteq> [] then
        (case build_type_exclude_mask (exclude_types ex_config) (ntypes ex_config)
                (sel_a ex_config) (ndescrpt ex_config) [0, 1] (1 * 2) (nei_type_vec ex_env) of
           Inl err \<Rightarrow> Inl err
         | Inr m \<Rightarrow> ew_rows (*) (rows_of (1 * 2) (ndescrpt ex_config) (concat ex_inputs)) m)
      else Inr (rows_of (1 * 2) (ndescrpt ex_config) (concat ex_inputs))) = Inr ex_inputs"
    by (simp add: ex_config_def ex_inputs_def rows_of_def upt_rec)
  have x: "length ex_inputs = 1 * 2" "\<forall>row\<in>set ex_inputs. length row = ndescrpt ex_config"
    "\<not> compress ex_config"
    by (simp_all add: ex_config_def ex_inputs_def)
  have e: "length [[[1, 2], [8, 2]], [[1, 2], [2, 2 :: real]]] = 1 * 2"
    "\<forall>M\<in>set [[[1, 2], [8, 2]], [[1, 2], [2, 2 :: real]]].
        length M = 2 \<and> (\<forall>r\<in>set M. length r = 2)"
    "filter_neuron ex_config \<noteq> []" "2 = last (filter_neuron ex_config)"
    "n_axis_neuron ex_config \<le> 2"
    "(2 :: real) = (case original_sel ex_config of None \<Rightarrow> real 2 | Some os \<Rightarrow> real (sum_list os))"
    "0 < (2 :: real)"
    by (simp_all add: ex_config_def)
  show ?thesis
    by (rule pass_filter_qmat [OF te nat h(1,2,3,1,4,5) masked x ex_xyz_scatter_att e])
qed

text \<open>
  In the small system \<open>W = 2\<close>.  For atom \<open>0\<close> the unscaled \<open>G\<close> is
  \<open>[[17, 6], [1, 2], [8, 2], [0, 0]]\<close> and the neighbour count is \<open>2\<close>, so the three
  spatial rows of the scaled \<open>G\<close> are \<open>[[1/2, 1], [4, 1], [0, 0]]\<close>, three rows of width
  \<open>W\<close>.  The rotation matrix that is returned has two rows of three entries instead, and
  reaches the caller of \<^verbatim>\<open>_pass_filter\<close> flattened in that order.
\<close>

theorem qmat_shape_counterexample:
  "filter_lower ex_config ex_nets ex_env [] 0 2 ex_inputs (Some ex_type_embedding) (Some [0, 1])
       False
     = Inr [[[17, 6], [1, 2], [8, 2], [0, 0]], [[3, 4], [3, 4], [0, 0], [0, 0]]]
   \<and> filter_atten ex_config ex_nets ex_env [] ex_inputs (Some ex_type_embedding) (Some [0, 1])
     = Inr ([[177 / 2, 30], [9 / 2, 6]],
            [[[1 / 2, 4, 0], [1, 1, 0]], [[3 / 2, 0, 0], [2, 0, 0]]])
   \<and> [[1 / 2, 4, 0], [1, 1, 0]] \<noteq> [[1 / 2, 1], [4, 1], [0, 0 :: real]]
   \<and> pass_filter ex_config ex_nets ex_env [] ex_inputs [0, 1] ex_natoms ex_input_dict
     = Inr ([[[177 / 2, 30], [9 / 2, 6]]],
            [[[1 / 2, 4, 0, 1, 1, 0], [3 / 2, 0, 0, 2, 0, 0]]])"
  using ex_filter_lower ex_filter_atten ex_pass_filter by simp

section \<open>Failing builds\<close>

lemma run_Nil [simp]: "run [] = ([], None)"
  by (simp add: run_def)

lemma run_Cons [simp]: "run (t # ts) = and_then t (run ts)"
  by (simp add: run_def)

lemma and_then_emit [simp]: "and_then (emit es) t = (es @ fst t, snd t)"
  by (simp add: and_then_def emit_def)

lemma and_then_guard [simp]:
  "and_then (guard ok err) t = (if ok then t else ([], Some err))"
  by (simp add: and_then_def guard_def)

lemma and_then_error [simp]: "and_then (es, Some err) t = (es, Some err)"
  by (simp add: and_then_def)

lemma and_then_ok [simp]: "and_then (es, None) t = (es @ fst t, snd t)"
  by (simp add: and_then_def)

lemma filter_graph_compress:
  "compress c \<Longrightarrow> sel_a c \<noteq> [] \<Longrightarrow> filter_graph c name suffix
     = ([], Some (RuntimeError
          ''compression of attention descriptor is not supported at the moment''))"
  by (simp add: filter_graph_def filter_lower_graph_def)

lemma pass_filter_Inl_no_type_embedding:
  "(case input_dict of None \<Rightarrow> None | Some d \<Rightarrow> d ''type_embedding'') = None
     \<Longrightarrow> pass_filter c p e suffix inputs atype natoms input_dict
         = Inl (AssertionError ''se_atten desctiptor must use type_embedding'')"
  by (simp add: pass_filter_def)

lemma filter_lower_not_Inr_compress:
  "compress c \<Longrightarrow> filter_lower c p e suffix s n inputs te atype ex \<noteq> Inr r"
  by (simp add: filter_lower_def Let_def split: sum.splits option.splits)

lemma filter_atten_not_Inr_compress:
  "compress c \<Longrightarrow> filter_atten c p e suffix inputs te atype \<noteq> Inr r"
  by (auto simp: filter_atten_def Let_def filter_lower_not_Inr_compress
      split: sum.splits if_splits)

lemma pass_filter_not_Inr_compress:
  "compress c \<Longrightarrow> pass_filter c p e suffix inputs atype natoms input_dict \<noteq> Inr r"
  by (auto simp: pass_filter_def Let_def filter_atten_not_Inr_compress
      split: sum.splits option.splits list.splits if_splits prod.splits)

lemma build_Inr_pass_filter:
  "build c p env_op coord0 atype0 natoms box0 mesh input_dict suffix = Inr b
     \<Longrightarrow> \<exists>e dr an r. pass_filter c p e suffix dr an natoms input_dict = Inr r"
  unfolding build_def Let_def
  by (simp split: list.splits sum.splits prod.splits) blast

lemma build_graph_prologue:
  assumes "sel_all_a c \<noteq> []"
  shows "build_graph c suffix input_dict
     = (map (\<lambda>n. Const (''descrpt_attr'' @ suffix @ ''/'' @ n))
          [''rcut'', ''ntypes'', ''ndescrpt'', ''sel'', ''original_sel'']
        @ [Var (''descrpt_attr'' @ suffix @ ''/t_avg''), Assign ''t_avg'',
           Var (''descrpt_attr'' @ suffix @ ''/t_std''), Assign ''t_std'',
           Assign ''attn_weight'', Assign ''angular_weight'', Assign ''attn_weight_final'',
           OpCall ''prod_env_mat_a_mix'', Assign ''descrpt'', Assign ''descrpt_deriv'',
           Assign ''rij'', Assign ''nlist'', Assign ''nei_type_vec'', Assign ''nmask'',
           Assign ''nei_type_vec'', Assign ''nmask'', Assign ''negative_mask'',
           Summary ''descrpt'', Summary ''rij'', Summary ''nlist'',
           Assign ''descrpt_reshape'', Assign ''atype_nloc'', OpCall ''_identity_tensors'']
        @ fst (and_then (pass_filter_graph c suffix input_dict)
                 (emit [Assign ''dout'', Assign ''qmat'', Summary ''embedding_net_output''])),
        snd (and_then (pass_filter_graph c suffix input_dict)
               (emit [Assign ''dout'', Assign ''qmat'', Summary ''embedding_net_output''])))"
  using assms by (simp add: build_graph_def emit_def)

lemma pass_filter_graph_missing:
  "(case input_dict of None \<Rightarrow> None | Some d \<Rightarrow> d ''type_embedding'') = None
     \<Longrightarrow> pass_filter_graph c suffix input_dict
         = ([], Some (AssertionError ''se_atten desctiptor must use type_embedding''))"
  by (simp add: pass_filter_graph_def)

lemma pass_filter_graph_compress:
  assumes "(case input_dict of None \<Rightarrow> None | Some d \<Rightarrow> d ''type_embedding'') \<noteq> None"
    and "compress c"
  shows "snd (pass_filter_graph c suffix input_dict) \<noteq> None"
    and "set (fst (pass_filter_graph c suffix input_dict)) \<subseteq> {OpCall ''build_type_exclude_mask''}"
    and "sel_a c \<noteq> [] \<Longrightarrow>
           snd (pass_filter_graph c suffix input_dict)
             = Some (RuntimeError
                 ''compression of attention descriptor is not supported at the moment'')"
  using assms
  by (auto simp: pass_filter_graph_def filter_graph_def filter_lower_graph_def)

text \<open>
  Claim C8, as the code has it.  \<^verbatim>\<open>sel_a\<close> and \<^verbatim>\<open>sel_all_a\<close> are the one-element list
  \<^verbatim>\<open>[sel]\<close> of the constructor, whatever the number \<^verbatim>\<open>sel\<close> is.  When the
  \<^verbatim>\<open>type_embedding\<close> entry is missing, the construction of the graph ends with the failed
  assertion of \<^verbatim>\<open>_pass_filter\<close>; when it is present and compression is enabled, it ends with
  the \<^verbatim>\<open>RuntimeError\<close> of \<^verbatim>\<open>_filter_lower\<close>, with or without type exclusions and also for
  \<^verbatim>\<open>sel = 0\<close>.  In both cases no embedding net, no attention layer and no layer
  normalisation has been created, \<^verbatim>\<open>self.dout\<close> and \<^verbatim>\<open>self.qmat\<close> have not been assigned
  and \<open>build\<close> yields no descriptor for any parameters and inputs.  What was created before
  the failing check stays: the variables \<^verbatim>\<open>t_avg\<close> and \<^verbatim>\<open>t_std\<close>, the environment-matrix
  operator and the attributes \<^verbatim>\<open>descrpt\<close> to \<^verbatim>\<open>atype_nloc\<close> of \<^verbatim>\<open>self\<close>.
\<close>

theorem build_fails_before_descriptor:
  assumes "sel_all_a c \<noteq> []"
    and "te = (case input_dict of None \<Rightarrow> None | Some d \<Rightarrow> d ''type_embedding'')"
    and "g = build_graph c suffix input_dict"
  shows "(te = None \<longrightarrow>
            snd g = Some (AssertionError ''se_atten desctiptor must use type_embedding''))
       \<and> (te \<noteq> None \<and> compress c \<and> sel_a c \<noteq> [] \<longrightarrow>
            snd g = Some (RuntimeError
              ''compression of attention descriptor is not supported at the moment''))
       \<and> (te = None \<or> compress c \<longrightarrow>
              snd g \<noteq> None
            \<and> (\<forall>p env_op coord0 atype0 natoms box0 mesh b.
                  build c p env_op coord0 atype0 natoms box0 mesh input_dict suffix \<noteq> Inr b)
            \<and> Assign ''dout'' \<notin> set (fst g) \<and> Assign ''qmat'' \<notin> set (fst g)
            \<and> (\<forall>s n. EmbeddingNet s n \<notin> set (fst g))
            \<and> (\<forall>i s n. OneLayer i s n \<notin> set (fst g))
            \<and> (\<forall>i s. LayerNorm i s \<notin> set (fst g))
            \<and> Var (''descrpt_attr'' @ suffix @ ''/t_avg'') \<in> set (fst g)
            \<and> Var (''descrpt_attr'' @ suffix @ ''/t_std'') \<in> set (fst g)
            \<and> OpCall ''prod_env_mat_a_mix'' \<in> set (fst g)
            \<and> Assign ''descrpt'' \<in> set (fst g)
            \<and> Assign ''atype_nloc'' \<in> set (fst g))"
proof -
  note g = assms(3) [unfolded build_graph_prologue [OF assms(1)]]
  have miss: "snd g = Some (AssertionError ''se_atten desctiptor must use type_embedding'')"
    "set (fst (and_then (pass_filter_graph c suffix input_dict)
         (emit [Assign ''dout'', Assign ''qmat'', Summary ''embedding_net_output'']))) = {}"
    if "te = None"
    using that pass_filter_graph_missing [of input_dict c suffix] assms(2) by (simp_all add: g)
  have comp: "snd g \<noteq> None"
    "set (fst (and_then (pass_filter_graph c suffix input_dict)
         (emit [Assign ''dout'', Assign ''qmat'', Summary ''embedding_net_output''])))
       \<subseteq> {OpCall ''build_type_exclude_mask''}"
    if "te \<noteq> None" "compress c"
    using pass_filter_graph_compress(1,2) [of input_dict c suffix] that assms(2)
    by (auto simp: g and_then_def split: option.splits)
  have comp_err: "snd g = Some (RuntimeError
      ''compression of attention descriptor is not supported at the moment'')"
    if "te \<noteq> None" "compress c" "sel_a c \<noteq> []"
    using pass_filter_graph_compress(3) [of input_dict c suffix] that assms(2)
    by (auto simp: g and_then_def split: option.splits)
  have tail: "set (fst (and_then (pass_filter_graph c suffix input_dict)
         (emit [Assign ''dout'', Assign ''qmat'', Summary ''embedding_net_output''])))
       \<subseteq> {OpCall ''build_type_exclude_mask''}"
    and err: "snd g \<noteq> None"
    if "te = None \<or> compress c"
    using that miss comp by (cases "te = None"; auto)+
  have nobuild: "build c p env_op coord0 atype0 natoms box0 mesh input_dict suffix \<noteq> Inr b"
    if "te = None \<or> compress c" for p env_op coord0 atype0 natoms box0 mesh b
  proof
    assume "build c p env_op coord0 atype0 natoms box0 mesh input_dict suffix = Inr b"
    from build_Inr_pass_filter [OF this]
    obtain e dr an r where r: "pass_filter c p e suffix dr an natoms input_dict = Inr r" by blast
    show False
    proof (cases "te = None")
      case True
      then show False
        using r pass_filter_Inl_no_type_embedding [of input_dict c p e suffix dr an natoms] assms(2)
        by simp
    next
      case False
      then have "compress c" using that by blast
      then show False using r pass_filter_not_Inr_compress by blast
    qed
  qed
  have absent: "Assign ''dout'' \<notin> set (fst g) \<and> Assign ''qmat'' \<notin> set (fst g)
      \<and> (\<forall>s n. EmbeddingNet s n \<notin> set (fst g)) \<and> (\<forall>i s n. OneLayer i s n \<notin> set (fst g))
      \<and> (\<forall>i s. LayerNorm i s \<notin> set (fst g))"
    if "te = None \<or> compress c"
    using tail [OF that] by (auto simp: g)
  have present: "Var (''descrpt_attr'' @ suffix @ ''/t_avg'') \<in> set (fst g)
      \<and> Var (''descrpt_attr'' @ suffix @ ''/t_std'') \<in> set (fst g)
      \<and> OpCall ''prod_env_mat_a_mix'' \<in> set (fst g)
      \<and> Assign ''descrpt'' \<in> set (fst g) \<and> Assign ''atype_nloc'' \<in> set (fst g)"
    by (simp add: g)
  show ?thesis
    using miss(1) comp_err err nobuild absent present by blast
qed

theorem build_fails_before_descriptor_witness:
  "snd (build_graph (ex_config\<lparr>compress := True\<rparr>) [] ex_input_dict)
     = Some (RuntimeError ''compression of attention descriptor is not supported at the moment'')
   \<and> snd (build_graph (ex_config\<lparr>compress := True, sel_a := [0], sel_all_a := [0], nnei := 0,
                         ndescrpt := 0, exclude_types := [(0, 1)]\<rparr>) [] ex_input_dict)
     = Some (RuntimeError ''compression of attention descriptor is not supported at the moment'')
   \<and> snd (build_graph ex_config [] None)
     = Some (AssertionError ''se_atten desctiptor must use type_embedding'')
   \<and> Assign ''dout'' \<notin> set (fst (build_graph (ex_config\<lparr>compress := True\<rparr>) [] ex_input_dict))
   \<and> Assign ''descrpt'' \<in> set (fst (build_graph (ex_config\<lparr>compress := True\<rparr>) [] ex_input_dict))
   \<and> Assign ''dout'' \<notin> set (fst (build_graph ex_config [] None))
   \<and> Assign ''descrpt'' \<in> set (fst (build_graph ex_config [] None))"
proof -
  let ?c0 = "ex_config\<lparr>compress := True, sel_a := [0], sel_all_a := [0], nnei := 0,
      ndescrpt := 0, exclude_types := [(0, 1)]\<rparr>"
  have s1: "sel_all_a (ex_config\<lparr>compress := True\<rparr>) \<noteq> []" and s2: "sel_all_a ex_config \<noteq> []"
    and s3: "sel_all_a ?c0 \<noteq> []"
    by (simp_all add: ex_config_def)
  have t1: "(case ex_input_dict of None \<Rightarrow> None | Some d \<Rightarrow> d ''type_embedding'')
      = Some ex_type_embedding"
    by (simp add: ex_input_dict_def)
  have c1: "compress (ex_config\<lparr>compress := True\<rparr>)"
    "sel_a (ex_config\<lparr>compress := True\<rparr>) \<noteq> []"
    by (simp_all add: ex_config_def)
  have c3: "compress ?c0" "sel_a ?c0 \<noteq> []"
    by (simp_all add: ex_config_def)
  from build_fails_before_descriptor [OF s1 t1 [symmetric] refl, of "[]"] c1
  have a: "snd (build_graph (ex_config\<lparr>compress := True\<rparr>) [] ex_input_dict)
        = Some (RuntimeError ''compression of attention descriptor is not supported at the moment'')"
    "Assign ''dout'' \<notin> set (fst (build_graph (ex_config\<lparr>compress := True\<rparr>) [] ex_input_dict))"
    "Assign ''descrpt'' \<in> set (fst (build_graph (ex_config\<lparr>compress := True\<rparr>) [] ex_input_dict))"
    by simp_all
  from build_fails_before_descriptor [OF s3 t1 [symmetric] refl, of "[]"] c3
  have z: "snd (build_graph ?c0 [] ex_input_dict)
        = Some (RuntimeError ''compression of attention descriptor is not supported at the moment'')"
    by simp
  have t2: "None = (case None :: (string \<rightharpoonup> real list list) option of
        None \<Rightarrow> None | Some d \<Rightarrow> d ''type_embedding'')"
    by simp
  from build_fails_before_descriptor [OF s2 t2 refl, of "[]"]
  have b: "snd (build_graph ex_config [] None)
        = Some (AssertionError ''se_atten desctiptor must use type_embedding'')"
    "Assign ''dout'' \<notin> set (fst (build_graph ex_config [] None))"
    "Assign ''descrpt'' \<in> set (fst (build_graph ex_config [] None))"
    by simp_all
  show ?thesis using a z b by simp
qed

text \<open>
  With compression enabled, and likewise without the type embedding, the failing build of the
  small system has already created the statistics variables, called the operator and set
  fourteen attributes of \<^verbatim>\<open>self\<close>.
\<close>

theorem build_partial_graph_counterexample:
  "build_graph (ex_config\<lparr>compress := True\<rparr>) [] ex_input_dict
     = ([Const ''descrpt_attr/rcut'', Const ''descrpt_attr/ntypes'', Const ''descrpt_attr/ndescrpt'',
         Const ''descrpt_attr/sel'', Const ''descrpt_attr/original_sel'',
         Var ''descrpt_attr/t_avg'', Assign ''t_avg'', Var ''descrpt_attr/t_std'', Assign ''t_std'',
         Assign ''attn_weight'', Assign ''angular_weight'', Assign ''attn_weight_final'',
         OpCall ''prod_env_mat_a_mix'', Assign ''descrpt'', Assign ''descrpt_deriv'',
         Assign ''rij'', Assign ''nlist'', Assign ''nei_type_vec'', Assign ''nmask'',
         Assign ''nei_type_vec'', Assign ''nmask'', Assign ''negative_mask'',
         Summary ''descrpt'', Summary ''rij'', Summary ''nlist'',
         Assign ''descrpt_reshape'', Assign ''atype_nloc'', OpCall ''_identity_tensors''],
        Some (RuntimeError
          ''compression of attention descriptor is not supported at the moment''))
   \<and> build_graph ex_config [] None
     = ([Const ''descrpt_attr/rcut'', Const ''descrpt_attr/ntypes'', Const ''descrpt_attr/ndescrpt'',
         Const ''descrpt_attr/sel'', Const ''descrpt_attr/original_sel'',
         Var ''descrpt_attr/t_avg'', Assign ''t_avg'', Var ''descrpt_attr/t_std'', Assign ''t_std'',
         Assign ''attn_weight'', Assign ''angular_weight'', Assign ''attn_weight_final'',
         OpCall ''prod_env_mat_a_mix'', Assign ''descrpt'', Assign ''descrpt_deriv'',
         Assign ''rij'', Assign ''nlist'', Assign ''nei_type_vec'', Assign ''nmask'',
         Assign ''nei_type_vec'', Assign ''nmask'', Assign ''negative_mask'',
         Summary ''descrpt'', Summary ''rij'', Summary ''nlist'',
         Assign ''descrpt_reshape'', Assign ''atype_nloc'', OpCall ''_identity_tensors''],
        Some (AssertionError ''se_atten desctiptor must use type_embedding''))"
  by (simp add: build_graph_def pass_filter_graph_def filter_graph_def filter_lower_graph_def
      ex_config_def ex_input_dict_def)

section \<open>The two-sided embedding\<close>

lemma concat_replicate_nth_mod:
  assumes "p < n * length xs"
  shows "concat (replicate n xs) ! p = xs ! (p mod length xs)"
  using assms
proof (induction n arbitrary: p)
  case 0
  then show ?case by simp
next
  case (Suc n)
  show ?case
  proof (cases "p < length xs")
    case True
    then show ?thesis by (simp add: nth_append)
  next
    case False
    then have "p - length xs < n * length xs" using Suc.prems by simp
    from Suc.IH [OF this] False show ?thesis
      by (simp add: nth_append le_mod_geq)
  qed
qed

lemma length_concat_replicate_list [simp]:
  "length (concat (replicate n xs)) = n * length xs"
  by (induction n) simp_all

lemma two_side_type_embedding_nth:
  assumes "i < length te" "j < length te"
  shows "two_side_type_embedding te ! (i * length te + j) = te ! j @ te ! i"
proof -
  let ?rows = "map2 (map2 (@)) (replicate (length te) te) (map (replicate (length te)) te)"
  have u: "\<forall>xs\<in>set ?rows. length xs = length te" by (auto simp: set_zip)
  have "concat ?rows ! (i * length te + j) = ?rows ! i ! j"
    by (rule concat_uniform_nth [OF u]) (use assms in simp_all)
  then show ?thesis using assms by (simp add: two_side_type_embedding_def Let_def)
qed

text \<open>
  What \<open>embed\<close> computes without \<^verbatim>\<open>type_one_side\<close>, for \<open>N\<close> atoms with \<open>n\<close> slots each:
  slot \<open>p\<close> of the flat batch is mixed with the embedding of the pair of its neighbour type
  and of the centre type \<open>atype ! (p mod N)\<close>.
\<close>

lemma embed_two_side_rows:
  assumes "\<not> type_one_side c"
    and "length xyz0 = nnei c * length atype"
    and "length (nei_type_vec e) = nnei c * length atype"
    and "\<forall>t\<in>set (nei_type_vec e). 0 \<le> t \<and> t < int (length te)"
    and "\<forall>t\<in>set atype. 0 \<le> t \<and> t < int (length te)"
    and "int (length te) * int (length te) < 2 ^ 31"
    and "\<forall>s row. length (embedding_net p s row) = W"
    and "length (embedding_compose_s p) = W" and "length (embedding_compose_n p) = W"
  shows "\<exists>out. embed c p e suffix xyz0 te atype = Inr out
           \<and> length out = nnei c * length atype
           \<and> (\<forall>q<nnei c * length atype.
                 out ! q = spec_mix p (embedding_net p suffix (xyz0 ! q))
                            (embedding_net p (suffix @ ''_two_side_ebd'')
                               (two_side_type_embedding te
                                  ! nat (nei_type_vec e ! q * int (length te)
                                         + atype ! (q mod length atype)))))"
proof -
  let ?L = "nnei c * length atype"
  let ?T = "int (length te)"
  define idx where "idx = map (\<lambda>q. nei_type_vec e ! q * ?T + atype ! (q mod length atype)) [0..<?L]"
  have rng: "0 \<le> nei_type_vec e ! q * ?T + atype ! (q mod length atype)
      \<and> nei_type_vec e ! q * ?T + atype ! (q mod length atype) < ?T * ?T
      \<and> 0 \<le> nei_type_vec e ! q * ?T \<and> nei_type_vec e ! q * ?T < ?T * ?T" if "q < ?L" for q
  proof -
    have la: "0 < length atype" using that by (cases "length atype") simp_all
    have a: "0 \<le> atype ! (q mod length atype) \<and> atype ! (q mod length atype) < ?T"
      using assms(5) la by simp
    have b: "0 \<le> nei_type_vec e ! q \<and> nei_type_vec e ! q < ?T"
      using assms(3,4) that by simp
    have T0: "0 < ?T" using b by linarith
    have "0 \<le> nei_type_vec e ! q * ?T + 0" "nei_type_vec e ! q * ?T + 0 < ?T * ?T"
      by (rule two_side_idx_bounds; use b T0 in simp)+
    then show ?thesis
      using two_side_idx_bounds [of "atype ! (q mod length atype)" ?T "nei_type_vec e ! q"] a b
      by simp
  qed
  have "add_vec (map (\<lambda>t. i32 (t * ?T)) (nei_type_vec e)) (concat (replicate (nnei c) atype))
      = Inr (map2 (\<lambda>x y. i32 (x + y)) (map (\<lambda>t. i32 (t * ?T)) (nei_type_vec e))
               (concat (replicate (nnei c) atype)))"
    by (simp add: add_vec_def add_rows_def assms(3))
  also have "map2 (\<lambda>x y. i32 (x + y)) (map (\<lambda>t. i32 (t * ?T)) (nei_type_vec e))
               (concat (replicate (nnei c) atype)) = idx"
  proof (rule nth_equalityI)
    show "length (map2 (\<lambda>x y. i32 (x + y)) (map (\<lambda>t. i32 (t * ?T)) (nei_type_vec e))
               (concat (replicate (nnei c) atype))) = length idx"
      by (simp add: idx_def assms(3))
    fix q assume "q < length (map2 (\<lambda>x y. i32 (x + y)) (map (\<lambda>t. i32 (t * ?T)) (nei_type_vec e))
               (concat (replicate (nnei c) atype)))"
    then have q: "q < ?L" by (simp add: assms(3))
    have "i32 (nei_type_vec e ! q * ?T) = nei_type_vec e ! q * ?T"
      using rng [OF q] assms(6) by (intro i32_id) linarith+
    moreover have "i32 (nei_type_vec e ! q * ?T + atype ! (q mod length atype))
        = nei_type_vec e ! q * ?T + atype ! (q mod length atype)"
      using rng [OF q] assms(6) by (intro i32_id) linarith+
    ultimately show "map2 (\<lambda>x y. i32 (x + y)) (map (\<lambda>t. i32 (t * ?T)) (nei_type_vec e))
               (concat (replicate (nnei c) atype)) ! q = idx ! q"
      using q by (simp add: idx_def assms(3) concat_replicate_nth_mod)
  qed
  finally have ix: "index_of_two_side (nei_type_vec e) (length te) (nnei c) atype = Inr idx"
    by (simp add: index_of_two_side_def Let_def)
  let ?tab = "map (embedding_net p (suffix @ ''_two_side_ebd'')) (two_side_type_embedding te)"
  have lt: "int (length ?tab) = ?T * ?T" by (simp add: length_two_side_type_embedding)
  have "list_all (\<lambda>i. 0 \<le> i \<and> i < int (length ?tab)) idx"
    unfolding lt using rng by (simp add: idx_def list_all_iff)
  then have lk0: "embedding_lookup ?tab idx = Inr (map (\<lambda>i. ?tab ! nat i) idx)"
    by (rule embedding_lookup_ok)
  define base where "base = map (embedding_net p suffix) xyz0"
  define two where "two = map (\<lambda>i. ?tab ! nat i) idx"
  have lk: "embedding_lookup ?tab idx = Inr two" using lk0 by (simp add: two_def)
  have lens: "length base = ?L" "length two = ?L" by (simp_all add: base_def two_def idx_def assms(2))
  define out where "out = map2 (map2 (+)) (map2 (map2 (+)) (map2 (map2 (*)) base two)
        (map (map2 (*) (embedding_compose_s p)) base))
        (map (map2 (*) (embedding_compose_n p)) two)"
  have res: "embed c p e suffix xyz0 te atype = Inr out"
    unfolding embed_def Let_def ix base_def [symmetric]
    using assms(1) lens by (simp add: lk ew_rows_def out_def)
  have row: "out ! q = spec_mix p (embedding_net p suffix (xyz0 ! q))
      (embedding_net p (suffix @ ''_two_side_ebd'')
         (two_side_type_embedding te
            ! nat (nei_type_vec e ! q * ?T + atype ! (q mod length atype))))"
    if q: "q < ?L" for q
  proof -
    have b: "base ! q = embedding_net p suffix (xyz0 ! q)"
      using q assms(2) by (simp add: base_def)
    have n: "nat (idx ! q) < length (two_side_type_embedding te)"
      using rng [OF q] q
      by (simp add: idx_def length_two_side_type_embedding nat_less_iff)
    have t: "two ! q = embedding_net p (suffix @ ''_two_side_ebd'')
        (two_side_type_embedding te ! nat (nei_type_vec e ! q * ?T + atype ! (q mod length atype)))"
      using q n by (simp add: two_def) (simp add: idx_def)
    have lb: "length (base ! q) = W" "length (two ! q) = W"
      using assms(7) by (simp_all add: b t)
    have "out ! q = map2 (+) (map2 (+) (map2 (*) (base ! q) (two ! q))
        (map2 (*) (embedding_compose_s p) (base ! q)))
        (map2 (*) (embedding_compose_n p) (two ! q))"
      using q lens by (simp add: out_def)
    also have "\<dots> = spec_mix p (base ! q) (two ! q)"
      by (rule nth_equalityI) (simp_all add: spec_mix_def lb assms(8,9))
    finally show ?thesis by (simp add: b t)
  qed
  have "length out = ?L" using lens by (simp add: out_def)
  then show ?thesis using res row by blast
qed

text \<open>
  Claim C5 on the small system.  Slot \<open>1\<close> of the flat batch is the second neighbour slot
  of atom \<open>0\<close>: the centre type is \<open>0\<close>, the neighbour type \<open>1\<close> and the radial scalar
  \<open>2\<close>.  The index computed for it is \<open>3 = 1 * 2 + 1\<close>, which is the row of the pair
  (neighbour type \<open>1\<close>, centre type \<open>1\<close>): the centre type is the one of atom \<open>1\<close>,
  because \<^verbatim>\<open>tf.tile(atype, [self.nnei])\<close> repeats the whole list of centre types instead of
  repeating each centre type \<open>nnei\<close> times.  The embedding of the slot is the mixing rule
  applied to that row, and differs from the mixing rule applied to the pair embedding of the
  slot's own types \<open>0\<close> and \<open>1\<close>, in either order of concatenation.
\<close>

theorem two_side_pair_of_other_atom:
  "index_of_two_side (nei_type_vec ex_env) (length ex_type_embedding) (nnei ex_config) [0, 1]
     = Inr [0, 3, 0, 1]
   \<and> embed ex_config ex_nets ex_env [] [[1], [2], [1], [1]] ex_type_embedding [0, 1]
     = Inr [[1, 2], [8, 2], [1, 2], [2, 2]]
   \<and> [8, 2] = spec_mix ex_nets (embedding_net ex_nets [] [2])
                 (embedding_net ex_nets ''_two_side_ebd''
                    (ex_type_embedding ! 1 @ ex_type_embedding ! 1))
   \<and> [8, 2] \<noteq> spec_mix ex_nets (embedding_net ex_nets [] [2])
                 (embedding_net ex_nets ''_two_side_ebd''
                    (ex_type_embedding ! 0 @ ex_type_embedding ! 1))
   \<and> [8, 2] \<noteq> spec_mix ex_nets (embedding_net ex_nets [] [2])
                 (embedding_net ex_nets ''_two_side_ebd''
                    (ex_type_embedding ! 1 @ ex_type_embedding ! 0))"
  using ex_index ex_embed
  by (simp add: spec_mix_def ex_nets_def ex_type_embedding_def dot_def upt_rec)

section \<open>Reordering the neighbour slots\<close>

text \<open>
  Claim C3 on the small system.  \<open>ex_env_mat_swapped\<close> is \<open>ex_env_mat\<close> with the two
  neighbour slots of atom \<open>0\<close> exchanged: features, neighbour types and validity flags are
  permuted together and atom \<open>1\<close> is untouched.  With the two-sided type embedding the
  descriptor of atom \<open>0\<close> changes from \<open>[177/2, 30]\<close> to \<open>[59, 25]\<close>: the centre type that a
  slot is paired with depends on the position of the slot in the flat batch, through
  \<open>index_of_two_side\<close>.
\<close>

theorem slot_permutation_changes_descriptor:
  "rows_of 2 4 (take 8 (hd (em_descrpt ex_env_mat_swapped)))
     = rev (rows_of 2 4 (take 8 (hd (em_descrpt ex_env_mat))))
   \<and> drop 8 (hd (em_descrpt ex_env_mat_swapped)) = drop 8 (hd (em_descrpt ex_env_mat))
   \<and> take 2 (hd (em_nei_type_vec ex_env_mat_swapped))
     = rev (take 2 (hd (em_nei_type_vec ex_env_mat)))
   \<and> drop 2 (hd (em_nei_type_vec ex_env_mat_swapped)) = drop 2 (hd (em_nei_type_vec ex_env_mat))
   \<and> take 2 (hd (em_nmask ex_env_mat_swapped)) = rev (take 2 (hd (em_nmask ex_env_mat)))
   \<and> drop 2 (hd (em_nmask ex_env_mat_swapped)) = drop 2 (hd (em_nmask ex_env_mat))
   \<and> build ex_config ex_nets ex_op ex_coord [0, 1] ex_natoms ex_box [] ex_input_dict []
     = Inr \<lparr>descrpt = em_descrpt ex_env_mat, env_of = ex_env, descrpt_reshape = ex_inputs,
            atype_nloc = [0, 1],
            dout = [[[177 / 2, 30], [9 / 2, 6]]],
            qmat = [[[1 / 2, 4, 0, 1, 1, 0], [3 / 2, 0, 0, 2, 0, 0]]]\<rparr>
   \<and> build ex_config ex_nets ex_op_swapped ex_coord [0, 1] ex_natoms ex_box [] ex_input_dict []
     = Inr \<lparr>descrpt = em_descrpt ex_env_mat_swapped, env_of = ex_env_swapped,
            descrpt_reshape = ex_inputs_swapped, atype_nloc = [0, 1],
            dout = [[[59, 25], [9 / 2, 6]]],
            qmat = [[[1, 3, 0, 1, 1, 0], [3 / 2, 0, 0, 2, 0, 0]]]\<rparr>
   \<and> [[[177 / 2, 30], [9 / 2, 6]]] \<noteq> [[[59, 25], [9 / 2, 6 :: real]]]"
  using ex_build_gen [OF ex_atype_nloc(1)] ex_build_swapped
  by (simp add: ex_env_mat_def ex_env_mat_swapped_def rows_of_def upt_rec)

text \<open>
  With \<^verbatim>\<open>type_one_side\<close> the centre types are not looked up, and the same exchange of the
  two slots of atom \<open>0\<close> leaves the descriptor of the small system as it is.
\<close>

lemma ex_embed_one_side:
  "embed ex_config_one_side ex_nets ex_env [] [[1], [2], [1], [1]] ex_type_embedding [0, 1]
     = Inr [[1, 2], [3, 2], [1, 2], [1, 2]]"
  "embed ex_config_one_side ex_nets ex_env_swapped [] [[2], [1], [1], [1]] ex_type_embedding [0, 1]
     = Inr [[3, 2], [1, 2], [1, 2], [1, 2]]"
  by (simp_all add: embed_def ex_config_one_side_def ex_config_def ex_nets_def ex_env_def
      ex_env_swapped_def ex_type_embedding_def embedding_lookup_def ew_rows_def dot_def)

lemma ex_xyz_scatter_att_one_side:
  "xyz_scatter_att ex_config_one_side ex_nets ex_env [] 2 ex_inputs ex_type_embedding [0, 1]
     = Inr [[[1, 2], [3, 2]], [[1, 2], [1, 2]]]"
  "xyz_scatter_att ex_config_one_side ex_nets ex_env_swapped [] 2 ex_inputs_swapped
       ex_type_embedding [0, 1]
     = Inr [[[3, 2], [1, 2]], [[1, 2], [1, 2]]]"
proof -
  have r: "map (take 1) (rows_of (length ex_inputs * 2) 4 (concat ex_inputs))
      = [[1], [2], [1], [1 :: real]]"
    "map (take 1) (rows_of (length ex_inputs_swapped * 2) 4 (concat ex_inputs_swapped))
      = [[2], [1], [1], [1 :: real]]"
    by (simp_all add: rows_of_def upt_rec ex_inputs_def ex_inputs_swapped_def)
  have l: "attn_layer ex_config_one_side = 0"
    by (simp add: ex_config_one_side_def ex_config_def)
  show "xyz_scatter_att ex_config_one_side ex_nets ex_env [] 2 ex_inputs ex_type_embedding [0, 1]
      = Inr [[[1, 2], [3, 2]], [[1, 2], [1, 2]]]"
    unfolding xyz_scatter_att_def Let_def r ex_embed_one_side
    by (simp add: attention_layers_def l group_rows_def rows_of_def upt_rec)
  show "xyz_scatter_att ex_config_one_side ex_nets ex_env_swapped [] 2 ex_inputs_swapped
        ex_type_embedding [0, 1]
      = Inr [[[3, 2], [1, 2]], [[1, 2], [1, 2]]]"
    unfolding xyz_scatter_att_def Let_def r ex_embed_one_side
    by (simp add: attention_layers_def l group_rows_def rows_of_def upt_rec)
qed

lemma ex_filter_lower_one_side:
  "filter_lower ex_config_one_side ex_nets ex_env [] 0 2 ex_inputs (Some ex_type_embedding)
       (Some [0, 1]) False
     = Inr [[[7, 6], [1, 2], [3, 2], [0, 0]], [[2, 4], [2, 4], [0, 0], [0, 0]]]"
  "filter_lower ex_config_one_side ex_nets ex_env_swapped [] 0 2 ex_inputs_swapped
       (Some ex_type_embedding) (Some [0, 1]) False
     = Inr [[[7, 6], [1, 2], [3, 2], [0, 0]], [[2, 4], [2, 4], [0, 0], [0, 0]]]"
proof -
  have s: "slice_cols (0 * 4) (2 * 4) ex_inputs = Inr ex_inputs"
    "slice_cols (0 * 4) (2 * 4) ex_inputs_swapped = Inr ex_inputs_swapped"
    by (simp_all add: slice_cols_def ex_inputs_def ex_inputs_swapped_def)
  have c: "compress ex_config_one_side = False" "filter_neuron ex_config_one_side = [2]"
    by (simp_all add: ex_config_one_side_def ex_config_def)
  show "filter_lower ex_config_one_side ex_nets ex_env [] 0 2 ex_inputs (Some ex_type_embedding)
       (Some [0, 1]) False
     = Inr [[[7, 6], [1, 2], [3, 2], [0, 0]], [[2, 4], [2, 4], [0, 0], [0, 0]]]"
    unfolding filter_lower_def Let_def s
    by (simp add: ex_xyz_scatter_att_one_side c)
      (simp add: ex_inputs_def matmul_ta_def rows_of_def col_def dot_def upt_rec)
  show "filter_lower ex_config_one_side ex_nets ex_env_swapped [] 0 2 ex_inputs_swapped
       (Some ex_type_embedding) (Some [0, 1]) False
     = Inr [[[7, 6], [1, 2], [3, 2], [0, 0]], [[2, 4], [2, 4], [0, 0], [0, 0]]]"
    unfolding filter_lower_def Let_def s
    by (simp add: ex_xyz_scatter_att_one_side c)
      (simp add: ex_inputs_swapped_def matmul_ta_def rows_of_def col_def dot_def upt_rec)
qed

lemma ex_one_side_swap_same_descriptor:
  "filter_atten ex_config_one_side ex_nets ex_env [] ex_inputs (Some ex_type_embedding)
       (Some [0, 1])
     = Inr ([[59 / 4, 25 / 2], [2, 4]],
            [[[1 / 2, 3 / 2, 0], [1, 1, 0]], [[1, 0, 0], [2, 0, 0]]])"
  "filter_atten ex_config_one_side ex_nets ex_env_swapped [] ex_inputs_swapped
       (Some ex_type_embedding) (Some [0, 1])
     = Inr ([[59 / 4, 25 / 2], [2, 4]],
            [[[1 / 2, 3 / 2, 0], [1, 1, 0]], [[1, 0, 0], [2, 0, 0]]])"
proof -
  have c: "sel_a ex_config_one_side = [2]" "filter_neuron ex_config_one_side = [2]"
    "original_sel ex_config_one_side = None" "n_axis_neuron ex_config_one_side = 1"
    "ndescrpt ex_config_one_side = 8"
    by (simp_all add: ex_config_one_side_def ex_config_def)
  have f: "filter_lower ex_config_one_side ex_nets ex_env [] 0 (sum_list (sel_a ex_config_one_side))
        ex_inputs (Some ex_type_embedding) (Some [0, 1]) False
      = Inr [[[7, 6], [1, 2], [3, 2], [0, 0]], [[2, 4], [2, 4], [0, 0], [0, 0]]]"
    "filter_lower ex_config_one_side ex_nets ex_env_swapped [] 0
        (sum_list (sel_a ex_config_one_side)) ex_inputs_swapped (Some ex_type_embedding)
        (Some [0, 1]) False
      = Inr [[[7, 6], [1, 2], [3, 2], [0, 0]], [[2, 4], [2, 4], [0, 0], [0, 0]]]"
    using ex_filter_lower_one_side by (simp_all add: c)
  show "filter_atten ex_config_one_side ex_nets ex_env [] ex_inputs (Some ex_type_embedding)
       (Some [0, 1])
     = Inr ([[59 / 4, 25 / 2], [2, 4]],
            [[[1 / 2, 3 / 2, 0], [1, 1, 0]], [[1, 0, 0], [2, 0, 0]]])"
    unfolding filter_atten_def Let_def f
    by (simp add: c matmul_ta_def transpose_w_def col_def dot_def upt_rec)
  show "filter_atten ex_config_one_side ex_nets ex_env_swapped [] ex_inputs_swapped
       (Some ex_type_embedding) (Some [0, 1])
     = Inr ([[59 / 4, 25 / 2], [2, 4]],
            [[[1 / 2, 3 / 2, 0], [1, 1, 0]], [[1, 0, 0], [2, 0, 0]]])"
    unfolding filter_atten_def Let_def f
    by (simp add: c matmul_ta_def transpose_w_def col_def dot_def upt_rec)
qed

section \<open>Attention weights\<close>

lemma length_softmax [simp]: "length (softmax x) = length x"
  by (simp add: softmax_def)

lemma matmul_tb_nth:
  "i < length A \<Longrightarrow> j < length B \<Longrightarrow> matmul_tb A B ! i ! j = dot (A ! i) (B ! j)"
  by (simp add: matmul_tb_def)

lemma matmul_nth:
  assumes "i < length A" "j < m" "length (A ! i) = length B"
  shows "matmul m A B ! i ! j = (\<Sum>k<length B. A ! i ! k * B ! k ! j)"
  using assms by (auto simp: matmul_def col_def dot_sum intro!: sum.cong)

lemma attn_scores_row:
  assumes "length Q = n" "length K = n" "length nm = n" "length neg = n" "i < n"
  shows "attn_scores nm neg Q K t ! i
     = map (\<lambda>j. dot (map (\<lambda>q. q / t) (Q ! i)) (K ! j) * nm ! j + neg ! j) [0..<n]"
  using assms
  by (intro nth_equalityI) (simp_all add: attn_scores_def Let_def matmul_tb_def)

lemma attn_weight_saved_nth:
  assumes "length Q = n" "length K = n" "length nm = n" "length neg = n" "i < n" "j < n"
  shows "attn_weight_saved nm neg Q K t ! i ! j
     = softmax (attn_scores nm neg Q K t ! i) ! j * nm ! i"
    and "length (attn_weight_saved nm neg Q K t) = n"
    and "length (attn_weight_saved nm neg Q K t ! i) = n"
proof -
  have l: "length (attn_scores nm neg Q K t) = n"
    using assms by (simp add: attn_scores_def Let_def matmul_tb_def)
  have r: "length (attn_scores nm neg Q K t ! i) = n"
    using attn_scores_row [OF assms(1-5), of t] by simp
  show "attn_weight_saved nm neg Q K t ! i ! j
      = softmax (attn_scores nm neg Q K t ! i) ! j * nm ! i"
    using assms l r by (simp add: attn_weight_saved_def Let_def)
  show "length (attn_weight_saved nm neg Q K t) = n"
    using assms l by (simp add: attn_weight_saved_def Let_def)
  show "length (attn_weight_saved nm neg Q K t ! i) = n"
    using assms l r by (simp add: attn_weight_saved_def Let_def)
qed

lemma attn_weight_gated_nth:
  assumes "length Q = n" "length K = n" "length nm = n" "length neg = n" "length input_r = n"
    "i < n" "j < n"
  shows "attn_weight_gated nm neg Q K t input_r True ! i ! j
     = softmax (attn_scores nm neg Q K t ! i) ! j * nm ! i * dot (input_r ! i) (input_r ! j)"
    and "length (attn_weight_gated nm neg Q K t input_r True) = n"
    and "length (attn_weight_gated nm neg Q K t input_r True ! i) = n"
proof -
  note s = attn_weight_saved_nth [OF assms(1-4) assms(6,7), of t]
  show "attn_weight_gated nm neg Q K t input_r True ! i ! j
      = softmax (attn_scores nm neg Q K t ! i) ! j * nm ! i * dot (input_r ! i) (input_r ! j)"
    using assms s by (simp add: attn_weight_gated_def Let_def matmul_tb_def)
  show "length (attn_weight_gated nm neg Q K t input_r True) = n"
    using assms s by (simp add: attn_weight_gated_def Let_def matmul_tb_def)
  show "length (attn_weight_gated nm neg Q K t input_r True ! i) = n"
    using assms s by (simp add: attn_weight_gated_def Let_def matmul_tb_def)
qed

lemma scaled_dot_attn_atom_nth:
  assumes "length Q = n" "length K = n" "length V = n" "length nm = n" "length neg = n"
    "length input_r = n" "i < n" "cc < width"
  shows "scaled_dot_attn_atom width nm neg Q K V t input_r True do_mask ! i ! cc
     = (\<Sum>j<n. softmax (attn_scores nm neg Q K t ! i) ! j * nm ! i
                 * dot (input_r ! i) (input_r ! j)
                 * (if do_mask \<and> i = j then 0 else 1) * V ! j ! cc)"
proof -
  define A where "A = attn_weight_gated nm neg Q K t input_r True"
  define A' where "A' = (if do_mask then map2 (map2 (*)) A (ones_minus_eye (length nm)) else A)"
  have g: "A ! i ! j = softmax (attn_scores nm neg Q K t ! i) ! j * nm ! i
        * dot (input_r ! i) (input_r ! j)"
    "length A = n" "length (A ! i) = n" if "j < n" for j
    unfolding A_def
    using attn_weight_gated_nth [OF assms(1,2,4,5,6,7) that, of t] by simp_all
  have ln: "length A = n" "length (A ! i) = n"
    using g(2,3) [of i] assms(7) by simp_all
  have a': "A' ! i ! j = A ! i ! j * (if do_mask \<and> i = j then 0 else 1)"
    "length A' = n" "length (A' ! i) = n" if "j < n" for j
    using that assms(4,7) ln by (auto simp: A'_def ones_minus_eye_def)
  have "scaled_dot_attn_atom width nm neg Q K V t input_r True do_mask = matmul width A' V"
    by (simp add: scaled_dot_attn_atom_def Let_def A_def A'_def)
  also have "matmul width A' V ! i ! cc = (\<Sum>k<length V. A' ! i ! k * V ! k ! cc)"
    by (rule matmul_nth) (use a'(2,3) [of i] assms in simp_all)
  also have "\<dots> = (\<Sum>j<n. softmax (attn_scores nm neg Q K t ! i) ! j * nm ! i
                 * dot (input_r ! i) (input_r ! j)
                 * (if do_mask \<and> i = j then 0 else 1) * V ! j ! cc)"
    using assms(3) by (intro sum.cong) (simp_all add: a'(1) g(1))
  finally show ?thesis .
qed

lemma take4_drop:
  assumes "i + 4 \<le> length xs"
  shows "take 4 (drop i xs) = [xs ! i, xs ! (i + 1), xs ! (i + 2), xs ! (i + 3)]"
proof -
  have "drop i xs = xs ! i # drop (Suc i) xs"
    using assms by (intro Cons_nth_drop_Suc [symmetric]) simp
  moreover have "drop (Suc i) xs = xs ! (i + 1) # drop (Suc (Suc i)) xs"
    using assms Cons_nth_drop_Suc [of "Suc i" xs] by simp
  moreover have "drop (Suc (Suc i)) xs = xs ! (i + 2) # drop (Suc (Suc (Suc i))) xs"
    using assms Cons_nth_drop_Suc [of "Suc (Suc i)" xs] by simp
  moreover have "drop (Suc (Suc (Suc i))) xs = xs ! (i + 3) # drop (Suc (Suc (Suc (Suc i)))) xs"
    using assms Cons_nth_drop_Suc [of "Suc (Suc (Suc i))" xs] by (simp add: numeral_3_eq_3)
  ultimately show ?thesis by (simp add: numeral_eq_Suc)
qed

lemma input_r_of_nth:
  assumes "a < length inputs" "k < m" "length (inputs ! a) = 4 * m"
  shows "input_r_of m inputs ! a ! k
     = l2_normalize [inputs ! a ! (4 * k + 1), inputs ! a ! (4 * k + 2), inputs ! a ! (4 * k + 3)]"
proof -
  have "4 * k + 4 \<le> length (inputs ! a)" using assms by simp
  from take4_drop [OF this] show ?thesis
    using assms by (simp add: input_r_of_def nth_rows_of mult.commute)
qed

lemma gated_row_example:
  "attn_weight_gated [1, 1] [0, 0] [[0, 0], [0, 0]] [[0, 0], [0, 0]] 1 [[1, 0, 0], [0, 1, 0]] True
     = [[1 / 2, 0], [0, 1 / 2]]"
  by (simp add: attn_weight_gated_def attn_weight_saved_def attn_scores_def matmul_tb_def
      softmax_def dot_def Let_def)

lemma scaled_dot_attn_value:
  assumes "length Q = N" and "length K = N" and "length V = N" and "length R = N"
    and "length (nmask e) = N" and "length (negative_mask e) = N"
    and "\<forall>a<N. length (Q ! a) = n \<and> length (K ! a) = n \<and> length (V ! a) = n
            \<and> length (R ! a) = n \<and> length (nmask e ! a) = n
            \<and> length (negative_mask e ! a) = n"
  shows "\<exists>out. scaled_dot_attn width e Q K V t R True do_mask = Inr out
            \<and> length out = N
            \<and> (\<forall>a<N. length (out ! a) = n
                 \<and> (\<forall>i<n. \<forall>cc<width.
                  out ! a ! i ! cc
                    = (\<Sum>j<n. softmax (map (\<lambda>j'. dot (map (\<lambda>q. q / t) (Q ! a ! i)) (K ! a ! j')
                                                * nmask e ! a ! j' + negative_mask e ! a ! j')
                                       [0..<n]) ! j
                             * nmask e ! a ! i
                             * dot (R ! a ! i) (R ! a ! j)
                             * (if do_mask \<and> i = j then 0 else 1)
                             * V ! a ! j ! cc)))"
proof -
  define out where "out = map (\<lambda>a. scaled_dot_attn_atom width (nmask e ! a) (negative_mask e ! a)
      (Q ! a) (K ! a) (V ! a) t (R ! a) True do_mask) [0..<N]"
  have ok: "list_all (\<lambda>a. length (Q ! a) = length (nmask e ! a)
        \<and> length (K ! a) = length (nmask e ! a) \<and> length (V ! a) = length (nmask e ! a)
        \<and> length (negative_mask e ! a) = length (nmask e ! a)
        \<and> (True \<longrightarrow> length (R ! a) = length (nmask e ! a))) [0..<N]"
    using assms(7) by (simp add: list_all_iff)
  have res: "scaled_dot_attn width e Q K V t R True do_mask = Inr out"
    using assms(1-6) ok by (simp add: scaled_dot_attn_def Let_def out_def)
  have entry: "out ! a ! i ! cc
      = (\<Sum>j<n. softmax (map (\<lambda>j'. dot (map (\<lambda>q. q / t) (Q ! a ! i)) (K ! a ! j')
                                  * nmask e ! a ! j' + negative_mask e ! a ! j') [0..<n]) ! j
               * nmask e ! a ! i * dot (R ! a ! i) (R ! a ! j)
               * (if do_mask \<and> i = j then 0 else 1) * V ! a ! j ! cc)"
    if "a < N" "i < n" "cc < width" for a i cc
  proof -
    have l: "length (Q ! a) = n" "length (K ! a) = n" "length (V ! a) = n" "length (R ! a) = n"
      "length (nmask e ! a) = n" "length (negative_mask e ! a) = n"
      using assms(7) that(1) by simp_all
    have "out ! a ! i ! cc
        = (\<Sum>j<n. softmax (attn_scores (nmask e ! a) (negative_mask e ! a) (Q ! a) (K ! a) t ! i) ! j
                 * nmask e ! a ! i * dot (R ! a ! i) (R ! a ! j)
                 * (if do_mask \<and> i = j then 0 else 1) * V ! a ! j ! cc)"
      using that(1) scaled_dot_attn_atom_nth [OF l(1,2,3,5,6,4) that(2,3), of t do_mask]
      by (simp add: out_def)
    then show ?thesis
      by (simp add: attn_scores_row [OF l(1,2,5,6) that(2)])
  qed
  have rowlen: "length (out ! a) = n" if "a < N" for a
  proof -
    have l: "length (Q ! a) = n" "length (K ! a) = n" "length (nmask e ! a) = n"
      "length (negative_mask e ! a) = n" "length (R ! a) = n"
      using assms(7) that by simp_all
    have "length (attn_weight_gated (nmask e ! a) (negative_mask e ! a) (Q ! a) (K ! a) t
        (R ! a) True) = n"
      using l by (simp add: attn_weight_gated_def attn_weight_saved_def attn_scores_def
          matmul_tb_def Let_def)
    then show ?thesis
      using that l(3)
      by (simp add: out_def scaled_dot_attn_atom_def matmul_def Let_def ones_minus_eye_def)
  qed
  have "length out = N" by (simp add: out_def)
  then show ?thesis
    using res entry rowlen by blast
qed

lemma attention_loop_snoc:
  "attention_loop c p e nei R dotr dm (xs @ [i]) X
     = (case attention_loop c p e nei R dotr dm xs X of
          Inl err \<Rightarrow> Inl err
        | Inr X' \<Rightarrow> attention_layer c p e nei R dotr dm i X')"
  by (induction xs arbitrary: X) (simp_all split: sum.splits)

lemma attention_layers_Suc:
  "attention_layers c p e X (Suc L) nei R dotr dm
     = (case attention_layers c p e X L nei R dotr dm of
          Inl err \<Rightarrow> Inl err
        | Inr X' \<Rightarrow> attention_layer c p e nei R dotr dm L X')"
  by (simp add: attention_layers_def attention_loop_snoc)

lemma attention_layers_0: "attention_layers c p e X 0 nei R dotr dm = Inr X"
  by (simp add: attention_layers_def)

lemma group_rows_ok:
  "0 < n \<Longrightarrow> length rows = N * n \<Longrightarrow> group_rows n rows = Inr (rows_of N n rows)"
  by (simp add: group_rows_def)

lemma rows_of_group_nth:
  assumes "length rows = N * n" "a < N" "s < n"
  shows "rows_of N n rows ! a ! s = rows ! (a * n + s)"
    and "length (rows_of N n rows ! a) = n"
proof -
  have le: "N * n \<le> length rows" using assms(1) by simp
  show "rows_of N n rows ! a ! s = rows ! (a * n + s)"
    by (rule rows_of_nth_nth [OF assms(2,3) le])
  show "length (rows_of N n rows ! a) = n"
    by (rule length_rows_of_row [OF assms(2) le])
qed

lemma attention_layer_dotr:
  assumes npos: "0 < n" and lX: "length X = N * n"
    and nm: "length (nmask e) = N" "\<forall>row\<in>set (nmask e). length row = n"
    and ng: "length (negative_mask e) = N" "\<forall>row\<in>set (negative_mask e). length row = n"
    and lR: "length R = N" "\<forall>M\<in>set R. length M = n"
  shows "\<exists>att. attention_layer c p e n R True dm i X
             = Inr (map (layer_normalization p i)
                      (map2 (map2 (+)) X (map (one_layer p i ''c_out'') (concat att))))
           \<and> length att = N
           \<and> length (map (layer_normalization p i)
                      (map2 (map2 (+)) X (map (one_layer p i ''c_out'') (concat att)))) = N * n
           \<and> (\<forall>a<N. length (att ! a) = n
                \<and> (\<forall>s<n. \<forall>cc<att_n c.
                      att ! a ! s ! cc
                        = (\<Sum>j<n. softmax (map (\<lambda>j'.
                                       dot (map (\<lambda>q. q / sqrt 1)
                                              (l2_normalize (one_layer p i ''c_query'' (X ! (a * n + s)))))
                                           (l2_normalize (one_layer p i ''c_key'' (X ! (a * n + j'))))
                                         * nmask e ! a ! j' + negative_mask e ! a ! j') [0..<n]) ! j
                                 * nmask e ! a ! s
                                 * dot (R ! a ! s) (R ! a ! j)
                                 * (if dm \<and> s = j then 0 else 1)
                                 * l2_normalize (one_layer p i ''c_value'' (X ! (a * n + j))) ! cc)))"
proof -
  define Qc where "Qc = map (one_layer p i ''c_query'') X"
  define Kc where "Kc = map (one_layer p i ''c_key'') X"
  define Vc where "Vc = map (one_layer p i ''c_value'') X"
  define Q where "Q = map (map l2_normalize) (rows_of N n Qc)"
  define K where "K = map (map l2_normalize) (rows_of N n Kc)"
  define V where "V = map (map l2_normalize) (rows_of N n Vc)"
  have lc: "length Qc = N * n" "length Kc = N * n" "length Vc = N * n"
    by (simp_all add: Qc_def Kc_def Vc_def lX)
  have g: "group_rows n Qc = Inr (rows_of N n Qc)" "group_rows n Kc = Inr (rows_of N n Kc)"
    "group_rows n Vc = Inr (rows_of N n Vc)"
    by (rule group_rows_ok [OF npos]; rule lc)+
  have l: "length Q = N" "length K = N" "length V = N"
    by (simp_all add: Q_def K_def V_def)
  have rowl: "\<forall>a<N. length (Q ! a) = n \<and> length (K ! a) = n \<and> length (V ! a) = n
            \<and> length (R ! a) = n \<and> length (nmask e ! a) = n
            \<and> length (negative_mask e ! a) = n"
    using rows_of_group_nth(2) [OF lc(1)] rows_of_group_nth(2) [OF lc(2)]
      rows_of_group_nth(2) [OF lc(3)] nm ng lR npos
    by (simp add: Q_def K_def V_def)
  from scaled_dot_attn_value [OF l lR(1) nm(1) ng(1) rowl, of "att_n c" "sqrt 1" dm]
  obtain att where att: "scaled_dot_attn (att_n c) e Q K V (sqrt 1) R True dm = Inr att"
    "length att = N"
    and rl: "\<And>a. a < N \<Longrightarrow> length (att ! a) = n"
    and en: "\<And>a s cc. a < N \<Longrightarrow> s < n \<Longrightarrow> cc < att_n c \<Longrightarrow>
        att ! a ! s ! cc
          = (\<Sum>j<n. softmax (map (\<lambda>j'. dot (map (\<lambda>q. q / sqrt 1) (Q ! a ! s)) (K ! a ! j')
                                        * nmask e ! a ! j' + negative_mask e ! a ! j') [0..<n]) ! j
                   * nmask e ! a ! s * dot (R ! a ! s) (R ! a ! j)
                   * (if dm \<and> s = j then 0 else 1) * V ! a ! j ! cc)"
    by blast
  have val: "attention_layer c p e n R True dm i X
      = Inr (map (layer_normalization p i)
               (map2 (map2 (+)) X (map (one_layer p i ''c_out'') (concat att))))"
    unfolding attention_layer_def Let_def Qc_def [symmetric] Kc_def [symmetric]
      Vc_def [symmetric] g sum.case Q_def [symmetric] K_def [symmetric] V_def [symmetric] att(1)
    by (rule refl)
  have u: "\<forall>xs\<in>set att. length xs = n"
    using rl att(2) by (auto simp: in_set_conv_nth)
  have lca: "length (concat att) = N * n"
    using length_concat_uniform [OF u] att(2) by simp
  have len: "length (map (layer_normalization p i)
      (map2 (map2 (+)) X (map (one_layer p i ''c_out'') (concat att)))) = N * n"
    by (simp add: lX lca)
  have qn: "Q ! a ! s = l2_normalize (one_layer p i ''c_query'' (X ! (a * n + s)))"
    "K ! a ! s = l2_normalize (one_layer p i ''c_key'' (X ! (a * n + s)))"
    "V ! a ! s = l2_normalize (one_layer p i ''c_value'' (X ! (a * n + s)))"
    if "a < N" "s < n" for a s
  proof -
    have "a * n + n \<le> N * n"
      using that(1) by (metis Suc_leI mult_Suc mult_le_mono1 add.commute)
    then have i: "a * n + s < length X" using that(2) lX by simp
    show "Q ! a ! s = l2_normalize (one_layer p i ''c_query'' (X ! (a * n + s)))"
      using that rows_of_group_nth [OF lc(1) that] i by (simp add: Q_def Qc_def)
    show "K ! a ! s = l2_normalize (one_layer p i ''c_key'' (X ! (a * n + s)))"
      using that rows_of_group_nth [OF lc(2) that] i by (simp add: K_def Kc_def)
    show "V ! a ! s = l2_normalize (one_layer p i ''c_value'' (X ! (a * n + s)))"
      using that rows_of_group_nth [OF lc(3) that] i by (simp add: V_def Vc_def)
  qed
  have ent: "att ! a ! s ! cc
      = (\<Sum>j<n. softmax (map (\<lambda>j'.
                     dot (map (\<lambda>q. q / sqrt 1)
                            (l2_normalize (one_layer p i ''c_query'' (X ! (a * n + s)))))
                         (l2_normalize (one_layer p i ''c_key'' (X ! (a * n + j'))))
                       * nmask e ! a ! j' + negative_mask e ! a ! j') [0..<n]) ! j
               * nmask e ! a ! s
               * dot (R ! a ! s) (R ! a ! j)
               * (if dm \<and> s = j then 0 else 1)
               * l2_normalize (one_layer p i ''c_value'' (X ! (a * n + j))) ! cc)"
    if "a < N" "s < n" "cc < att_n c" for a s cc
  proof -
    have m: "map (\<lambda>j'. dot (map (\<lambda>q. q / sqrt 1) (Q ! a ! s)) (K ! a ! j')
                                        * nmask e ! a ! j' + negative_mask e ! a ! j') [0..<n]
        = map (\<lambda>j'. dot (map (\<lambda>q. q / sqrt 1)
                            (l2_normalize (one_layer p i ''c_query'' (X ! (a * n + s)))))
                         (l2_normalize (one_layer p i ''c_key'' (X ! (a * n + j'))))
                       * nmask e ! a ! j' + negative_mask e ! a ! j') [0..<n]"
      by (rule map_cong) (simp_all add: qn [OF that(1)] that(2))
    show ?thesis
      unfolding en [OF that] m
      by (rule sum.cong) (simp_all add: qn(3) [OF that(1)])
  qed
  show ?thesis
    using val att(2) len rl ent by blast
qed

lemma attention_layers_chain:
  assumes npos: "0 < n" and lX: "length X0 = N * n"
    and nm: "length (nmask e) = N" "\<forall>row\<in>set (nmask e). length row = n"
    and ng: "length (negative_mask e) = N" "\<forall>row\<in>set (negative_mask e). length row = n"
    and lR: "length R = N" "\<forall>M\<in>set R. length M = n"
  shows "\<exists>Xs. length Xs = Suc L \<and> Xs ! 0 = X0
           \<and> attention_layers c p e X0 L n R True dm = Inr (Xs ! L)
           \<and> (\<forall>i\<le>L. length (Xs ! i) = N * n)
           \<and> (\<forall>i<L. attention_layer c p e n R True dm i (Xs ! i) = Inr (Xs ! Suc i))"
proof (induction L)
  case 0
  show ?case
    by (rule exI [of _ "[X0]"]) (simp add: attention_layers_0 lX)
next
  case (Suc L)
  then obtain Xs where Xs: "length Xs = Suc L" "Xs ! 0 = X0"
    "attention_layers c p e X0 L n R True dm = Inr (Xs ! L)"
    "\<forall>i\<le>L. length (Xs ! i) = N * n"
    "\<forall>i<L. attention_layer c p e n R True dm i (Xs ! i) = Inr (Xs ! Suc i)"
    by blast
  have lL: "length (Xs ! L) = N * n" using Xs(4) by simp
  from attention_layer_dotr [OF npos lL nm ng lR, of c p dm L]
  obtain X' where X': "attention_layer c p e n R True dm L (Xs ! L) = Inr X'" "length X' = N * n"
    by blast
  let ?Ys = "Xs @ [X']"
  have a: "length ?Ys = Suc (Suc L)" using Xs(1) by simp
  have b: "?Ys ! 0 = X0" using Xs(1,2) by (simp add: nth_append)
  have old: "?Ys ! i = Xs ! i" if "i \<le> L" for i
    using that Xs(1) by (simp add: nth_append)
  have new: "?Ys ! Suc L = X'" using Xs(1) by (simp add: nth_append)
  have cc: "attention_layers c p e X0 (Suc L) n R True dm = Inr (?Ys ! Suc L)"
    by (simp add: attention_layers_Suc Xs(3) X'(1) new)
  have d: "\<forall>i\<le>Suc L. length (?Ys ! i) = N * n"
  proof (intro allI impI)
    fix i assume "i \<le> Suc L"
    then show "length (?Ys ! i) = N * n"
      using Xs(4) X'(2) old new by (cases "i = Suc L") simp_all
  qed
  have ee: "\<forall>i<Suc L. attention_layer c p e n R True dm i (?Ys ! i) = Inr (?Ys ! Suc i)"
  proof (intro allI impI)
    fix i assume i: "i < Suc L"
    show "attention_layer c p e n R True dm i (?Ys ! i) = Inr (?Ys ! Suc i)"
    proof (cases "i = L")
      case True
      then show ?thesis using X'(1) old [of L] new by simp
    next
      case False
      then have "i < L" using i by simp
      then show ?thesis using Xs(5) old [of i] old [of "Suc i"] by simp
    qed
  qed
  show ?case
    by (rule exI [of _ ?Ys]) (use a b cc d ee in blast)
qed

lemma length_input_r_of:
  "length (input_r_of n inputs) = length inputs"
  "M \<in> set (input_r_of n inputs) \<Longrightarrow> length M = n"
  by (auto simp: input_r_of_def)

lemma l2_normalize_explicit:
  "l2_normalize x = map (\<lambda>v. v / sqrt (max (\<Sum>k<length x. x ! k * x ! k) (1 / 10 ^ 12))) x"
  by (simp add: l2_normalize_def sum_list_sum_nth atLeast0LessThan)

lemma softmax_explicit:
  "j < length x \<Longrightarrow> softmax x ! j = exp (x ! j) / (\<Sum>k<length x. exp (x ! k))"
  by (simp add: softmax_def sum_list_sum_nth atLeast0LessThan)

lemma ex_input_r:
  "input_r_of 2 ex_inputs = [[[1, 0, 0], [0, 1, 0]], [[1, 0, 0], [1, 0, 0]]]"
  by (simp add: input_r_of_def rows_of_def l2_normalize_def upt_rec ex_inputs_def)

lemma ex_embed_att:
  "embed ex_config_att ex_nets_att ex_env [] [[1], [2], [1], [1]] ex_type_embedding [0, 1]
     = Inr [[1, 2], [8, 2], [1, 2], [2, 2]]"
proof -
  have i: "index_of_two_side (nei_type_vec ex_env) (length ex_type_embedding) (nnei ex_config_att)
      [0, 1] = Inr [0, 3, 0, 1]"
    using ex_index by (simp add: ex_config_att_def)
  show ?thesis
    unfolding embed_def ex_two_side i
    by (simp add: ex_config_att_def ex_config_def ex_nets_att_def ex_nets_def embedding_lookup_def
        ew_rows_def dot_def)
qed

lemma ex_scaled_dot_attn:
  "scaled_dot_attn 2 ex_env [[[0, 0], [0, 0]], [[0, 0], [0, 0]]] [[[0, 0], [0, 0]], [[0, 0], [0, 0]]]
       [[[1, 0], [1, 0]], [[1, 0], [1, 0]]] 1 [[[1, 0, 0], [0, 1, 0]], [[1, 0, 0], [1, 0, 0]]]
       True False
     = Inr [[[1 / 2, 0], [1 / 2, 0]], [[1, 0], [1, 0]]]"
  by (simp add: scaled_dot_attn_def scaled_dot_attn_atom_def attn_weight_gated_def
      attn_weight_saved_def attn_scores_def matmul_tb_def matmul_def col_def softmax_def dot_def
      Let_def ex_env_def upt_rec)

lemma ex_attention_layer:
  "attention_layer ex_config_att ex_nets_att ex_env 2 (input_r_of 2 ex_inputs) True False 0
       [[1, 2], [8, 2], [1, 2], [2, 2]]
     = Inr [[3 / 2, 2], [17 / 2, 2], [2, 2], [3, 2]]"
proof -
  have q: "map (one_layer ex_nets_att 0 ''c_query'') [[1, 2], [8, 2], [1, 2], [2, 2]]
      = [[0, 0], [0, 0], [0, 0], [0, 0]]"
    "map (one_layer ex_nets_att 0 ''c_key'') [[1, 2], [8, 2], [1, 2], [2, 2]]
      = [[0, 0], [0, 0], [0, 0], [0, 0]]"
    "map (one_layer ex_nets_att 0 ''c_value'') [[1, 2], [8, 2], [1, 2], [2, 2]]
      = [[1, 0], [1, 0], [1, 0], [1, 0]]"
    by (simp_all add: ex_nets_att_def ex_nets_def)
  have g: "group_rows 2 [[0, 0], [0, 0], [0, 0], [0, 0 :: real]]
      = Inr [[[0, 0], [0, 0]], [[0, 0], [0, 0]]]"
    "group_rows 2 [[1, 0], [1, 0], [1, 0], [1, 0 :: real]]
      = Inr [[[1, 0], [1, 0]], [[1, 0], [1, 0]]]"
    by (simp_all add: group_rows_def rows_of_def upt_rec)
  have n: "map (map l2_normalize) [[[0, 0], [0, 0]], [[0, 0], [0, 0]]]
      = [[[0, 0], [0, 0]], [[0, 0], [0, 0]]]"
    "map (map l2_normalize) [[[1, 0], [1, 0]], [[1, 0], [1, 0]]]
      = [[[1, 0], [1, 0]], [[1, 0], [1, 0]]]"
    by (simp_all add: l2_normalize_def)
  have a: "att_n ex_config_att = 2" by (simp add: ex_config_att_def ex_config_def)
  show ?thesis
    unfolding attention_layer_def Let_def q g sum.case n a ex_input_r real_sqrt_one
      ex_scaled_dot_attn
    by (simp add: ex_nets_att_def ex_nets_def)
qed

lemma ex_xyz_scatter_att_att:
  "xyz_scatter_att ex_config_att ex_nets_att ex_env [] 2 ex_inputs ex_type_embedding [0, 1]
     = Inr [[[3 / 2, 2], [17 / 2, 2]], [[2, 2], [3, 2]]]"
proof -
  have r: "map (take 1) (rows_of (length ex_inputs * 2) 4 (concat ex_inputs))
      = [[1], [2], [1], [1 :: real]]"
    by (simp add: rows_of_def upt_rec ex_inputs_def)
  have l: "attn_layer ex_config_att = 1" "attn_dotr ex_config_att" "\<not> attn_mask ex_config_att"
    by (simp_all add: ex_config_att_def ex_config_def)
  have al: "attention_layers ex_config_att ex_nets_att ex_env [[1, 2], [8, 2], [1, 2], [2, 2]] 1 2
      (input_r_of 2 ex_inputs) True False = Inr [[3 / 2, 2], [17 / 2, 2], [2, 2], [3, 2]]"
    using attention_layers_Suc [of ex_config_att ex_nets_att ex_env _ 0 2 _ True False]
    by (simp add: attention_layers_0 ex_attention_layer)
  show ?thesis
    unfolding xyz_scatter_att_def Let_def r ex_embed_att sum.case
    using al by (simp add: l group_rows_def rows_of_def upt_rec)
qed

text \<open>
  Claim C6.  Let \<open>X0\<close> be the embedding of the \<open>N * n\<close> neighbour slots that
  \<^verbatim>\<open>_filter_lower\<close> passes to \<^verbatim>\<open>_attention_layers\<close>, and let \<^verbatim>\<open>attn_dotr\<close> be enabled.
  Then every one of the \<^verbatim>\<open>attn_layer\<close> layers succeeds, \<open>xyz_scatter_att\<close> is the output of
  the last layer, and layer \<open>i\<close> turns its input \<open>Xs i\<close> into the layer normalisation of
  \<open>Xs i + c_out att\<close>, where for atom \<open>a\<close>, slot \<open>s\<close> and channel \<open>cc\<close> the entry of \<open>att\<close>
  is the sum over the slots \<open>j\<close> of \<open>w s j * V j cc\<close>.  The weight \<open>w s j\<close> is the softmax
  (over \<open>j\<close>) of the masked scores, times the validity of slot \<open>s\<close>, times the scalar product
  of the normalised coordinate channels of the slots \<open>s\<close> and \<open>j\<close>, times the diagonal mask
  when that is enabled: the gate multiplies the weights after masking and softmax, and nothing
  divides by the row sum afterwards.  The last three conjuncts write out the normalisation, the
  softmax and the scalar product.  In the small system with one attention layer the two gated
  weights of the first slot of atom \<open>0\<close> are \<open>1/2\<close> and \<open>0\<close>, and the output of the layer
  adds \<open>(1/2, 0)\<close> to the embedding of the slot, not \<open>(1, 0)\<close>.
\<close>

theorem dotr_gates_every_layer:
  assumes dotr: "attn_dotr c" and npos: "0 < n" and N: "length inputs_i = N"
    and rows: "\<forall>row\<in>set inputs_i. length row = 4 * n"
    and nm: "length (nmask e) = N" "\<forall>row\<in>set (nmask e). length row = n"
    and ng: "length (negative_mask e) = N" "\<forall>row\<in>set (negative_mask e). length row = n"
    and emb: "embed c p e suffix (map (take 1) (rows_of (N * n) 4 (concat inputs_i))) te atype
                = Inr X0"
    and lX: "length X0 = N * n"
  shows "(\<exists>Xs. length Xs = Suc (attn_layer c) \<and> Xs ! 0 = X0
            \<and> xyz_scatter_att c p e suffix n inputs_i te atype
                = Inr (rows_of N n (Xs ! attn_layer c))
            \<and> (\<forall>i<attn_layer c. \<exists>att.
                  attention_layer c p e n (input_r_of n inputs_i) (attn_dotr c) (attn_mask c) i
                      (Xs ! i)
                    = Inr (Xs ! Suc i)
                \<and> Xs ! Suc i
                    = map (layer_normalization p i)
                        (map2 (map2 (+)) (Xs ! i) (map (one_layer p i ''c_out'') (concat att)))
                \<and> length att = N
                \<and> (\<forall>a<N. length (att ! a) = n
                     \<and> (\<forall>s<n. \<forall>cc<att_n c.
                           att ! a ! s ! cc
                             = (\<Sum>j<n.
                                  softmax (map (\<lambda>j'.
                                     dot (map (\<lambda>q. q / sqrt 1)
                                            (l2_normalize
                                               (one_layer p i ''c_query'' (Xs ! i ! (a * n + s)))))
                                         (l2_normalize
                                            (one_layer p i ''c_key'' (Xs ! i ! (a * n + j'))))
                                       * nmask e ! a ! j' + negative_mask e ! a ! j') [0..<n]) ! j
                                  * nmask e ! a ! s
                                  * dot (l2_normalize [inputs_i ! a ! (4 * s + 1),
                                                       inputs_i ! a ! (4 * s + 2),
                                                       inputs_i ! a ! (4 * s + 3)])
                                        (l2_normalize [inputs_i ! a ! (4 * j + 1),
                                                       inputs_i ! a ! (4 * j + 2),
                                                       inputs_i ! a ! (4 * j + 3)])
                                  * (if attn_mask c \<and> s = j then 0 else 1)
                                  * l2_normalize
                                      (one_layer p i ''c_value'' (Xs ! i ! (a * n + j))) ! cc)))))
       \<and> (\<forall>x. l2_normalize x
                = map (\<lambda>v. v / sqrt (max (\<Sum>k<length x. x ! k * x ! k) (1 / 10 ^ 12))) x)
       \<and> (\<forall>x j. j < length x \<longrightarrow> softmax x ! j = exp (x ! j) / (\<Sum>k<length x. exp (x ! k)))
       \<and> (\<forall>x y. length x = length y \<longrightarrow> dot x y = (\<Sum>k<length x. x ! k * y ! k))"
proof -
  define R where "R = input_r_of n inputs_i"
  define dm where "dm = attn_mask c"
  have lR: "length R = N" "\<forall>M\<in>set R. length M = n"
    using length_input_r_of(1) [of n inputs_i] length_input_r_of(2) [of _ n inputs_i] N
    by (auto simp: R_def)
  have Rn: "R ! a ! s = l2_normalize [inputs_i ! a ! (4 * s + 1), inputs_i ! a ! (4 * s + 2),
      inputs_i ! a ! (4 * s + 3)]" if "a < N" "s < n" for a s
    unfolding R_def by (rule input_r_of_nth) (use that N rows in simp_all)
  from attention_layers_chain [OF npos lX nm ng lR, of "attn_layer c" c p dm]
  obtain Xs where Xs: "length Xs = Suc (attn_layer c)" "Xs ! 0 = X0"
    "attention_layers c p e X0 (attn_layer c) n R True dm = Inr (Xs ! attn_layer c)"
    "\<forall>i\<le>attn_layer c. length (Xs ! i) = N * n"
    "\<forall>i<attn_layer c. attention_layer c p e n R True dm i (Xs ! i) = Inr (Xs ! Suc i)"
    by blast
  have lL: "length (Xs ! attn_layer c) = N * n" using Xs(4) by simp
  have val: "xyz_scatter_att c p e suffix n inputs_i te atype
      = Inr (rows_of N n (Xs ! attn_layer c))"
    unfolding xyz_scatter_att_def Let_def N emb sum.case
    using Xs(3) dotr group_rows_ok [OF npos lL] by (simp add: R_def dm_def)
  have layer: "\<exists>att.
        attention_layer c p e n (input_r_of n inputs_i) (attn_dotr c) (attn_mask c) i (Xs ! i)
          = Inr (Xs ! Suc i)
      \<and> Xs ! Suc i
          = map (layer_normalization p i)
              (map2 (map2 (+)) (Xs ! i) (map (one_layer p i ''c_out'') (concat att)))
      \<and> length att = N
      \<and> (\<forall>a<N. length (att ! a) = n
           \<and> (\<forall>s<n. \<forall>cc<att_n c.
                 att ! a ! s ! cc
                   = (\<Sum>j<n.
                        softmax (map (\<lambda>j'.
                           dot (map (\<lambda>q. q / sqrt 1)
                                  (l2_normalize (one_layer p i ''c_query'' (Xs ! i ! (a * n + s)))))
                               (l2_normalize (one_layer p i ''c_key'' (Xs ! i ! (a * n + j'))))
                             * nmask e ! a ! j' + negative_mask e ! a ! j') [0..<n]) ! j
                        * nmask e ! a ! s
                        * dot (l2_normalize [inputs_i ! a ! (4 * s + 1),
                                             inputs_i ! a ! (4 * s + 2),
                                             inputs_i ! a ! (4 * s + 3)])
                              (l2_normalize [inputs_i ! a ! (4 * j + 1),
                                             inputs_i ! a ! (4 * j + 2),
                                             inputs_i ! a ! (4 * j + 3)])
                        * (if attn_mask c \<and> s = j then 0 else 1)
                        * l2_normalize (one_layer p i ''c_value'' (Xs ! i ! (a * n + j))) ! cc)))"
    if i: "i < attn_layer c" for i
  proof -
    have li: "length (Xs ! i) = N * n" using Xs(4) i by simp
    from attention_layer_dotr [OF npos li nm ng lR, of c p dm i]
    obtain att where att: "attention_layer c p e n R True dm i (Xs ! i)
          = Inr (map (layer_normalization p i)
                   (map2 (map2 (+)) (Xs ! i) (map (one_layer p i ''c_out'') (concat att))))"
      "length att = N"
      and rl: "\<And>a. a < N \<Longrightarrow> length (att ! a) = n"
      and en: "\<And>a s cc. a < N \<Longrightarrow> s < n \<Longrightarrow> cc < att_n c \<Longrightarrow>
          att ! a ! s ! cc
            = (\<Sum>j<n. softmax (map (\<lambda>j'.
                           dot (map (\<lambda>q. q / sqrt 1)
                                  (l2_normalize (one_layer p i ''c_query'' (Xs ! i ! (a * n + s)))))
                               (l2_normalize (one_layer p i ''c_key'' (Xs ! i ! (a * n + j'))))
                             * nmask e ! a ! j' + negative_mask e ! a ! j') [0..<n]) ! j
                     * nmask e ! a ! s
                     * dot (R ! a ! s) (R ! a ! j)
                     * (if dm \<and> s = j then 0 else 1)
                     * l2_normalize (one_layer p i ''c_value'' (Xs ! i ! (a * n + j))) ! cc)"
      by blast
    have step: "attention_layer c p e n (input_r_of n inputs_i) (attn_dotr c) (attn_mask c) i
        (Xs ! i) = Inr (Xs ! Suc i)"
      using Xs(5) i dotr by (simp add: R_def dm_def)
    have eq: "Xs ! Suc i = map (layer_normalization p i)
        (map2 (map2 (+)) (Xs ! i) (map (one_layer p i ''c_out'') (concat att)))"
      using att(1) Xs(5) i by simp
    have ent: "att ! a ! s ! cc
        = (\<Sum>j<n. softmax (map (\<lambda>j'.
                       dot (map (\<lambda>q. q / sqrt 1)
                              (l2_normalize (one_layer p i ''c_query'' (Xs ! i ! (a * n + s)))))
                           (l2_normalize (one_layer p i ''c_key'' (Xs ! i ! (a * n + j'))))
                         * nmask e ! a ! j' + negative_mask e ! a ! j') [0..<n]) ! j
                 * nmask e ! a ! s
                 * dot (l2_normalize [inputs_i ! a ! (4 * s + 1), inputs_i ! a ! (4 * s + 2),
                                      inputs_i ! a ! (4 * s + 3)])
                       (l2_normalize [inputs_i ! a ! (4 * j + 1), inputs_i ! a ! (4 * j + 2),
                                      inputs_i ! a ! (4 * j + 3)])
                 * (if attn_mask c \<and> s = j then 0 else 1)
                 * l2_normalize (one_layer p i ''c_value'' (Xs ! i ! (a * n + j))) ! cc)"
      if "a < N" "s < n" "cc < att_n c" for a s cc
      unfolding en [OF that]
      by (rule sum.cong) (simp_all add: Rn [OF that(1)] that(2) dm_def)
    show ?thesis
      using step eq att(2) rl ent by blast
  qed
  have pins: "(\<forall>x. l2_normalize x
                = map (\<lambda>v. v / sqrt (max (\<Sum>k<length x. x ! k * x ! k) (1 / 10 ^ 12))) x)
       \<and> (\<forall>x j. j < length x \<longrightarrow> softmax x ! j = exp (x ! j) / (\<Sum>k<length x. exp (x ! k)))
       \<and> (\<forall>x y. length x = length y \<longrightarrow> dot x y = (\<Sum>k<length x. x ! k * y ! k))"
    using l2_normalize_explicit softmax_explicit dot_sum by blast
  have main: "\<exists>Xs. length Xs = Suc (attn_layer c) \<and> Xs ! 0 = X0
            \<and> xyz_scatter_att c p e suffix n inputs_i te atype
                = Inr (rows_of N n (Xs ! attn_layer c))
            \<and> (\<forall>i<attn_layer c. \<exists>att.
                  attention_layer c p e n (input_r_of n inputs_i) (attn_dotr c) (attn_mask c) i
                      (Xs ! i)
                    = Inr (Xs ! Suc i)
                \<and> Xs ! Suc i
                    = map (layer_normalization p i)
                        (map2 (map2 (+)) (Xs ! i) (map (one_layer p i ''c_out'') (concat att)))
                \<and> length att = N
                \<and> (\<forall>a<N. length (att ! a) = n
                     \<and> (\<forall>s<n. \<forall>cc<att_n c.
                           att ! a ! s ! cc
                             = (\<Sum>j<n.
                                  softmax (map (\<lambda>j'.
                                     dot (map (\<lambda>q. q / sqrt 1)
                                            (l2_normalize
                                               (one_layer p i ''c_query'' (Xs ! i ! (a * n + s)))))
                                         (l2_normalize
                                            (one_layer p i ''c_key'' (Xs ! i ! (a * n + j'))))
                                       * nmask e ! a ! j' + negative_mask e ! a ! j') [0..<n]) ! j
                                  * nmask e ! a ! s
                                  * dot (l2_normalize [inputs_i ! a ! (4 * s + 1),
                                                       inputs_i ! a ! (4 * s + 2),
                                                       inputs_i ! a ! (4 * s + 3)])
                                        (l2_normalize [inputs_i ! a ! (4 * j + 1),
                                                       inputs_i ! a ! (4 * j + 2),
                                                       inputs_i ! a ! (4 * j + 3)])
                                  * (if attn_mask c \<and> s = j then 0 else 1)
                                  * l2_normalize
                                      (one_layer p i ''c_value'' (Xs ! i ! (a * n + j))) ! cc))))"
    apply (rule exI [of _ Xs])
    using Xs(1,2) val layer by blast
  show ?thesis using main pins by blast
qed

theorem dotr_gates_every_layer_witness:
  "(\<exists>Xs. length Xs = 2 \<and> Xs ! 0 = [[1, 2], [8, 2], [1, 2], [2, 2]]
        \<and> xyz_scatter_att ex_config_att ex_nets_att ex_env [] 2 ex_inputs ex_type_embedding [0, 1]
            = Inr (rows_of 2 2 (Xs ! 1))
        \<and> attention_layer ex_config_att ex_nets_att ex_env 2 (input_r_of 2 ex_inputs) True False 0
              (Xs ! 0)
            = Inr (Xs ! 1))
   \<and> xyz_scatter_att ex_config_att ex_nets_att ex_env [] 2 ex_inputs ex_type_embedding [0, 1]
       = Inr [[[3 / 2, 2], [17 / 2, 2]], [[2, 2], [3, 2]]]"
proof -
  have h: "attn_dotr ex_config_att" "0 < (2 :: nat)" "length ex_inputs = 2"
    "\<forall>row\<in>set ex_inputs. length row = 4 * 2"
    "length (nmask ex_env) = 2" "\<forall>row\<in>set (nmask ex_env). length row = 2"
    "length (negative_mask ex_env) = 2" "\<forall>row\<in>set (negative_mask ex_env). length row = 2"
    by (simp_all add: ex_config_att_def ex_config_def ex_inputs_def ex_env_def)
  have e: "embed ex_config_att ex_nets_att ex_env []
      (map (take 1) (rows_of (2 * 2) 4 (concat ex_inputs))) ex_type_embedding [0, 1]
      = Inr [[1, 2], [8, 2], [1, 2], [2, 2]]"
  proof -
    have "map (take 1) (rows_of (2 * 2) 4 (concat ex_inputs)) = [[1], [2], [1], [1 :: real]]"
      by (simp add: rows_of_def upt_rec ex_inputs_def)
    then show ?thesis using ex_embed_att by simp
  qed
  have l: "length [[1, 2], [8, 2], [1, 2], [2, 2 :: real]] = 2 * 2" by simp
  have al: "attn_layer ex_config_att = 1" "attn_mask ex_config_att = False"
    by (simp_all add: ex_config_att_def ex_config_def)
  note t = dotr_gates_every_layer [OF h e l, THEN conjunct1]
  from t obtain Xs where Xs: "length Xs = Suc (attn_layer ex_config_att)"
    "Xs ! 0 = [[1, 2], [8, 2], [1, 2], [2, 2]]"
    "xyz_scatter_att ex_config_att ex_nets_att ex_env [] 2 ex_inputs ex_type_embedding [0, 1]
       = Inr (rows_of 2 2 (Xs ! attn_layer ex_config_att))"
    and layer: "\<And>i. i < attn_layer ex_config_att \<Longrightarrow> \<exists>att.
        attention_layer ex_config_att ex_nets_att ex_env 2 (input_r_of 2 ex_inputs)
          (attn_dotr ex_config_att) (attn_mask ex_config_att) i (Xs ! i) = Inr (Xs ! Suc i)
      \<and> Xs ! Suc i
          = map (layer_normalization ex_nets_att i)
              (map2 (map2 (+)) (Xs ! i) (map (one_layer ex_nets_att i ''c_out'') (concat att)))"
    by (elim exE conjE) blast
  have "0 < attn_layer ex_config_att" using al by simp
  from layer [OF this]
  have "attention_layer ex_config_att ex_nets_att ex_env 2 (input_r_of 2 ex_inputs) True False 0
      (Xs ! 0) = Inr (Xs ! 1)"
    using h(1) al by auto
  then show ?thesis
    using Xs(1,2,3) al ex_xyz_scatter_att_att by (intro conjI exI [of _ Xs]) simp_all
qed

section \<open>Masking of padded slots, in exact arithmetic\<close>

text \<open>
  The score of a padded column is \<open>- 2\<^sup>3\<^sup>3\<close> whatever the projected embeddings are, and the
  weights of a padded row are exactly zero.  The weight that a valid row gives to a padded
  column is \<open>exp (- 2\<^sup>3\<^sup>3) / \<dots>\<close>: positive over the reals, and zero only once the
  floating-point exponential underflows.
\<close>

lemma masked_score_of_padded_slot:
  assumes "length Q = n" "length K = n" "length nm = n" "length neg = n" "i < n" "j < n"
    and "nm ! j = 0" and "neg ! j = - 8589934592 * (1 - nm ! j)"
  shows "attn_scores nm neg Q K t ! i ! j = - (2 ^ 33)"
  using assms by (simp add: attn_scores_row [OF assms(1-5)])

lemma weight_of_padded_row:
  assumes "length Q = n" "length K = n" "length nm = n" "length neg = n" "i < n" "j < n"
    and "nm ! i = 0"
  shows "attn_weight_saved nm neg Q K t ! i ! j = 0"
  using attn_weight_saved_nth(1) [OF assms(1-6), of t] assms(7) by simp

lemma softmax_pos:
  assumes "j < length x"
  shows "0 < softmax x ! j"
proof -
  have "exp (x ! j) \<in> set (map exp x)" using assms by (metis length_map nth_map nth_mem)
  moreover have "\<forall>v\<in>set (map exp x). 0 \<le> v" by auto
  ultimately have "exp (x ! j) \<le> sum_list (map exp x)"
    by (meson member_le_sum_list)
  then have "0 < sum_list (map exp x)"
    using exp_gt_zero [of "x ! j"] by linarith
  then show ?thesis using assms by (simp add: softmax_def)
qed

lemma weight_of_padded_column_positive:
  assumes "length Q = n" "length K = n" "length nm = n" "length neg = n" "i < n" "j < n"
    and "nm ! i = 1"
  shows "0 < attn_weight_saved nm neg Q K t ! i ! j"
proof -
  have "length (attn_scores nm neg Q K t ! i) = n"
    by (simp add: attn_scores_row [OF assms(1-5)])
  then show ?thesis
    using attn_weight_saved_nth(1) [OF assms(1-6), of t] assms(6,7) softmax_pos by simp
qed

section \<open>Atom types out of range\<close>

lemma length_scaled_dot_attn_atom:
  assumes "length Q = n" "length nm = n" "dotr \<longrightarrow> length R = n"
  shows "length (scaled_dot_attn_atom width nm neg Q K V t R dotr dm) = n"
  using assms
  by (auto simp: scaled_dot_attn_atom_def attn_weight_gated_def attn_weight_saved_def
      attn_scores_def matmul_tb_def matmul_def ones_minus_eye_def Let_def)

lemma attention_layer_ok:
  assumes npos: "0 < n" and lX: "length X = N * n"
    and nm: "length (nmask e) = N" "\<forall>row\<in>set (nmask e). length row = n"
    and ng: "length (negative_mask e) = N" "\<forall>row\<in>set (negative_mask e). length row = n"
    and lR: "length R = N" "\<forall>M\<in>set R. length M = n"
  shows "\<exists>X'. attention_layer c p e n R dotr dm i X = Inr X' \<and> length X' = N * n"
proof -
  define Qc where "Qc = map (one_layer p i ''c_query'') X"
  define Kc where "Kc = map (one_layer p i ''c_key'') X"
  define Vc where "Vc = map (one_layer p i ''c_value'') X"
  define Q where "Q = map (map l2_normalize) (rows_of N n Qc)"
  define K where "K = map (map l2_normalize) (rows_of N n Kc)"
  define V where "V = map (map l2_normalize) (rows_of N n Vc)"
  have lc: "length Qc = N * n" "length Kc = N * n" "length Vc = N * n"
    by (simp_all add: Qc_def Kc_def Vc_def lX)
  have g: "group_rows n Qc = Inr (rows_of N n Qc)" "group_rows n Kc = Inr (rows_of N n Kc)"
    "group_rows n Vc = Inr (rows_of N n Vc)"
    by (rule group_rows_ok [OF npos]; rule lc)+
  have l: "length Q = N" "length K = N" "length V = N"
    by (simp_all add: Q_def K_def V_def)
  have rowl: "length (Q ! a) = n \<and> length (K ! a) = n \<and> length (V ! a) = n
            \<and> length (R ! a) = n \<and> length (nmask e ! a) = n
            \<and> length (negative_mask e ! a) = n" if "a < N" for a
    using rows_of_group_nth(2) [OF lc(1) that] rows_of_group_nth(2) [OF lc(2) that]
      rows_of_group_nth(2) [OF lc(3) that] nm ng lR npos that
    by (simp add: Q_def K_def V_def)
  define att where "att = map (\<lambda>a. scaled_dot_attn_atom (att_n c) (nmask e ! a)
      (negative_mask e ! a) (Q ! a) (K ! a) (V ! a) (sqrt 1) (R ! a) dotr dm) [0..<N]"
  have ok: "list_all (\<lambda>a. length (Q ! a) = length (nmask e ! a)
        \<and> length (K ! a) = length (nmask e ! a) \<and> length (V ! a) = length (nmask e ! a)
        \<and> length (negative_mask e ! a) = length (nmask e ! a)
        \<and> (dotr \<longrightarrow> length (R ! a) = length (nmask e ! a))) [0..<N]"
    using rowl by (simp add: list_all_iff)
  have sd: "scaled_dot_attn (att_n c) e Q K V (sqrt 1) R dotr dm = Inr att"
    using l nm(1) ng(1) lR(1) ok by (simp add: scaled_dot_attn_def Let_def att_def)
  have val: "attention_layer c p e n R dotr dm i X
      = Inr (map (layer_normalization p i)
               (map2 (map2 (+)) X (map (one_layer p i ''c_out'') (concat att))))"
    unfolding attention_layer_def Let_def Qc_def [symmetric] Kc_def [symmetric]
      Vc_def [symmetric] g sum.case Q_def [symmetric] K_def [symmetric] V_def [symmetric] sd
    by (rule refl)
  have u: "\<forall>xs\<in>set att. length xs = n"
  proof
    fix xs assume "xs \<in> set att"
    then obtain a where a: "a < N" "xs = scaled_dot_attn_atom (att_n c) (nmask e ! a)
      (negative_mask e ! a) (Q ! a) (K ! a) (V ! a) (sqrt 1) (R ! a) dotr dm"
      by (auto simp: att_def)
    show "length xs = n"
      unfolding a(2) by (rule length_scaled_dot_attn_atom) (use rowl [OF a(1)] in simp_all)
  qed
  have lca: "length (concat att) = N * n"
    using length_concat_uniform [OF u] by (simp add: att_def)
  show ?thesis using val by (simp add: lX lca)
qed

lemma attention_layers_ok:
  assumes npos: "0 < n" and lX: "length X0 = N * n"
    and nm: "length (nmask e) = N" "\<forall>row\<in>set (nmask e). length row = n"
    and ng: "length (negative_mask e) = N" "\<forall>row\<in>set (negative_mask e). length row = n"
    and lR: "length R = N" "\<forall>M\<in>set R. length M = n"
  shows "\<exists>X'. attention_layers c p e X0 L n R dotr dm = Inr X' \<and> length X' = N * n"
proof (induction L)
  case 0
  show ?case by (simp add: attention_layers_0 lX)
next
  case (Suc L)
  then obtain X1 where X1: "attention_layers c p e X0 L n R dotr dm = Inr X1"
    "length X1 = N * n" by blast
  from attention_layer_ok [OF npos X1(2) nm ng lR, of c p dotr dm L]
  show ?case by (simp add: attention_layers_Suc X1(1))
qed

lemma index_of_two_side_value:
  assumes ln: "length neis = n * length atype"
    and rn: "\<forall>t\<in>set neis. 0 \<le> t \<and> t < int T"
    and ra: "\<forall>t\<in>set atype. 0 \<le> t \<and> t < int T"
    and small: "int T * int T < 2 ^ 31"
  shows "\<exists>idx. index_of_two_side neis T n atype = Inr idx
           \<and> length idx = n * length atype
           \<and> list_all (\<lambda>i. 0 \<le> i \<and> i < int T * int T) idx"
proof -
  let ?L = "n * length atype"
  define idx where "idx = map (\<lambda>q. neis ! q * int T + atype ! (q mod length atype)) [0..<?L]"
  have rng: "0 \<le> neis ! q * int T + atype ! (q mod length atype)
      \<and> neis ! q * int T + atype ! (q mod length atype) < int T * int T
      \<and> 0 \<le> neis ! q * int T \<and> neis ! q * int T < int T * int T" if "q < ?L" for q
  proof -
    have la: "0 < length atype" using that by (cases "length atype") simp_all
    have a: "0 \<le> atype ! (q mod length atype) \<and> atype ! (q mod length atype) < int T"
      using ra la by simp
    have b: "0 \<le> neis ! q \<and> neis ! q < int T"
      using ln rn that by simp
    have T0: "0 < int T" using b by linarith
    have "0 \<le> neis ! q * int T + 0" "neis ! q * int T + 0 < int T * int T"
      by (rule two_side_idx_bounds; use b T0 in simp)+
    then show ?thesis
      using two_side_idx_bounds [of "atype ! (q mod length atype)" "int T" "neis ! q"] a b
      by simp
  qed
  have "add_vec (map (\<lambda>t. i32 (t * int T)) neis) (concat (replicate n atype))
      = Inr (map2 (\<lambda>x y. i32 (x + y)) (map (\<lambda>t. i32 (t * int T)) neis)
               (concat (replicate n atype)))"
    by (simp add: add_vec_def add_rows_def ln)
  also have "map2 (\<lambda>x y. i32 (x + y)) (map (\<lambda>t. i32 (t * int T)) neis)
               (concat (replicate n atype)) = idx"
  proof (rule nth_equalityI)
    show "length (map2 (\<lambda>x y. i32 (x + y)) (map (\<lambda>t. i32 (t * int T)) neis)
               (concat (replicate n atype))) = length idx"
      by (simp add: idx_def ln)
    fix q assume "q < length (map2 (\<lambda>x y. i32 (x + y)) (map (\<lambda>t. i32 (t * int T)) neis)
               (concat (replicate n atype)))"
    then have q: "q < ?L" by (simp add: ln)
    have "i32 (neis ! q * int T) = neis ! q * int T"
      using rng [OF q] small by (intro i32_id) linarith+
    moreover have "i32 (neis ! q * int T + atype ! (q mod length atype))
        = neis ! q * int T + atype ! (q mod length atype)"
      using rng [OF q] small by (intro i32_id) linarith+
    ultimately show "map2 (\<lambda>x y. i32 (x + y)) (map (\<lambda>t. i32 (t * int T)) neis)
               (concat (replicate n atype)) ! q = idx ! q"
      using q by (simp add: idx_def ln concat_replicate_nth_mod)
  qed
  finally have ix: "index_of_two_side neis T n atype = Inr idx"
    by (simp add: index_of_two_side_def Let_def)
  have "list_all (\<lambda>i. 0 \<le> i \<and> i < int T * int T) idx"
    using rng by (simp add: idx_def list_all_iff)
  then show ?thesis using ix by (simp add: idx_def)
qed

lemma embed_ok:
  assumes lx: "length xyz0 = nnei c * length atype"
    and ln: "length (nei_type_vec e) = nnei c * length atype"
    and rn: "\<forall>t\<in>set (nei_type_vec e). 0 \<le> t \<and> t < int (length te)"
    and ra: "\<forall>t\<in>set atype. 0 \<le> t \<and> t < int (length te)"
    and small: "int (length te) * int (length te) < 2 ^ 31"
  shows "\<exists>out. embed c p e suffix xyz0 te atype = Inr out
           \<and> length out = nnei c * length atype"
proof (cases "type_one_side c")
  case True
  have "list_all (\<lambda>i. 0 \<le> i
      \<and> i < int (length (map (embedding_net p (suffix @ ''_ebd_of_ebd'')) te))) (nei_type_vec e)"
    using rn by (simp add: list_all_iff)
  from embedding_lookup_ok [OF this] show ?thesis
    using True lx ln by (simp add: embed_def Let_def ew_rows_def)
next
  case False
  from index_of_two_side_value [OF ln rn ra small]
  obtain idx where idx: "index_of_two_side (nei_type_vec e) (length te) (nnei c) atype = Inr idx"
    "length idx = nnei c * length atype"
    "list_all (\<lambda>i. 0 \<le> i \<and> i < int (length te) * int (length te)) idx"
    by blast
  let ?tab = "map (embedding_net p (suffix @ ''_two_side_ebd'')) (two_side_type_embedding te)"
  have "list_all (\<lambda>i. 0 \<le> i \<and> i < int (length ?tab)) idx"
    using idx(3) by (simp add: length_two_side_type_embedding)
  from embedding_lookup_ok [OF this]
  have lk: "embedding_lookup ?tab idx = Inr (map (\<lambda>i. ?tab ! nat i) idx)" .
  show ?thesis
    unfolding embed_def Let_def idx(1) sum.case lk
    using False lx idx(2) by (simp add: ew_rows_def)
qed

lemma xyz_scatter_att_ok:
  assumes npos: "0 < n" and nn: "nnei c = n"
    and li: "length atype = length inputs_i"
    and ln: "length (nei_type_vec e) = length inputs_i * n"
    and rn: "\<forall>t\<in>set (nei_type_vec e). 0 \<le> t \<and> t < int (length te)"
    and ra: "\<forall>t\<in>set atype. 0 \<le> t \<and> t < int (length te)"
    and small: "int (length te) * int (length te) < 2 ^ 31"
    and nm: "length (nmask e) = length inputs_i" "\<forall>row\<in>set (nmask e). length row = n"
    and ng: "length (negative_mask e) = length inputs_i"
      "\<forall>row\<in>set (negative_mask e). length row = n"
  shows "\<exists>E. xyz_scatter_att c p e suffix n inputs_i te atype = Inr E
           \<and> length E = length inputs_i \<and> (\<forall>M\<in>set E. length M = n)"
proof -
  let ?N = "length inputs_i"
  let ?x0 = "map (take 1) (rows_of (?N * n) 4 (concat inputs_i))"
  have lx: "length ?x0 = nnei c * length atype" by (simp add: nn li mult.commute)
  have ln': "length (nei_type_vec e) = nnei c * length atype"
    by (simp add: nn li ln mult.commute)
  from embed_ok [OF lx ln' rn ra small, of p suffix]
  obtain X0 where X0: "embed c p e suffix ?x0 te atype = Inr X0" "length X0 = ?N * n"
    by (auto simp: nn li mult.commute)
  have lR: "length (input_r_of n inputs_i) = ?N" "\<forall>M\<in>set (input_r_of n inputs_i). length M = n"
    using length_input_r_of(1) [of n inputs_i] length_input_r_of(2) [of _ n inputs_i] by auto
  from attention_layers_ok [OF npos X0(2) nm ng lR, of c p "attn_layer c" "attn_dotr c" "attn_mask c"]
  obtain X1 where X1: "attention_layers c p e X0 (attn_layer c) n (input_r_of n inputs_i)
      (attn_dotr c) (attn_mask c) = Inr X1" "length X1 = ?N * n"
    by blast
  have val: "xyz_scatter_att c p e suffix n inputs_i te atype = Inr (rows_of ?N n X1)"
    unfolding xyz_scatter_att_def Let_def X0(1) sum.case X1(1)
    by (rule group_rows_ok [OF npos X1(2)])
  have "\<forall>M\<in>set (rows_of ?N n X1). length M = n"
  proof
    fix M assume "M \<in> set (rows_of ?N n X1)"
    then obtain a where "a < ?N" "M = rows_of ?N n X1 ! a"
      by (metis in_set_conv_nth length_rows_of)
    then show "length M = n" using rows_of_group_nth(2) [OF X1(2)] npos by simp
  qed
  then show ?thesis using val by simp
qed

lemma pass_filter_Inr:
  assumes te: "(case input_dict of None \<Rightarrow> None | Some d \<Rightarrow> d ''type_embedding'') = Some te"
    and nat: "natoms = natoms0 # rest" and n0: "0 < natoms0"
    and sel: "sel_a c \<noteq> []" and n: "n = sum_list (sel_a c)" and npos: "0 < n"
    and nd: "ndescrpt c = 4 * n"
    and len: "length (concat inputs) = nframes * natoms0 * ndescrpt c"
    and masked: "(if exclude_types c \<noteq> [] then
            (case build_type_exclude_mask (exclude_types c) (ntypes c) (sel_a c) (ndescrpt c)
                    atype (nframes * natoms0) (nei_type_vec e) of
               Inl err \<Rightarrow> Inl err
             | Inr m \<Rightarrow> ew_rows (*) (rows_of (nframes * natoms0) (ndescrpt c) (concat inputs)) m)
          else Inr (rows_of (nframes * natoms0) (ndescrpt c) (concat inputs))) = Inr X"
    and Xl: "length X = nframes * natoms0" and Xr: "\<forall>row\<in>set X. length row = ndescrpt c"
    and nc: "\<not> compress c"
    and E: "xyz_scatter_att c p e suffix n X te atype = Inr E"
    and El: "length E = nframes * natoms0"
    and Er: "\<forall>M\<in>set E. length M = n"
    and fn: "filter_neuron c \<noteq> []"
    and ax: "n_axis_neuron c \<le> last (filter_neuron c)"
  shows "\<exists>layer q. pass_filter c p e suffix inputs atype natoms input_dict = Inr (layer, q)"
proof -
  define W where "W = last (filter_neuron c)"
  define A where "A = nframes * natoms0"
  define a2 where "a2 = n_axis_neuron c"
  have W1: "last (1 # filter_neuron c) = W" using fn by (simp add: W_def)
  have ax': "a2 \<le> W" using ax by (simp add: a2_def W_def)
  define d0 where "d0 = (case original_sel c of None \<Rightarrow> real (ndescrpt c) / 4
                        | Some os \<Rightarrow> real (sum_list os))"
  define Gs where "Gs = map (map (map (\<lambda>x. x / d0)))
      (map2 (\<lambda>row M. matmul_ta 4 W (rows_of n 4 row) M) X E)"
  define layer0 where "layer0 = map (\<lambda>G. concat (matmul_ta W a2 G (map (take a2) G))) Gs"
  define q0 where "q0 = map (\<lambda>G. transpose_w W (take 3 (drop 1 G))) Gs"
  have rows: "\<forall>row\<in>set X. length row = sum_list (sel_a c) * 4"
    using n nd Xr by simp
  have EX: "length E = length X" using El Xl by simp
  have val: "filter_atten c p e suffix X (Some te) (Some atype) = Inr (layer0, q0)"
    unfolding layer0_def q0_def a2_def W1 [symmetric]
    by (rule filter_atten_value [OF sel rows nc E [unfolded n] EX
          ax' [unfolded a2_def W1 [symmetric]]])
      (simp add: Gs_def d0_def n fn W_def)
  have lg: "length Gs = A" by (simp add: Gs_def EX Xl A_def)
  have G: "length (Gs ! a) = 4" "\<And>ch. ch < 4 \<Longrightarrow> length (Gs ! a ! ch) = W" if "a < A" for a
  proof -
    have aX: "a < length X" using that Xl by (simp add: A_def)
    have li: "length (X ! a) = n * 4" using aX nd Xr by simp
    have le: "length (E ! a) = n" using aX EX Er by simp
    note s = scaled_G_entry [OF Gs_def EX aX li le]
    show "length (Gs ! a) = 4" by (rule s(1))
    show "\<And>ch. ch < 4 \<Longrightarrow> length (Gs ! a ! ch) = W" by (rule s(2))
  qed
  have Gset: "length G = 4 \<and> (\<forall>ch<4. length (G ! ch) = W)" if "G \<in> set Gs" for G
  proof -
    from that obtain a where "a < A" "G = Gs ! a" using lg by (metis in_set_conv_nth)
    then show ?thesis using G by simp
  qed
  have l0: "\<forall>r\<in>set layer0. length r = W * a2"
  proof
    fix r assume "r \<in> set layer0"
    then obtain G0 where g: "G0 \<in> set Gs" "r = concat (matmul_ta W a2 G0 (map (take a2) G0))"
      by (auto simp: layer0_def)
    have "length G0 = 4" "\<forall>ch<4. length (G0 ! ch) = W" using Gset [OF g(1)] by simp_all
    from descriptor_entry(1) [OF this ax'] show "length r = W * a2"
      by (simp add: g(2))
  qed
  have q1: "\<forall>r\<in>set (map concat q0). length r = W * 3"
  proof
    fix r assume "r \<in> set (map concat q0)"
    then obtain G0 where g: "G0 \<in> set Gs" "r = concat (transpose_w W (take 3 (drop 1 G0)))"
      by (auto simp: q0_def)
    have u: "\<forall>xs\<in>set (transpose_w W (take 3 (drop 1 G0))). length xs = 3"
      using Gset [OF g(1)] by (auto simp: transpose_w_def col_def)
    show "length r = W * 3"
      using length_concat_uniform [OF u] by (simp add: g(2) transpose_w_def)
  qed
  have d1: "get_dim_out c = Inr (W * a2)"
    using fn by (simp add: get_dim_out_def a2_def W_def)
  have d2: "get_dim_rot_mat_1 c = Inr W"
    using fn by (simp add: get_dim_rot_mat_1_def W_def)
  have ll0: "length layer0 = nframes * natoms0" by (simp add: layer0_def lg A_def)
  have lq1: "length (map concat q0) = nframes * natoms0" by (simp add: q0_def lg A_def)
  note r1 = reshape3_ok(1) [OF l0 ll0]
  note r2 = reshape3_ok(1) [OF q1 lq1]
  have pos: "0 < natoms0 * ndescrpt c" using n0 npos nd by simp
  have len': "length (concat inputs) = nframes * (natoms0 * ndescrpt c)"
    using len by (simp add: mult.assoc)
  from pass_filter_value [OF te nat pos len' masked val d1 r1 d2 r2]
  show ?thesis by blast
qed

lemma pass_filter_ok:
  assumes te: "(case input_dict of None \<Rightarrow> None | Some d \<Rightarrow> d ''type_embedding'') = Some te"
    and nat: "natoms = natoms0 # rest" and n0: "0 < natoms0"
    and sel: "sel_a c = [n]" and npos: "0 < n" and nd: "ndescrpt c = 4 * n"
    and nn: "nnei c = n" and nc: "\<not> compress c"
    and fn: "filter_neuron c \<noteq> []" and ax: "n_axis_neuron c \<le> last (filter_neuron c)"
    and dr: "length dr = nframes * natoms0" "\<forall>row\<in>set dr. length row = ndescrpt c"
    and an: "length an = nframes * natoms0" "\<forall>t\<in>set an. 0 \<le> t \<and> t < ntypes c"
    and T: "ntypes c \<le> int (length te)" "int (length te) * int (length te) < 2 ^ 31"
      "ntypes c * (ntypes c + 1) < 2 ^ 31"
    and nei: "length (nei_type_vec e) = nframes * natoms0 * n"
      "\<forall>t\<in>set (nei_type_vec e). 0 \<le> t \<and> t \<le> ntypes c \<and> t < int (length te)"
    and nm: "length (nmask e) = nframes * natoms0" "\<forall>row\<in>set (nmask e). length row = n"
    and ng: "length (negative_mask e) = nframes * natoms0"
      "\<forall>row\<in>set (negative_mask e). length row = n"
  shows "\<exists>layer q. pass_filter c p e suffix dr an natoms input_dict = Inr (layer, q)"
proof -
  let ?N = "nframes * natoms0"
  have len: "length (concat dr) = ?N * ndescrpt c"
    using length_concat_uniform [OF dr(2)] dr(1) by simp
  have ro: "rows_of ?N (ndescrpt c) (concat dr) = dr"
    using rows_of_concat [OF dr(2)] dr(1) by simp
  have "\<exists>X. (if exclude_types c \<noteq> [] then
            (case build_type_exclude_mask (exclude_types c) (ntypes c) (sel_a c) (ndescrpt c)
                    an ?N (nei_type_vec e) of
               Inl err \<Rightarrow> Inl err
             | Inr m \<Rightarrow> ew_rows (*) (rows_of ?N (ndescrpt c) (concat dr)) m)
          else Inr (rows_of ?N (ndescrpt c) (concat dr))) = Inr X
        \<and> length X = ?N \<and> (\<forall>row\<in>set X. length row = ndescrpt c)"
  proof (cases "exclude_types c = []")
    case True
    then show ?thesis using ro dr by simp
  next
    case False
    have rn: "\<forall>b\<in>set (nei_type_vec e). 0 \<le> b \<and> b \<le> ntypes c" using nei(2) by blast
    from exclude_mask_gather [OF sel npos nd an(1) nei(1) an(2) rn T(3), of "exclude_types c"]
    obtain m where m: "build_type_exclude_mask (exclude_types c) (ntypes c) (sel_a c)
        (ndescrpt c) an ?N (nei_type_vec e) = Inr m" "length m = ?N"
      "\<And>i. i < ?N \<Longrightarrow> length (m ! i) = ndescrpt c"
      by blast
    have "\<forall>row\<in>set (map2 (map2 (*)) dr m). length row = ndescrpt c"
    proof
      fix row assume "row \<in> set (map2 (map2 (*)) dr m)"
      then obtain i where i: "i < ?N" "row = map2 (*) (dr ! i) (m ! i)"
        using dr(1) m(2) by (auto simp: in_set_conv_nth)
      then show "length row = ndescrpt c" using m(3) dr by simp
    qed
    then show ?thesis
      using False m(1,2) dr(1) by (simp add: ro ew_rows_def)
  qed
  then obtain X where X: "(if exclude_types c \<noteq> [] then
            (case build_type_exclude_mask (exclude_types c) (ntypes c) (sel_a c) (ndescrpt c)
                    an ?N (nei_type_vec e) of
               Inl err \<Rightarrow> Inl err
             | Inr m \<Rightarrow> ew_rows (*) (rows_of ?N (ndescrpt c) (concat dr)) m)
          else Inr (rows_of ?N (ndescrpt c) (concat dr))) = Inr X"
    "length X = ?N" "\<forall>row\<in>set X. length row = ndescrpt c"
    by blast
  have rnT: "\<forall>t\<in>set (nei_type_vec e). 0 \<le> t \<and> t < int (length te)" using nei(2) by blast
  have raT: "\<forall>t\<in>set an. 0 \<le> t \<and> t < int (length te)" using an(2) T(1) by auto
  have li: "length an = length X" using an(1) X(2) by simp
  have ln: "length (nei_type_vec e) = length X * n" using nei(1) X(2) by simp
  have nmX: "length (nmask e) = length X" "length (negative_mask e) = length X"
    using nm(1) ng(1) X(2) by simp_all
  from xyz_scatter_att_ok [OF npos nn li ln rnT raT T(2) nmX(1) nm(2) nmX(2) ng(2), of p suffix]
  obtain E where E: "xyz_scatter_att c p e suffix n X te an = Inr E" "length E = ?N"
    "\<forall>M\<in>set E. length M = n"
    using X(2) by auto
  have s1: "sel_a c \<noteq> []" and s2: "n = sum_list (sel_a c)" using sel by simp_all
  show ?thesis
    by (rule pass_filter_Inr [OF te nat n0 s1 s2 npos nd len X(1) X(2) X(3) nc E fn ax])
qed

lemma build_pass_filter:
  assumes "natoms = natoms0 # natoms1 # rest"
    and "reshape_m1 (natoms1 * 3) coord0 = Inr coord"
    and "reshape_m1 9 box0 = Inr box"
    and "reshape_m1 natoms1 atype0 = Inr atype"
    and "sel_all_a c = sel0 # srest"
    and "env_op coord atype natoms box mesh
           (case davg c of None \<Rightarrow> replicate (nat (ntypes c)) (replicate (ndescrpt c) 0)
            | Some d \<Rightarrow> d)
           (case dstd c of None \<Rightarrow> replicate (nat (ntypes c)) (replicate (ndescrpt c) 1)
            | Some d \<Rightarrow> d) = em"
    and "reshape_m1 sel0 (map of_bool (concat (em_nmask em))) = Inr nm"
    and "\<lparr>nei_type_vec = concat (em_nei_type_vec em), nmask = nm,
          negative_mask = map (map (\<lambda>m. - 8589934592 * (1 - m))) nm\<rparr> = e"
    and "reshape_m1 (ndescrpt c) (concat (em_descrpt em)) = Inr dr"
    and "atype_nloc_of c natoms0 atype = Inr an"
  shows "build c p env_op coord0 atype0 natoms box0 mesh input_dict suffix
     = (case pass_filter c p e suffix dr an natoms input_dict of
          Inl err \<Rightarrow> Inl err
        | Inr (d, q) \<Rightarrow>
            Inr \<lparr>descrpt = em_descrpt em, env_of = e, descrpt_reshape = dr, atype_nloc = an,
                 dout = d, qmat = q\<rparr>)"
proof -
  have n: "(case natoms of natoms0 # natoms1 # x \<Rightarrow> f natoms0 natoms1 | _ \<Rightarrow> g)
      = f natoms0 natoms1" for f :: "nat \<Rightarrow> nat \<Rightarrow> error + built" and g
    by (simp add: assms(1))
  show ?thesis
    unfolding build_def Let_def n assms(2,3,4,5,6,7,8,9,10) sum.case list.case
    by (rule refl)
qed

lemma reshape_m1_ok:
  "0 < w \<Longrightarrow> length xs = r * w \<Longrightarrow> reshape_m1 w xs = Inr (rows_of r w xs)"
  by (simp add: reshape_m1_def)

lemma rows_of_rows_length:
  assumes "length xs = r * w" "row \<in> set (rows_of r w xs)"
  shows "length row = w"
proof -
  from assms(2) obtain k where k: "k < r" "row = rows_of r w xs ! k"
    by (metis in_set_conv_nth length_rows_of)
  have "r * w \<le> length xs" using assms(1) by simp
  from length_rows_of_row [OF k(1) this] show ?thesis by (simp add: k(2))
qed

text \<open>
  Claim C9, as the code has it.  Take a call of \<open>build\<close> whose tensors have the shapes the
  program expects: \<open>nframes\<close> frames of \<open>natoms[1]\<close> atoms, \<open>natoms[0]\<close> of them local,
  \<open>sel = n\<close> neighbour slots with four features each, a type embedding of at least \<open>ntypes\<close>
  rows, at least one atom type, and tables small enough for \<^verbatim>\<open>int32\<close>.  Let the neighbour
  types that the environment-matrix operator reports lie in \<open>0..ntypes\<close> and below the number
  of rows of the type embedding.  Then, whatever integers the atom types are, \<open>build\<close>
  returns: the operator has been applied to the types as they were supplied, only reshaped,
  and \<open>pass_filter\<close> has received the first \<open>natoms[0]\<close> types of each frame clipped into
  \<open>0..ntypes-1\<close> and has returned the descriptor, so that neither the lookup of the exclusion
  mask nor the lookup of the type embedding has failed.
\<close>

theorem build_clips_center_types:
  assumes nt: "1 \<le> ntypes c"
    and te: "(case input_dict of None \<Rightarrow> None | Some d \<Rightarrow> d ''type_embedding'') = Some te"
    and T: "ntypes c \<le> int (length te)" "int (length te) * int (length te) < 2 ^ 31"
      "ntypes c * (ntypes c + 1) < 2 ^ 31"
    and nat: "natoms = natoms0 # natoms1 # rest" and n0: "0 < natoms0"
    and n01: "natoms0 \<le> natoms1"
    and coord: "reshape_m1 (natoms1 * 3) coord0 = Inr coord"
    and box: "reshape_m1 9 box0 = Inr box"
    and la: "length atype0 = nframes * natoms1"
    and sel: "sel_a c = [n]" "sel_all_a c = [n]" and nn: "nnei c = n"
    and nd: "ndescrpt c = 4 * n" and npos: "0 < n"
    and nc: "\<not> compress c"
    and fn: "filter_neuron c \<noteq> []" and ax: "n_axis_neuron c \<le> last (filter_neuron c)"
    and em: "em = env_op coord (rows_of nframes natoms1 atype0) natoms box mesh
           (case davg c of None \<Rightarrow> replicate (nat (ntypes c)) (replicate (ndescrpt c) 0)
            | Some d \<Rightarrow> d)
           (case dstd c of None \<Rightarrow> replicate (nat (ntypes c)) (replicate (ndescrpt c) 1)
            | Some d \<Rightarrow> d)"
    and shp: "length (concat (em_descrpt em)) = nframes * natoms0 * ndescrpt c"
      "length (concat (em_nei_type_vec em)) = nframes * natoms0 * n"
      "length (concat (em_nmask em)) = nframes * natoms0 * n"
    and nei: "\<forall>t\<in>set (concat (em_nei_type_vec em)). 0 \<le> t \<and> t \<le> ntypes c \<and> t < int (length te)"
  shows "\<exists>b. build c p env_op coord0 atype0 natoms box0 mesh input_dict suffix = Inr b
           \<and> descrpt b = em_descrpt em
           \<and> nei_type_vec (env_of b) = concat (em_nei_type_vec em)
           \<and> atype_nloc b
               = concat (map (\<lambda>row. map (\<lambda>t. clip_by_value t 0 (ntypes c - 1)) (take natoms0 row))
                   (rows_of nframes natoms1 atype0))
           \<and> (\<forall>t\<in>set (atype_nloc b). 0 \<le> t \<and> t \<le> ntypes c - 1)
           \<and> pass_filter c p (env_of b) suffix (descrpt_reshape b) (atype_nloc b) natoms input_dict
               = Inr (dout b, qmat b)"
proof -
  let ?N = "nframes * natoms0"
  define atype where "atype = rows_of nframes natoms1 atype0"
  have n1: "0 < natoms1" using n0 n01 by simp
  have ra: "reshape_m1 natoms1 atype0 = Inr atype"
    unfolding atype_def by (rule reshape_m1_ok [OF n1 la])
  have arow: "\<forall>row\<in>set atype. length row = natoms1"
    using rows_of_rows_length [OF la] by (simp add: atype_def)
  define nm where "nm = rows_of ?N n (map of_bool (concat (em_nmask em)) :: real list)"
  have rnm: "reshape_m1 n (map of_bool (concat (em_nmask em))) = Inr nm"
    unfolding nm_def by (rule reshape_m1_ok [OF npos]) (simp add: shp(3))
  have lnm: "length nm = ?N" "\<forall>row\<in>set nm. length row = n"
    using rows_of_rows_length [of "map of_bool (concat (em_nmask em)) :: real list" ?N n]
    by (simp_all add: nm_def shp(3))
  define e where "e = \<lparr>nei_type_vec = concat (em_nei_type_vec em), nmask = nm,
      negative_mask = map (map (\<lambda>m. - 8589934592 * (1 - m))) nm\<rparr>"
  define dr where "dr = rows_of ?N (ndescrpt c) (concat (em_descrpt em))"
  have ndpos: "0 < ndescrpt c" using nd npos by simp
  have rdr: "reshape_m1 (ndescrpt c) (concat (em_descrpt em)) = Inr dr"
    unfolding dr_def by (rule reshape_m1_ok [OF ndpos shp(1)])
  have ldr: "length dr = ?N" "\<forall>row\<in>set dr. length row = ndescrpt c"
    using rows_of_rows_length [OF shp(1)] by (simp_all add: dr_def)
  have tot: "\<forall>row\<in>set atype. natoms0 \<le> length row" using arow n01 by simp
  from atype_nloc_of_total [OF tot, of c]
  obtain an where an: "atype_nloc_of c natoms0 atype = Inr an" by blast
  have av: "an = concat (map (\<lambda>row. map (\<lambda>t. clip_by_value t 0 (ntypes c - 1)) (take natoms0 row))
      atype)"
    by (rule atype_nloc_of_Inr [OF an])
  have rng: "0 \<le> t \<and> t \<le> ntypes c - 1" if "t \<in> set an" for t
  proof -
    from that av obtain u where "t = clip_by_value u 0 (ntypes c - 1)" by auto
    then show ?thesis using clip_by_value_range [of 0 "ntypes c - 1" u] nt by simp
  qed
  have lan: "length an = ?N"
  proof -
    have "\<forall>xs\<in>set (map (\<lambda>row. map (\<lambda>t. clip_by_value t 0 (ntypes c - 1)) (take natoms0 row))
        atype). length xs = natoms0"
      using arow n01 by simp
    from length_concat_uniform [OF this] show ?thesis by (simp add: av atype_def)
  qed
  have ran: "\<forall>t\<in>set an. 0 \<le> t \<and> t < ntypes c" using rng by fastforce
  have nat': "natoms = natoms0 # (natoms1 # rest)" by (rule nat)
  have en: "length (nei_type_vec e) = ?N * n"
    "\<forall>t\<in>set (nei_type_vec e). 0 \<le> t \<and> t \<le> ntypes c \<and> t < int (length te)"
    "length (nmask e) = ?N" "\<forall>row\<in>set (nmask e). length row = n"
    "length (negative_mask e) = ?N" "\<forall>row\<in>set (negative_mask e). length row = n"
    using shp(2) nei lnm by (simp_all add: e_def)
  from pass_filter_ok [OF te nat' n0 sel(1) npos nd nn nc fn ax ldr lan ran T en, of p suffix]
  obtain layer q where pf: "pass_filter c p e suffix dr an natoms input_dict = Inr (layer, q)"
    by blast
  define b where "b = \<lparr>descrpt = em_descrpt em, env_of = e, descrpt_reshape = dr,
      atype_nloc = an, dout = layer, qmat = q\<rparr>"
  have s0: "sel_all_a c = n # []" by (rule sel(2))
  have "build c p env_op coord0 atype0 natoms box0 mesh input_dict suffix
      = (case pass_filter c p e suffix dr an natoms input_dict of
           Inl err \<Rightarrow> Inl err
         | Inr (d, q) \<Rightarrow>
             Inr \<lparr>descrpt = em_descrpt em, env_of = e, descrpt_reshape = dr, atype_nloc = an,
                  dout = d, qmat = q\<rparr>)"
    by (rule build_pass_filter [where env_op = env_op and mesh = mesh,
          OF nat coord box ra s0 em [unfolded atype_def [symmetric], symmetric]
          rnm e_def [symmetric] rdr an])
  then have bb: "build c p env_op coord0 atype0 natoms box0 mesh input_dict suffix = Inr b"
    by (simp add: pf b_def)
  show ?thesis
    apply (rule exI [of _ b])
    using bb pf rng av by (simp add: b_def e_def atype_def)
qed

theorem build_clips_center_types_witness:
  "\<exists>b. build ex_config ex_nets ex_op ex_coord [- 1, 5] ex_natoms ex_box [] ex_input_dict []
          = Inr b
     \<and> descrpt b = em_descrpt ex_env_mat
     \<and> atype_nloc b = [0, 1]
     \<and> (\<forall>t\<in>set (atype_nloc b). 0 \<le> t \<and> t \<le> ntypes ex_config - 1)
     \<and> pass_filter ex_config ex_nets (env_of b) [] (descrpt_reshape b) (atype_nloc b) ex_natoms
           ex_input_dict
         = Inr (dout b, qmat b)"
proof -
  have nt: "1 \<le> ntypes ex_config" by (simp add: ex_config_def)
  have te: "(case ex_input_dict of None \<Rightarrow> None | Some d \<Rightarrow> d ''type_embedding'')
      = Some ex_type_embedding"
    by (simp add: ex_input_dict_def)
  have T: "ntypes ex_config \<le> int (length ex_type_embedding)"
    "int (length ex_type_embedding) * int (length ex_type_embedding) < 2 ^ 31"
    "ntypes ex_config * (ntypes ex_config + 1) < 2 ^ 31"
    by (simp_all add: ex_config_def ex_type_embedding_def)
  have nat: "ex_natoms = 2 # 2 # [1, 1]" "0 < (2 :: nat)" "(2 :: nat) \<le> 2"
    by (simp_all add: ex_natoms_def)
  have coord: "reshape_m1 (2 * 3) ex_coord = Inr [[0, 0, 0, 1, 0, 0]]"
    by (simp add: reshape_m1_def rows_of_def ex_coord_def)
  have box: "reshape_m1 9 ex_box = Inr [[9, 0, 0, 0, 9, 0, 0, 0, 9]]"
    by (simp add: reshape_m1_def rows_of_def ex_box_def)
  have la: "length [- 1, 5 :: int] = 1 * 2" by simp
  have cfg: "sel_a ex_config = [2]" "sel_all_a ex_config = [2]" "nnei ex_config = 2"
    "ndescrpt ex_config = 4 * 2" "0 < (2 :: nat)" "\<not> compress ex_config"
    "filter_neuron ex_config \<noteq> []" "n_axis_neuron ex_config \<le> last (filter_neuron ex_config)"
    by (simp_all add: ex_config_def)
  have em: "ex_env_mat = ex_op [[0, 0, 0, 1, 0, 0]] (rows_of 1 2 [- 1, 5]) ex_natoms
      [[9, 0, 0, 0, 9, 0, 0, 0, 9]] []
      (case davg ex_config of
         None \<Rightarrow> replicate (nat (ntypes ex_config)) (replicate (ndescrpt ex_config) 0)
       | Some d \<Rightarrow> d)
      (case dstd ex_config of
         None \<Rightarrow> replicate (nat (ntypes ex_config)) (replicate (ndescrpt ex_config) 1)
       | Some d \<Rightarrow> d)"
    by (simp add: ex_op_def)
  have shp: "length (concat (em_descrpt ex_env_mat)) = 1 * 2 * ndescrpt ex_config"
    "length (concat (em_nei_type_vec ex_env_mat)) = 1 * 2 * 2"
    "length (concat (em_nmask ex_env_mat)) = 1 * 2 * 2"
    "\<forall>t\<in>set (concat (em_nei_type_vec ex_env_mat)).
        0 \<le> t \<and> t \<le> ntypes ex_config \<and> t < int (length ex_type_embedding)"
    by (simp_all add: ex_env_mat_def ex_config_def ex_type_embedding_def)
  have cl: "concat (map (\<lambda>row. map (\<lambda>t. clip_by_value t 0 (ntypes ex_config - 1)) (take 2 row))
      (rows_of 1 2 [- 1, 5])) = [0, 1]"
    by (simp add: rows_of_def clip_by_value_def ex_config_def)
  from build_clips_center_types [where env_op = ex_op and mesh = "[]" and p = ex_nets
      and suffix = "[]", OF nt te T nat coord box la cfg em shp]
  obtain b where b:
    "build ex_config ex_nets ex_op ex_coord [- 1, 5] ex_natoms ex_box [] ex_input_dict [] = Inr b"
    "descrpt b = em_descrpt ex_env_mat"
    "atype_nloc b = [0, 1]"
    "\<forall>t\<in>set (atype_nloc b). 0 \<le> t \<and> t \<le> ntypes ex_config - 1"
    "pass_filter ex_config ex_nets (env_of b) [] (descrpt_reshape b) (atype_nloc b) ex_natoms
       ex_input_dict = Inr (dout b, qmat b)"
    unfolding cl by blast
  show ?thesis using b by blast
qed

lemma ex_index_echo:
  "index_of_two_side [5, 5, 0, 0] (length ex_type_embedding) (nnei ex_config) [0, 1]
     = Inr [10, 11, 0, 1]"
  by (simp add: index_of_two_side_def add_vec_def add_rows_def i32_def Let_def replicate_numeral
      ex_type_embedding_def ex_config_def)

lemma ex_embed_echo:
  "embed ex_config ex_nets
      \<lparr>nei_type_vec = [5, 5, 0, 0], nmask = [[1, 1], [1, 1]], negative_mask = [[0, 0], [0, 0]]\<rparr>
      [] [[1], [2], [1], [1]] ex_type_embedding [0, 1] = Inl LookupError"
proof -
  have t: "\<not> type_one_side ex_config" by (simp add: ex_config_def)
  show ?thesis
    unfolding embed_def Let_def ex_two_side
    using t ex_index_echo by (simp add: embedding_lookup_def)
qed

lemma ex_pass_filter_echo:
  "pass_filter ex_config ex_nets
      \<lparr>nei_type_vec = [5, 5, 0, 0], nmask = [[1, 1], [1, 1]], negative_mask = [[0, 0], [0, 0]]\<rparr>
      [] ex_inputs [0, 1] ex_natoms ex_input_dict = Inl LookupError"
proof -
  let ?e = "\<lparr>nei_type_vec = [5, 5, 0, 0], nmask = [[1, 1], [1, 1 :: real]],
      negative_mask = [[0, 0], [0, 0 :: real]]\<rparr>"
  have r: "map (take 1) (rows_of (length ex_inputs * 2) 4 (concat ex_inputs))
      = [[1], [2], [1], [1 :: real]]"
    by (simp add: rows_of_def upt_rec ex_inputs_def)
  have x: "xyz_scatter_att ex_config ex_nets ?e [] 2 ex_inputs ex_type_embedding [0, 1]
      = Inl LookupError"
    unfolding xyz_scatter_att_def Let_def r ex_embed_echo by simp
  have s: "slice_cols (0 * 4) (2 * 4) ex_inputs = Inr ex_inputs"
    by (simp add: slice_cols_def ex_inputs_def)
  have cc: "compress ex_config = False" "sel_a ex_config = [2]" "exclude_types ex_config = []"
    "ndescrpt ex_config = 8"
    by (simp_all add: ex_config_def)
  have fl: "filter_lower ex_config ex_nets ?e [] 0 2 ex_inputs (Some ex_type_embedding)
      (Some [0, 1]) False = Inl LookupError"
    unfolding filter_lower_def Let_def s by (simp add: x cc)
  have fa: "filter_atten ex_config ex_nets ?e [] ex_inputs (Some ex_type_embedding) (Some [0, 1])
      = Inl LookupError"
    unfolding filter_atten_def Let_def using fl by (simp add: cc)
  have i: "rows_of 2 8 (concat ex_inputs) = ex_inputs"
    by (simp add: ex_inputs_def rows_of_def upt_rec)
  have l: "length (concat ex_inputs) = 16" by (simp add: ex_inputs_def)
  show ?thesis
    unfolding pass_filter_def ex_natoms_def ex_input_dict_def Let_def cc
    by (simp add: l i fa)
qed

text \<open>
  The neighbour types are not clipped.  For the atom types \<open>(0, 5)\<close> and an operator that
  reports the types it is given, the centre types become \<open>(0, 1)\<close>, the neighbour types are
  \<open>(5, 5, 0, 0)\<close>, and the lookup of the pairwise type embedding, a table of four rows, fails
  at the index \<open>5 * 2 + 0\<close>.
\<close>

theorem build_lookup_failure_counterexample:
  "atype_nloc_of ex_config 2 [[0, 5]] = Inr [0, 1]
   \<and> em_nei_type_vec (ex_op_echo [[0, 0, 0, 1, 0, 0]] [[0, 5]] ex_natoms
        [[9, 0, 0, 0, 9, 0, 0, 0, 9]] [] [] []) = [[5, 5, 0, 0]]
   \<and> build ex_config ex_nets ex_op_echo ex_coord [0, 5] ex_natoms ex_box [] ex_input_dict []
       = Inl LookupError"
proof -
  have an: "atype_nloc_of ex_config 2 [[0, 5]] = Inr [0, 1]"
    by (simp add: atype_nloc_of_def slice_cols_def clip_by_value_def ex_config_def)
  have ec: "em_nei_type_vec (ex_op_echo [[0, 0, 0, 1, 0, 0]] [[0, 5]] ex_natoms
        [[9, 0, 0, 0, 9, 0, 0, 0, 9]] [] [] []) = [[5, 5, 0, 0]]"
    by (simp add: ex_op_echo_def)
  let ?em = "ex_env_mat\<lparr>em_nei_type_vec := [[5, 5, 0, 0]]\<rparr>"
  have b: "build ex_config ex_nets ex_op_echo ex_coord [0, 5] ex_natoms ex_box [] ex_input_dict []
      = (case pass_filter ex_config ex_nets
            \<lparr>nei_type_vec = [5, 5, 0, 0], nmask = [[1, 1], [1, 1]],
             negative_mask = [[0, 0], [0, 0]]\<rparr> [] ex_inputs [0, 1] ex_natoms ex_input_dict of
           Inl err \<Rightarrow> Inl err
         | Inr (d, q) \<Rightarrow>
             Inr \<lparr>descrpt = em_descrpt ?em,
                  env_of = \<lparr>nei_type_vec = [5, 5, 0, 0], nmask = [[1, 1], [1, 1]],
                            negative_mask = [[0, 0], [0, 0]]\<rparr>,
                  descrpt_reshape = ex_inputs, atype_nloc = [0, 1], dout = d, qmat = q\<rparr>)"
  proof (rule build_pass_filter [where rest = "[1, 1]" and srest = "[]" and env_op = ex_op_echo
        and mesh = "[]"])
    show "ex_natoms = 2 # 2 # [1, 1]" by (simp add: ex_natoms_def)
    show "reshape_m1 (2 * 3) ex_coord = Inr [[0, 0, 0, 1, 0, 0]]"
      by (simp add: reshape_m1_def rows_of_def ex_coord_def)
    show "reshape_m1 9 ex_box = Inr [[9, 0, 0, 0, 9, 0, 0, 0, 9]]"
      by (simp add: reshape_m1_def rows_of_def ex_box_def)
    show "reshape_m1 2 [0, 5 :: int] = Inr [[0, 5]]"
      by (simp add: reshape_m1_def rows_of_def)
    show "sel_all_a ex_config = [2]" by (simp add: ex_config_def)
    show "ex_op_echo [[0, 0, 0, 1, 0, 0]] [[0, 5]] ex_natoms [[9, 0, 0, 0, 9, 0, 0, 0, 9]] []
        (case davg ex_config of
           None \<Rightarrow> replicate (nat (ntypes ex_config)) (replicate (ndescrpt ex_config) 0)
         | Some d \<Rightarrow> d)
        (case dstd ex_config of
           None \<Rightarrow> replicate (nat (ntypes ex_config)) (replicate (ndescrpt ex_config) 1)
         | Some d \<Rightarrow> d) = ?em"
      by (simp add: ex_op_echo_def)
    show "reshape_m1 2 (map of_bool (concat (em_nmask ?em))) = Inr [[1, 1], [1, 1 :: real]]"
      by (simp add: reshape_m1_def rows_of_def ex_env_mat_def upt_rec)
    show "\<lparr>nei_type_vec = concat (em_nei_type_vec ?em), nmask = [[1, 1], [1, 1]],
        negative_mask = map (map (\<lambda>m. - 8589934592 * (1 - m))) [[1, 1], [1, 1 :: real]]\<rparr>
        = \<lparr>nei_type_vec = [5, 5, 0, 0], nmask = [[1, 1], [1, 1]],
           negative_mask = [[0, 0], [0, 0]]\<rparr>"
      by simp
    show "reshape_m1 (ndescrpt ex_config) (concat (em_descrpt ?em)) = Inr ex_inputs"
      by (simp add: reshape_m1_def rows_of_def ex_env_mat_def ex_config_def ex_inputs_def upt_rec)
    show "atype_nloc_of ex_config 2 [[0, 5]] = Inr [0, 1]" by (rule an)
  qed
  show ?thesis using an ec b by (simp add: ex_pass_filter_echo)
qed

end
